theory Spec2Isabelle
  imports Main "HOL-Library.Multiset" "HOL-Library.Char_ord" "HOL-Library.List_Lexorder"
    "HOL-Library.Word"
begin

section \<open>Strings, errors and formatting\<close>

text \<open>
  Go strings are byte sequences; \<open>string\<close> (a list of 8-bit characters) models them.
  With \<open>Char_ord\<close> and \<open>List_Lexorder\<close> the order on \<open>string\<close> is the bytewise
  lexicographic order that Go's \<open><\<close> on strings and \<open>sort.Strings\<close> use.

  The functions of this section belong to Go's standard library (\<open>strings\<close>, \<open>strconv\<close>,
  \<open>fmt\<close>); they are written out from their documentation so that the models of the
  repository's own functions can be evaluated.
\<close>

text \<open>\<open>strings.HasPrefix s prefix\<close>.\<close>

fun HasPrefix :: "string \<Rightarrow> string \<Rightarrow> bool" where
  "HasPrefix s [] = True"
| "HasPrefix [] (p # ps) = False"
| "HasPrefix (c # cs) (p # ps) = (c = p \<and> HasPrefix cs ps)"

text \<open>\<open>strings.Contains s substr\<close>.\<close>

fun Contains :: "string \<Rightarrow> string \<Rightarrow> bool" where
  "Contains [] sub = (sub = [])"
| "Contains (c # cs) sub = (HasPrefix (c # cs) sub \<or> Contains cs sub)"

text \<open>
  \<open>strings.TrimSpace\<close> removes the leading and the trailing white space of a string,
  rune by rune: a rune is white space when \<open>unicode.IsSpace\<close> holds of it, that is for
  U+0009 to U+000D, U+0020, U+0085, U+00A0, U+1680, U+2000 to U+200A, U+2028, U+2029,
  U+202F, U+205F and U+3000. \<open>spaceRunes\<close> lists their UTF-8 encodings. Bytes that are
  not valid UTF-8 decode, one at a time, to U+FFFD, which is not white space, and each
  white-space rune has one valid encoding only; so a string starts (ends) with a
  white-space rune exactly when it starts (ends) with one of the listed byte sequences.
\<close>

definition spaceRunes :: "string list" where
  "spaceRunes =
     [[CHR 0x09], [CHR 0x0A], [CHR 0x0B], [CHR 0x0C], [CHR 0x0D], [CHR 0x20],
      [CHR 0xC2, CHR 0x85], [CHR 0xC2, CHR 0xA0],
      [CHR 0xE1, CHR 0x9A, CHR 0x80],
      [CHR 0xE2, CHR 0x80, CHR 0x80], [CHR 0xE2, CHR 0x80, CHR 0x81],
      [CHR 0xE2, CHR 0x80, CHR 0x82], [CHR 0xE2, CHR 0x80, CHR 0x83],
      [CHR 0xE2, CHR 0x80, CHR 0x84], [CHR 0xE2, CHR 0x80, CHR 0x85],
      [CHR 0xE2, CHR 0x80, CHR 0x86], [CHR 0xE2, CHR 0x80, CHR 0x87],
      [CHR 0xE2, CHR 0x80, CHR 0x88], [CHR 0xE2, CHR 0x80, CHR 0x89],
      [CHR 0xE2, CHR 0x80, CHR 0x8A],
      [CHR 0xE2, CHR 0x80, CHR 0xA8], [CHR 0xE2, CHR 0x80, CHR 0xA9],
      [CHR 0xE2, CHR 0x80, CHR 0xAF],
      [CHR 0xE2, CHR 0x81, CHR 0x9F],
      [CHR 0xE3, CHR 0x80, CHR 0x80]]"

text \<open>
  \<open>trimRunes runes s\<close> drops from the front of \<open>s\<close> every byte sequence of \<open>runes\<close>,
  as long as there is one. \<open>TrimSpace\<close> does so with \<open>spaceRunes\<close> at the front and then,
  on what is left, at the back.
\<close>

fun trimRunes :: "string list \<Rightarrow> string \<Rightarrow> string" where
  "trimRunes runes [] = []"
| "trimRunes runes (c # s) =
     (case find (HasPrefix (c # s)) runes of
        None \<Rightarrow> c # s
      | Some r \<Rightarrow> trimRunes runes (drop (length r - 1) s))"

definition TrimSpace :: "string \<Rightarrow> string" where
  "TrimSpace s = rev (trimRunes (map rev spaceRunes) (rev (trimRunes spaceRunes s)))"

text \<open>
  \<open>strconv.FormatUint n base\<close> for a base between 2 and 16, lower-case digits; also what
  the verbs \<open>%d\<close> and \<open>%x\<close> of \<open>fmt\<close> print for a non-negative integer.
\<close>

definition digitChar :: "nat \<Rightarrow> char" where
  "digitChar d = ''0123456789abcdef'' ! d"

fun digitsOf :: "nat \<Rightarrow> nat \<Rightarrow> string" where
  "digitsOf base n =
     (if base < 2 \<or> n < base then [digitChar n]
      else digitsOf base (n div base) @ [digitChar (n mod base)])"

declare digitsOf.simps [simp del]

definition FormatUint :: "nat \<Rightarrow> nat \<Rightarrow> string" where
  "FormatUint n base = digitsOf base n"

text \<open>\<open>%d\<close> of a Go \<open>int\<close>.\<close>

definition FormatInt :: "int \<Rightarrow> string" where
  "FormatInt i = (if i < 0 then CHR ''-'' # digitsOf 10 (nat (- i)) else digitsOf 10 (nat i))"

text \<open>
  Go errors. \<open>ExitError n\<close> is \<open>*ssh.ExitError\<close> of \<open>golang.org/x/crypto/ssh\<close> with
  exit status \<open>n\<close>; \<open>ErrorNew m\<close> is an error made by \<open>errors.New\<close>, by \<open>fmt.Errorf\<close>
  without \<open>%w\<close>, or by a library; \<open>Wrapf pre e post\<close> is
  \<open>fmt.Errorf("pre%wpost", e)\<close>, which keeps \<open>e\<close> reachable by \<open>errors.Unwrap\<close>.
\<close>

datatype error = ExitError int | ErrorNew string | Wrapf string error string

fun Error :: "error \<Rightarrow> string" where
  "Error (ExitError n) = ''Process exited with status '' @ FormatInt n"
| "Error (ErrorNew m) = m"
| "Error (Wrapf pre e post) = pre @ Error e @ post"

text \<open>\<open>errors.As(err, &ee)\<close> for \<open>ee\<close> of type \<open>*ssh.ExitError\<close>: the first exit error
  on the unwrap chain.\<close>

fun AsExitError :: "error \<Rightarrow> int option" where
  "AsExitError (ExitError n) = Some n"
| "AsExitError (ErrorNew m) = None"
| "AsExitError (Wrapf pre e post) = AsExitError e"

section \<open>Manifest editor\<close>

text \<open>
  Of \<open>corev1.Pod\<close> the editor reads and writes \<open>Spec.Containers[i].Name\<close> and
  \<open>Spec.Containers[i].Command\<close> only; \<open>Other\<close> stands for the rest of the document,
  which no function of the repository looks at.
\<close>

record Container =
  Name :: string
  Command :: "string list"

record Pod =
  Containers :: "Container list"
  Other :: string

text \<open>\<open>compareSlice\<close>: equal lengths and equal sorted copies.\<close>

definition compareSlice :: "string list \<Rightarrow> string list \<Rightarrow> bool" where
  "compareSlice a b =
     (if length a \<noteq> length b then False
      else sort a = sort b)"

text \<open>
  The loop of \<open>updateForceNewClusterCommand\<close> over \<open>pod.Spec.Containers\<close>: containers
  whose trimmed name differs are skipped, the first one that matches gets the new command
  and ends the loop (\<open>break\<close>). The result is \<open>None\<close> when \<open>containerFound\<close> stays false,
  otherwise the updated containers and \<open>configChanged\<close>.
\<close>

definition forceNewCmd :: "string list \<Rightarrow> bool \<Rightarrow> string list" where
  "forceNewCmd command add =
     filter (\<lambda>cmd. \<not> HasPrefix cmd ''--force-new-cluster'') command
       @ (if add then [''--force-new-cluster''] else [])"

fun forceNewLoop :: "string \<Rightarrow> bool \<Rightarrow> Container list \<Rightarrow> (Container list \<times> bool) option" where
  "forceNewLoop containerName add [] = None"
| "forceNewLoop containerName add (container # rest) =
     (if TrimSpace (Name container) \<noteq> containerName then
        (case forceNewLoop containerName add rest of
           None \<Rightarrow> None
         | Some (rest', configChanged) \<Rightarrow> Some (container # rest', configChanged))
      else
        (let newCmd = forceNewCmd (Command container) add;
             configChanged = (\<not> compareSlice (Command container) newCmd)
         in Some (container\<lparr>Command := newCmd\<rparr> # rest, configChanged)))"

definition updateForceNewClusterCommand ::
    "Pod \<Rightarrow> string \<Rightarrow> bool \<Rightarrow> Pod \<times> bool \<times> error option" where
  "updateForceNewClusterCommand pod containerName add =
     (case forceNewLoop containerName add (Containers pod) of
        None \<Rightarrow> (pod, False, Some (ErrorNew (''failed to find container name: '' @ containerName)))
      | Some (cs, configChanged) \<Rightarrow> (pod\<lparr>Containers := cs\<rparr>, configChanged, None))"

text \<open>\<open>updateEtcdManifestForExistingCluster\<close>, the same loop for the container \<open>etcd\<close>.\<close>

definition initialClusterCmd :: "string list \<Rightarrow> string \<Rightarrow> string \<Rightarrow> string list" where
  "initialClusterCmd command initialCluster initialClusterState =
     filter (\<lambda>c. \<not> HasPrefix c ''--initial-cluster'' \<and> \<not> HasPrefix c ''--initial-cluster-state'')
         command
       @ (if initialCluster \<noteq> [] then [''--initial-cluster='' @ initialCluster] else [])
       @ (if initialClusterState \<noteq> [] then [''--initial-cluster-state='' @ initialClusterState]
          else [])"

fun initialClusterLoop :: "string \<Rightarrow> string \<Rightarrow> Container list \<Rightarrow> Container list option" where
  "initialClusterLoop initialCluster initialClusterState [] = None"
| "initialClusterLoop initialCluster initialClusterState (container # rest) =
     (if TrimSpace (Name container) \<noteq> ''etcd'' then
        (case initialClusterLoop initialCluster initialClusterState rest of
           None \<Rightarrow> None
         | Some rest' \<Rightarrow> Some (container # rest'))
      else
        Some (container\<lparr>Command :=
                initialClusterCmd (Command container) initialCluster initialClusterState\<rparr> # rest))"

definition updateEtcdManifestForExistingCluster ::
    "Pod \<Rightarrow> string \<Rightarrow> string \<Rightarrow> Pod \<times> error option" where
  "updateEtcdManifestForExistingCluster pod initialCluster initialClusterState =
     (case initialClusterLoop initialCluster initialClusterState (Containers pod) of
        None \<Rightarrow> (pod, Some (ErrorNew ''etcd container not found in manifest''))
      | Some cs \<Rightarrow> (pod\<lparr>Containers := cs\<rparr>, None))"

text \<open>
  The argument list the editor addresses: the command of the first container whose
  trimmed name is the given one.
\<close>

definition argsOf :: "string \<Rightarrow> Pod \<Rightarrow> string list option" where
  "argsOf containerName pod =
     map_option Command (find (\<lambda>c. TrimSpace (Name c) = containerName) (Containers pod))"

text \<open>How many arguments are exactly \<open>a\<close>, and how many start with \<open>p\<close>.\<close>

definition countExact :: "string \<Rightarrow> string list \<Rightarrow> nat" where
  "countExact a args = length (filter (\<lambda>c. c = a) args)"

definition countPrefix :: "string \<Rightarrow> string list \<Rightarrow> nat" where
  "countPrefix p args = length (filter (\<lambda>c. HasPrefix c p) args)"

section \<open>Command task\<close>

record Check =
  ExpectedExitCode :: int
  ExpectedOutput :: string
  NotExpectedOutput :: string
  TimeoutSec :: int
  RetryIntervalSec :: int

record CommandTask =
  Description :: string
  Command :: string
  Check :: "Check option"

text \<open>
  One pass through the body of the loop of \<open>CommandTask.Run\<close>, given what
  \<open>client.Run(t.Command)\<close> returned. The body either returns the output, or goes round
  again: \<open>Again (Some e) True\<close> after \<open>lasterr = e; time.Sleep(interval); continue\<close>, and
  \<open>Again None False\<close> when the last \<open>if\<close> fails and control falls off the end of the body,
  which neither assigns \<open>lasterr\<close> nor sleeps.
\<close>

datatype attempt = Return string | Again "error option" bool

definition exitCodeOf :: "error option \<Rightarrow> int option" where
  "exitCodeOf err = (case err of None \<Rightarrow> Some 0 | Some e \<Rightarrow> AsExitError e)"

definition runAttempt :: "CommandTask \<Rightarrow> string \<times> error option \<Rightarrow> attempt" where
  "runAttempt t r =
     (case r of (out, err) \<Rightarrow>
       (case exitCodeOf err of
          None \<Rightarrow> Again err True
        | Some exitCode \<Rightarrow>
            (case CommandTask.Check t of
               None \<Rightarrow> (if err = None \<and> out \<noteq> [] then Return out else Again None False)
             | Some c \<Rightarrow>
                 if exitCode \<noteq> ExpectedExitCode c then
                   Again (Some (ErrorNew (''command '' @ [CHR 0x27] @ CommandTask.Command t @ [CHR 0x27]
                      @ '' validation failed: expected exit code '' @ FormatInt (ExpectedExitCode c)
                      @ '' but got '' @ FormatInt exitCode))) True
                 else if ExpectedOutput c \<noteq> [] \<and> \<not> Contains out (ExpectedOutput c) then
                   Again (Some (ErrorNew (''command '' @ [CHR 0x27] @ CommandTask.Command t @ [CHR 0x27]
                      @ '' validation failed: expected output : '' @ ExpectedOutput c
                      @ '' not found''))) True
                 else if NotExpectedOutput c \<noteq> [] \<and> Contains out (NotExpectedOutput c) then
                   Again (Some (ErrorNew (''command '' @ [CHR 0x27] @ CommandTask.Command t @ [CHR 0x27]
                      @ '' validation failed: not expected output : '' @ NotExpectedOutput c
                      @ '' found''))) True
                 else if err = None \<and> out \<noteq> [] then Return out
                 else Again None False)))"

text \<open>
  The loop \<open>for time.Since(start) < timeout\<close>. Time is counted in nanoseconds since
  \<open>start\<close>. The \<open>i\<close>-th call of \<open>client.Run\<close> answers \<open>answers i = (out, err, d)\<close> and
  takes \<open>1 + d\<close> nanoseconds: a remote command moves the monotonic clock.
  \<open>time.Sleep\<close> returns at once for a duration that is not positive. Beside what
  \<open>Run\<close> returns, the loop gives the number of calls of \<open>client.Run\<close> it has made.
\<close>

definition Second :: int where
  "Second = 1000000000"

text \<open>
  \<open>time.Duration\<close> is an \<open>int64\<close>: the product \<open>time.Duration(n) * time.Second\<close> wraps
  around.
\<close>

definition int64 :: "int \<Rightarrow> int" where
  "int64 x = (x + 2 ^ 63) mod 2 ^ 64 - 2 ^ 63"

function runLoop ::
    "CommandTask \<Rightarrow> int \<Rightarrow> int \<Rightarrow> (nat \<Rightarrow> string \<times> error option \<times> nat)
       \<Rightarrow> nat \<Rightarrow> int \<Rightarrow> error option \<Rightarrow> (string \<times> error option) \<times> nat" where
  "runLoop t timeout interval answers i elapsed lasterr =
     (if elapsed < timeout then
        (case answers i of (out, err, d) \<Rightarrow>
           (case runAttempt t (out, err) of
              Return s \<Rightarrow> ((s, None), Suc i)
            | Again e slept \<Rightarrow>
                runLoop t timeout interval answers (Suc i)
                  (elapsed + 1 + int d + (if slept then max 0 interval else 0))
                  (case e of None \<Rightarrow> lasterr | Some e' \<Rightarrow> Some e')))
      else
        (case lasterr of
           Some e \<Rightarrow> (([], Some (Wrapf (''command '' @ [CHR 0x27] @ CommandTask.Command t @ [CHR 0x27]
                                   @ '' failed after timed out, error: '') e [])), i)
         | None \<Rightarrow> (([], Some (ErrorNew (''command '' @ [CHR 0x27] @ CommandTask.Command t @ [CHR 0x27]
                                   @ '' failed after timed out''))), i)))"
  by pat_completeness auto
termination
  by (relation "measure (\<lambda>(t, timeout, interval, answers, i, elapsed, lasterr).
                   nat (timeout - elapsed))") auto

declare runLoop.simps [simp del]

text \<open>
  \<open>CommandTask.Run\<close>: ten seconds and one second unless the check gives positive values
  (Go \<open>int\<close>s, of 64 bits), which are multiplied by \<open>time.Second\<close> in \<open>int64\<close>.
  \<open>CommandTask_Run\<close> is what \<open>Run\<close> returns and \<open>CommandTask_calls\<close> how often it has
  called \<open>client.Run\<close>.
\<close>

definition CommandTask_loop ::
    "CommandTask \<Rightarrow> (nat \<Rightarrow> string \<times> error option \<times> nat) \<Rightarrow> (string \<times> error option) \<times> nat" where
  "CommandTask_loop t answers =
     (let timeout = (case CommandTask.Check t of
                       Some c \<Rightarrow> if TimeoutSec c > 0 then int64 (TimeoutSec c * Second) else 10 * Second
                     | None \<Rightarrow> 10 * Second);
          interval = (case CommandTask.Check t of
                       Some c \<Rightarrow> if RetryIntervalSec c > 0 then int64 (RetryIntervalSec c * Second)
                                 else Second
                     | None \<Rightarrow> Second)
      in runLoop t timeout interval answers 0 0 None)"

definition CommandTask_Run ::
    "CommandTask \<Rightarrow> (nat \<Rightarrow> string \<times> error option \<times> nat) \<Rightarrow> string \<times> error option" where
  "CommandTask_Run t answers = fst (CommandTask_loop t answers)"

definition CommandTask_calls :: "CommandTask \<Rightarrow> (nat \<Rightarrow> string \<times> error option \<times> nat) \<Rightarrow> nat" where
  "CommandTask_calls t answers = snd (CommandTask_loop t answers)"

section \<open>The outside world\<close>

text \<open>
  Everything the program does to the outside is a \<open>request\<close>; the trace of a run is the
  list of its requests in order. The environment answers a request with a pair
  \<open>(output, error)\<close>, and the answer may depend on all the requests made before, so that a
  command can answer differently each time it is retried.

  A run of a \<open>CommandTask\<close> against a connected client is one request (\<open>TaskRun\<close>), answered
  with what \<open>CommandTask.Run\<close> returns. The request stands for all that \<open>Run\<close> does on
  the way: its calls of \<open>client.Run\<close>, its sleeps and the lines it logs between them;
  the polling itself is the subject of \<open>CommandTask_Run\<close>. A client is named by the
  address it was dialled at.
\<close>

datatype AuthMethod = PasswordAuth string | PublicKeysAuth string

datatype request =
    ReadFile string
  | WriteFile string string
  | HostKeyCallback
  | Dial string string "AuthMethod list"
  | Close string
  | ClientRun string string
  | TaskRun string CommandTask
  | Upload string string string
  | Download string string string
  | Select string "string list"
  | Sleep int
  | Log string

type_synonym response = "string \<times> error option"

text \<open>
  A Go function either returns or panics. \<open>'a io\<close> takes the trace so far and gives the
  result and the extended trace.
\<close>

datatype 'a result = Value 'a | Panic string

type_synonym 'a io = "request list \<Rightarrow> 'a result \<times> request list"

definition ret :: "'a \<Rightarrow> 'a io" where
  "ret x = (\<lambda>tr. (Value x, tr))"

definition panic :: "string \<Rightarrow> 'a io" where
  "panic msg = (\<lambda>tr. (Panic msg, tr))"

definition andThen :: "'a io \<Rightarrow> ('a \<Rightarrow> 'b io) \<Rightarrow> 'b io" where
  "andThen m f = (\<lambda>tr. case m tr of
                         (Value x, tr') \<Rightarrow> f x tr'
                       | (Panic msg, tr') \<Rightarrow> (Panic msg, tr'))"

text \<open>\<open>defer\<close>: the deferred call runs when the body returns and when it panics.\<close>

definition deferring :: "'b io \<Rightarrow> 'a io \<Rightarrow> 'a io" where
  "deferring fin m = (\<lambda>tr. case m tr of (r, tr') \<Rightarrow> (r, snd (fin tr')))"

text \<open>
  The decoders of \<open>encoding/json\<close>, \<open>sigs.k8s.io/yaml\<close>, \<open>net/url\<close>, \<open>crypto/ssh\<close> and the
  path functions of \<open>os\<close> and \<open>path/filepath\<close> are parameters of the model, collected
  with the environment's answers in one record.
\<close>

record Host =
  Name :: string
  MemberName :: string
  Host :: string
  Username :: string
  Password :: string
  PrivateKey :: string
  Passphrase :: string
  BackedupManifest :: string

record Member =
  ID :: "64 word"
  Name :: string
  PeerURLs :: "string list"
  IsLearner :: bool

record ResponseHeader =
  MemberId :: "64 word"

record MemberListResponse =
  Header :: "ResponseHeader option"
  Members :: "Member list"

record MemberAddResponse =
  Member :: "Member option"

record StatusResponse =
  Errors :: "string list"

record epStatus =
  Ep :: string
  Resp :: "StatusResponse option"

record world =
  answer :: "request list \<Rightarrow> request \<Rightarrow> response"
  jsonMemberList :: "string \<Rightarrow> error + MemberListResponse"
  jsonMemberAdd :: "string \<Rightarrow> error + MemberAddResponse"
  jsonEpStatus :: "string \<Rightarrow> error + epStatus list"
  jsonHosts :: "string \<Rightarrow> error + Host list"
  yamlUnmarshal :: "string \<Rightarrow> error + Pod"
  yamlMarshal :: "Pod \<Rightarrow> error + string"
  urlHostname :: "string \<Rightarrow> string option"
  ParsePrivateKey :: "string \<Rightarrow> string \<Rightarrow> error + string"
  TempDir :: string
  filepathJoin :: "string \<Rightarrow> string \<Rightarrow> string"
  filepathBase :: "string \<Rightarrow> string"

definition call :: "world \<Rightarrow> request \<Rightarrow> response io" where
  "call w r = (\<lambda>tr. (Value (answer w tr r), tr @ [r]))"

section \<open>Hosts file and SSH client\<close>

text \<open>\<open>config.ParseHostFromFile\<close>: read the file, decode the JSON array, return it.\<close>

definition ParseHostFromFile :: "world \<Rightarrow> string \<Rightarrow> (Host list \<times> error option) io" where
  "ParseHostFromFile w path =
     andThen (call w (ReadFile path)) (\<lambda>(data, err).
       case err of
         Some e \<Rightarrow> ret ([], Some (Wrapf ''read file failed: '' e []))
       | None \<Rightarrow>
           (case jsonHosts w data of
              Inl e \<Rightarrow> ret ([], Some (Wrapf ''unmarshal json failed: '' e []))
            | Inr hosts \<Rightarrow> ret (hosts, None)))"

text \<open>\<open>validateParams\<close> of the \<open>repair\<close> command.\<close>

definition validateParams :: "Host list \<Rightarrow> string \<Rightarrow> error option" where
  "validateParams hosts mode =
     (if length hosts = 0 then
        Some (ErrorNew (''hosts.json should contain at least one Host, got: ''
                          @ FormatInt (int (length hosts))))
      else if mode = ''add'' \<and> length hosts = 1 then
        Some (ErrorNew (''hosts.json should contain at least two Host in 'add' mode, got: ''
                          @ FormatInt (int (length hosts))))
      else None)"

text \<open>\<open>getSigner\<close>, \<open>PrivateKey\<close>, \<open>Password\<close> and \<open>configureAuth\<close> of \<open>pkg/ssh/auth.go\<close>.\<close>

definition getSigner :: "world \<Rightarrow> string \<Rightarrow> string \<Rightarrow> (string \<times> error option) io" where
  "getSigner w prvFile passphrase =
     andThen (call w (ReadFile prvFile)) (\<lambda>(privateKey, err).
       case err of
         Some e \<Rightarrow> ret ([], Some (Wrapf ''could not read private key: '' e []))
       | None \<Rightarrow>
           (case ParsePrivateKey w privateKey passphrase of
              Inl e \<Rightarrow> ret ([], Some e)
            | Inr signer \<Rightarrow> ret (signer, None)))"

definition ssh_PrivateKey :: "world \<Rightarrow> string \<Rightarrow> string \<Rightarrow> (AuthMethod list \<times> error option) io" where
  "ssh_PrivateKey w prvFile passphrase =
     andThen (getSigner w prvFile passphrase) (\<lambda>(signer, err).
       case err of
         Some e \<Rightarrow> ret ([], Some e)
       | None \<Rightarrow> ret ([PublicKeysAuth signer], None))"

definition ssh_Password :: "string \<Rightarrow> AuthMethod list" where
  "ssh_Password pass = [PasswordAuth pass]"

definition configureAuth ::
    "world \<Rightarrow> string \<Rightarrow> string \<Rightarrow> string \<Rightarrow> (AuthMethod list \<times> error option) io" where
  "configureAuth w password privateKeyFile passphrase =
     (if password \<noteq> [] then ret (ssh_Password password, None)
      else if privateKeyFile \<noteq> [] then ssh_PrivateKey w privateKeyFile passphrase
      else ret ([], Some (ErrorNew ''no private key/password found to configure SSH auth'')))"

record Config =
  User :: string
  Host :: string
  Port :: int
  Password :: string
  PrivateKeyPath :: string
  PrivateKeyPassphrase :: string
  hostKeyCallBack :: "string option"

text \<open>
  \<open>configureHostKeyCallback\<close>: a callback of the caller's is taken as it is; otherwise the
  interactive one is built on the default known-hosts file, which touches the local file
  system and may fail (request \<open>HostKeyCallback\<close>).
\<close>

definition configureHostKeyCallback :: "world \<Rightarrow> string option \<Rightarrow> (string \<times> error option) io" where
  "configureHostKeyCallback w cb =
     (case cb of
        Some c \<Rightarrow> ret (c, None)
      | None \<Rightarrow> call w HostKeyCallback)"

text \<open>\<open>net.JoinHostPort\<close>.\<close>

definition JoinHostPort :: "string \<Rightarrow> string \<Rightarrow> string" where
  "JoinHostPort host port =
     (if CHR '':'' \<in> set host then ''['' @ host @ '']:'' @ port else host @ '':'' @ port)"

text \<open>
  \<open>ssh.NewClient\<close>. The client it returns is named by the address dialled; the
  connection time-out (20 seconds by default) is not part of the model.
\<close>

definition NewClient :: "world \<Rightarrow> Config \<Rightarrow> (string \<times> error option) io" where
  "NewClient w config =
     andThen (configureAuth w (Config.Password config) (PrivateKeyPath config)
                (PrivateKeyPassphrase config)) (\<lambda>(auth, err).
       case err of
         Some e \<Rightarrow> ret ([], Some (ErrorNew (''failed to configure auth: '' @ Error e)))
       | None \<Rightarrow>
           andThen (configureHostKeyCallback w (hostKeyCallBack config)) (\<lambda>(cb, err).
             case err of
               Some e \<Rightarrow> ret ([], Some (ErrorNew (''failed to configure hostKeyCallBack: '' @ Error e)))
             | None \<Rightarrow>
                 (let port = (if Port config = 0 then 22 else Port config);
                      addr = JoinHostPort (Config.Host config) (FormatInt port)
                  in andThen (call w (Dial addr (User config) auth)) (\<lambda>(out, err).
                       case err of
                         Some e \<Rightarrow> ret ([], Some e)
                       | None \<Rightarrow> ret (addr, None)))))"

text \<open>The configuration every caller in the repository builds from a host entry.\<close>

definition configOf :: "Host \<Rightarrow> Config" where
  "configOf h =
     \<lparr>User = Username h, Host = Host.Host h, Port = 0, Password = Host.Password h,
      PrivateKeyPath = PrivateKey h, PrivateKeyPassphrase = Passphrase h,
      hostKeyCallBack = None\<rparr>"

text \<open>\<open>Host.FetchMemberName\<close>; the deferred \<open>client.Close()\<close> runs after \<open>hostname\<close>.\<close>

definition FetchMemberName :: "world \<Rightarrow> Host \<Rightarrow> (string \<times> error option) io" where
  "FetchMemberName w h =
     (if MemberName h \<noteq> [] then ret (MemberName h, None)
      else
        andThen (NewClient w (configOf h)) (\<lambda>(client, err).
          case err of
            Some e \<Rightarrow> ret ([], Some (Wrapf (''failed to connect to host '' @ Host.Host h
                                            @ '' to fetch hostname: '') e []))
          | None \<Rightarrow>
              deferring (call w (Close client))
                (andThen (call w (ClientRun client ''hostname'')) (\<lambda>(out, err).
                   case err of
                     Some e \<Rightarrow> ret ([], Some (Wrapf ''failed to fetch hostname of remote machine: '' e []))
                   | None \<Rightarrow> ret (TrimSpace out, None)))))"

section \<open>Waiting for the etcd container\<close>

record WaitForEtcdRunningTask =
  Description :: string
  OldContainerID :: string
  TimeoutSec :: int
  RetryIntervalSec :: int

text \<open>The command task that \<open>WaitForEtcdRunningTask.Run\<close> builds, with its defaults.\<close>

definition waitCommandTask :: "WaitForEtcdRunningTask \<Rightarrow> CommandTask" where
  "waitCommandTask t =
     \<lparr>CommandTask.Description = ''Wait for etcd container to be running'',
      CommandTask.Command = ''sudo crictl ps --label io.kubernetes.container.name=etcd -q | head -n 1'',
      CommandTask.Check = Some
        \<lparr>Check.ExpectedExitCode = 0, Check.ExpectedOutput = [],
         Check.NotExpectedOutput = OldContainerID t,
         Check.TimeoutSec = (if WaitForEtcdRunningTask.TimeoutSec t = 0 then 120
                             else WaitForEtcdRunningTask.TimeoutSec t),
         Check.RetryIntervalSec = (if WaitForEtcdRunningTask.RetryIntervalSec t = 0 then 5
                                   else WaitForEtcdRunningTask.RetryIntervalSec t)\<rparr>\<rparr>"

definition WaitForEtcdRunningTask_Run ::
    "world \<Rightarrow> WaitForEtcdRunningTask \<Rightarrow> string \<Rightarrow> (string \<times> error option) io" where
  "WaitForEtcdRunningTask_Run w t client =
     andThen (call w (TaskRun client (waitCommandTask t))) (\<lambda>(out, err).
       case err of
         Some e \<Rightarrow> ret ([], Some e)
       | None \<Rightarrow>
           (let containerID = TrimSpace out
            in if containerID = [] then ret ([], Some (ErrorNew ''etcd container not running''))
               else andThen (call w (Log (''etcd container '' @ containerID @ '' is running'')))
                      (\<lambda>_. ret (containerID, None))))"

section \<open>Create-single-member task\<close>

record CreateSingleMemberClusterTask =
  Description :: string
  BackupManifest :: string

definition etcdctlPrefix :: "string \<Rightarrow> string \<Rightarrow> string" where
  "etcdctlPrefix endpoint containerID =
     ''sudo crictl exec '' @ TrimSpace containerID @ '' etcdctl --endpoints='' @ endpoint
       @ '' --cert /etc/kubernetes/pki/etcd/healthcheck-client.crt''
       @ '' --key /etc/kubernetes/pki/etcd/healthcheck-client.key''
       @ '' --cacert /etc/kubernetes/pki/etcd/ca.crt ''"

text \<open>
  \<open>isSingleMemberCluster\<close>. \<open>Header\<close> is a pointer in \<open>clientv3.MemberListResponse\<close>;
  reading \<open>Header.MemberId\<close> of a response decoded without a header panics.
\<close>

definition singleMemberTask :: "string \<Rightarrow> CommandTask" where
  "singleMemberTask containerID =
     \<lparr>CommandTask.Description = ''check if single-member cluster'',
      CommandTask.Command = etcdctlPrefix ''https://127.0.0.1:2379'' containerID @ ''member list -w json'',
      CommandTask.Check = Some \<lparr>Check.ExpectedExitCode = 0, Check.ExpectedOutput = [],
                                Check.NotExpectedOutput = [], Check.TimeoutSec = 60,
                                Check.RetryIntervalSec = 5\<rparr>\<rparr>"

definition isSingleMemberCluster :: "world \<Rightarrow> string \<Rightarrow> string \<Rightarrow> (string \<times> bool) io" where
  "isSingleMemberCluster w client containerID =
     andThen (call w (TaskRun client (singleMemberTask containerID))) (\<lambda>(out, err).
       case err of
         Some e \<Rightarrow> ret ([], False)
       | None \<Rightarrow>
           (case jsonMemberList w out of
              Inl e \<Rightarrow> ret ([], False)
            | Inr memberListResponse \<Rightarrow>
                if length (Members memberListResponse) = 1 then
                  ret (FormatUint (unat (Member.ID (Members memberListResponse ! 0))) 10, True)
                else
                  (case Header memberListResponse of
                     None \<Rightarrow> panic ''invalid memory address or nil pointer dereference''
                   | Some h \<Rightarrow> ret (FormatUint (unat (MemberId h)) 10, False))))"

definition waitForEtcdToBeHealthyCommandTask :: "string \<Rightarrow> CommandTask" where
  "waitForEtcdToBeHealthyCommandTask containerID =
     \<lparr>CommandTask.Description = ''Wait for etcd to be healthy'',
      CommandTask.Command = etcdctlPrefix ''127.0.0.1:2379'' containerID @ ''endpoint health --cluster'',
      CommandTask.Check = Some \<lparr>Check.ExpectedExitCode = 0, Check.ExpectedOutput = ''is healthy'',
                                Check.NotExpectedOutput = [], Check.TimeoutSec = 600,
                                Check.RetryIntervalSec = 10\<rparr>\<rparr>"

definition waitForEtcdHealthyCommandTask :: "world \<Rightarrow> string \<Rightarrow> string \<Rightarrow> error option io" where
  "waitForEtcdHealthyCommandTask w client containerID =
     andThen (call w (TaskRun client (waitForEtcdToBeHealthyCommandTask containerID)))
       (\<lambda>(out, err). ret err)"

text \<open>
  The tail shared by the three places where \<open>Run\<close> has a container to check: wait for
  health, then require a single member.
\<close>

definition healthyAndSingle ::
    "world \<Rightarrow> string \<Rightarrow> string \<Rightarrow> string \<Rightarrow> string \<Rightarrow> (string \<times> error option) io" where
  "healthyAndSingle w client containerID memberID healthMsg =
     andThen (waitForEtcdHealthyCommandTask w client containerID) (\<lambda>err.
       case err of
         Some e \<Rightarrow> ret (memberID, Some (Wrapf healthMsg e []))
       | None \<Rightarrow>
           andThen (isSingleMemberCluster w client containerID) (\<lambda>(memberID, isSingleMember).
             if \<not> isSingleMember then
               ret (memberID, Some (ErrorNew ''failed to create a single-member cluster''))
             else ret (memberID, None)))"

text \<open>
  Serialise the pod, write it to the temporary file \<open>etcd-no-force.yaml\<close>, upload it over
  the live manifest, wait for a container other than \<open>oldID\<close>, then \<open>healthyAndSingle\<close>.
  Both branches of \<open>Run\<close> end so; they differ in how they wrap the errors (\<open>wrapped\<close>).
\<close>

definition uploadNoForce ::
    "world \<Rightarrow> string \<Rightarrow> WaitForEtcdRunningTask \<Rightarrow> Pod \<Rightarrow> string \<Rightarrow> string \<Rightarrow> bool \<Rightarrow> string
       \<Rightarrow> (string \<times> error option) io" where
  "uploadNoForce w client waitTask pod oldID memberID wrapped healthMsg =
     (case yamlMarshal w pod of
        Inl e \<Rightarrow> ret (memberID, Some (if wrapped then Wrapf ''failed to marshal manifest: '' e [] else e))
      | Inr etcdYamlNoForce \<Rightarrow>
          (let tmpNoForce = filepathJoin w (TempDir w) ''etcd-no-force.yaml''
           in andThen (call w (WriteFile tmpNoForce etcdYamlNoForce)) (\<lambda>(out, err).
                case err of
                  Some e \<Rightarrow> ret (memberID,
                              Some (if wrapped then Wrapf ''failed to write temp manifest: '' e [] else e))
                | None \<Rightarrow>
                    andThen (call w (Upload client tmpNoForce ''/etc/kubernetes/manifests/etcd.yaml''))
                      (\<lambda>(out, err).
                        case err of
                          Some e \<Rightarrow> ret (memberID,
                                      Some (if wrapped then Wrapf ''failed to upload manifest: '' e [] else e))
                        | None \<Rightarrow>
                            andThen (WaitForEtcdRunningTask_Run w (waitTask\<lparr>OldContainerID := oldID\<rparr>) client)
                              (\<lambda>(newContainerID, err).
                                case err of
                                  Some e \<Rightarrow> ret (memberID, Some (Wrapf ''etcd did not restart: '' e []))
                                | None \<Rightarrow> healthyAndSingle w client newContainerID memberID healthMsg)))))"

text \<open>
  The arm of \<open>Run\<close> for a running container (\<open>oldContainerID != ""\<close>).
\<close>

definition createFromRunning ::
    "world \<Rightarrow> CreateSingleMemberClusterTask \<Rightarrow> string \<Rightarrow> WaitForEtcdRunningTask \<Rightarrow> string
       \<Rightarrow> (string \<times> error option) io" where
  "createFromRunning w t client waitForEtcdRunningTask oldContainerID =
     andThen (isSingleMemberCluster w client oldContainerID) (\<lambda>(memberID, isSingleMember).
       if \<not> isSingleMember then
         andThen (call w (Log (''WARNING: the etcd instance is part of a multi-member cluster; ''
                              @ ''aborting single-member cluster creation'')))
           (\<lambda>_. ret (memberID, None))
       else
         (let localEtcdPath = filepathJoin w (TempDir w) (filepathBase w (BackupManifest t))
          in andThen (call w (Download client ''/etc/kubernetes/manifests/etcd.yaml'' localEtcdPath))
               (\<lambda>(out, err).
                 case err of
                   Some e \<Rightarrow> ret (memberID, Some e)
                 | None \<Rightarrow>
                     andThen (call w (ReadFile localEtcdPath)) (\<lambda>(backupEtcdYaml, err).
                       case err of
                         Some e \<Rightarrow> ret (memberID, Some e)
                       | None \<Rightarrow>
                           (case yamlUnmarshal w backupEtcdYaml of
                              Inl e \<Rightarrow> ret (memberID, Some e)
                            | Inr pod \<Rightarrow>
                                (case updateForceNewClusterCommand pod ''etcd'' False of
                                   (pod, isManifestChanged, err) \<Rightarrow>
                                     (case err of
                                        Some e \<Rightarrow> ret (memberID,
                                            Some (Wrapf ''failed to remove --force-new-cluster flag, err: '' e []))
                                      | None \<Rightarrow>
                                          if isManifestChanged then
                                            uploadNoForce w client waitForEtcdRunningTask pod
                                              oldContainerID memberID False ''etcd health check failed: ''
                                          else
                                            healthyAndSingle w client oldContainerID memberID
                                              ''final etcd health check failed: '')))))))"

text \<open>The arm of \<open>Run\<close> for a host without a running container.\<close>

definition createFromBackup ::
    "world \<Rightarrow> CreateSingleMemberClusterTask \<Rightarrow> string \<Rightarrow> WaitForEtcdRunningTask
       \<Rightarrow> (string \<times> error option) io" where
  "createFromBackup w t client waitForEtcdRunningTask =
     andThen (call w (Log ''etcd container is not running, proceeding with single-member cluster creation''))
       (\<lambda>_.
     let memberID = []; localEtcdPath = filepathJoin w (TempDir w) (filepathBase w (BackupManifest t))
     in andThen (call w (Download client (BackupManifest t) localEtcdPath)) (\<lambda>(out, err).
       case err of
         Some e \<Rightarrow> ret (memberID, Some (Wrapf ''failed to download backup manifest: '' e []))
       | None \<Rightarrow>
     andThen (call w (ReadFile localEtcdPath)) (\<lambda>(backupEtcdYaml, err).
       case err of
         Some e \<Rightarrow> ret (memberID, Some (Wrapf ''failed to read backup manifest: '' e []))
       | None \<Rightarrow>
     (case yamlUnmarshal w backupEtcdYaml of
        Inl e \<Rightarrow> ret (memberID, Some (Wrapf ''failed to unmarshal manifest: '' e []))
      | Inr pod \<Rightarrow>
     (case updateForceNewClusterCommand pod ''etcd'' True of (pod, changed, err) \<Rightarrow>
     (case err of
        Some e \<Rightarrow> ret (memberID, Some (Wrapf ''failed to add --force-new-cluster flag, err: '' e []))
      | None \<Rightarrow>
     (case yamlMarshal w pod of
        Inl e \<Rightarrow> ret (memberID, Some (Wrapf ''failed to marshal manifest: '' e []))
      | Inr etcdYamlWithForce \<Rightarrow>
     (let tmpWithForce = filepathJoin w (TempDir w) ''etcd-force.yaml''
      in andThen (call w (WriteFile tmpWithForce etcdYamlWithForce)) (\<lambda>(out, err).
       case err of
         Some e \<Rightarrow> ret (memberID, Some (Wrapf ''failed to write temp manifest: '' e []))
       | None \<Rightarrow>
     andThen (call w (Upload client tmpWithForce ''/etc/kubernetes/manifests/etcd.yaml'')) (\<lambda>(out, err).
       case err of
         Some e \<Rightarrow> ret (memberID, Some (Wrapf ''failed to upload manifest: '' e []))
       | None \<Rightarrow>
     andThen (WaitForEtcdRunningTask_Run w waitForEtcdRunningTask client) (\<lambda>(containerID, err).
       case err of
         Some e \<Rightarrow> ret (memberID, Some (Wrapf ''etcd container didn't start in time: '' e []))
       | None \<Rightarrow>
     andThen (waitForEtcdHealthyCommandTask w client containerID) (\<lambda>err.
       case err of
         Some e \<Rightarrow> ret (memberID, Some (Wrapf ''etcd did not become healthy: '' e []))
       | None \<Rightarrow>
     (case updateForceNewClusterCommand pod ''etcd'' False of (pod, changed, err) \<Rightarrow>
     (case err of
        Some e \<Rightarrow> ret (memberID, Some (Wrapf ''failed to remove --force-new-cluster flag, err: '' e []))
      | None \<Rightarrow>
          uploadNoForce w client waitForEtcdRunningTask pod containerID memberID True
            ''final etcd health check failed: ''))))))))))))))"

text \<open>
  \<open>CreateSingleMemberClusterTask.Run\<close>. An error of the first wait is logged and
  otherwise ignored; the wait task is then given 600 seconds for the later waits.
\<close>

definition waitForEtcdRunningTask :: WaitForEtcdRunningTask where
  "waitForEtcdRunningTask =
     \<lparr>WaitForEtcdRunningTask.Description = ''Get etcd container ID'',
      OldContainerID = [],
      WaitForEtcdRunningTask.TimeoutSec = 15,
      WaitForEtcdRunningTask.RetryIntervalSec = 5\<rparr>"

definition CreateSingleMemberClusterTask_Run ::
    "world \<Rightarrow> CreateSingleMemberClusterTask \<Rightarrow> string \<Rightarrow> (string \<times> error option) io" where
  "CreateSingleMemberClusterTask_Run w t client =
     andThen (WaitForEtcdRunningTask_Run w waitForEtcdRunningTask client) (\<lambda>(oldContainerID, err).
       andThen (case err of
                  Some e \<Rightarrow> call w (Log (''etcd container didn't start: '' @ Error e))
                | None \<Rightarrow> ret ([], None))
         (\<lambda>_.
           let waitForEtcdRunningTask' =
                 waitForEtcdRunningTask\<lparr>WaitForEtcdRunningTask.TimeoutSec := 600,
                                        WaitForEtcdRunningTask.RetryIntervalSec := 5\<rparr>
           in if oldContainerID \<noteq> [] then
                createFromRunning w t client waitForEtcdRunningTask' oldContainerID
              else
                createFromBackup w t client waitForEtcdRunningTask'))"

section \<open>Add-member task\<close>

text \<open>
  The progress lines that the functions of \<open>add_member_task.go\<close> write with
  \<open>log.Printf\<close> decide nothing and are left out of the trace; every command, sleep,
  file transfer and prompt is in it, and so is the line that
  \<open>WaitForEtcdRunningTask.Run\<close> logs.
\<close>

record AddMemberTask =
  Description :: string
  Master :: Host
  Learner :: Host
  AllHosts :: "Host list"

text \<open>\<open>strings.Join\<close> and \<open>strings.TrimSuffix\<close>.\<close>

fun Join :: "string list \<Rightarrow> string \<Rightarrow> string" where
  "Join [] sep = []"
| "Join [x] sep = x"
| "Join (x # y # ys) sep = x @ sep @ Join (y # ys) sep"

definition TrimSuffix :: "string \<Rightarrow> string \<Rightarrow> string" where
  "TrimSuffix s suffix =
     (if HasPrefix (rev s) (rev suffix) then take (length s - length suffix) s else s)"

text \<open>\<open>execEtcdctl\<close>: one command task of 30 seconds, polling every 5.\<close>

definition cmdTask :: "string \<Rightarrow> string list \<Rightarrow> CommandTask" where
  "cmdTask containerID args =
     \<lparr>CommandTask.Description = ''Execute etcdctl command'',
      CommandTask.Command = etcdctlPrefix ''https://127.0.0.1:2379'' containerID @ Join args '' '',
      CommandTask.Check = Some \<lparr>Check.ExpectedExitCode = 0, Check.ExpectedOutput = [],
                                Check.NotExpectedOutput = [], Check.TimeoutSec = 30,
                                Check.RetryIntervalSec = 5\<rparr>\<rparr>"

definition execEtcdctl :: "world \<Rightarrow> string \<Rightarrow> string \<Rightarrow> string list \<Rightarrow> (string \<times> error option) io" where
  "execEtcdctl w client containerID args = call w (TaskRun client (cmdTask containerID args))"

definition waitTask :: WaitForEtcdRunningTask where
  "waitTask = \<lparr>WaitForEtcdRunningTask.Description = ''Get etcd container ID'',
                 OldContainerID = [],
                 WaitForEtcdRunningTask.TimeoutSec = 300,
                 WaitForEtcdRunningTask.RetryIntervalSec = 5\<rparr>"

definition getEtcdContainerID :: "world \<Rightarrow> string \<Rightarrow> (string \<times> error option) io" where
  "getEtcdContainerID w client =
     andThen (WaitForEtcdRunningTask_Run w waitTask client) (\<lambda>(containerID, err).
       case err of
         Some e \<Rightarrow> ret ([], Some e)
       | None \<Rightarrow> ret (TrimSpace containerID, None))"

text \<open>
  \<open>validateClusterStatus\<close>. \<open>Resp\<close> is a pointer; the loop reads \<open>s.Resp.Errors\<close> of each
  entry in order and panics at an entry decoded without a status.
\<close>

fun allWithoutErrors :: "epStatus list \<Rightarrow> bool result" where
  "allWithoutErrors [] = Value True"
| "allWithoutErrors (s # rest) =
     (case Resp s of
        None \<Rightarrow> Panic ''invalid memory address or nil pointer dereference''
      | Some r \<Rightarrow> if length (Errors r) > 0 then Value False else allWithoutErrors rest)"

definition validateClusterStatus :: "world \<Rightarrow> string \<Rightarrow> bool result" where
  "validateClusterStatus w output =
     (case jsonEpStatus w output of
        Inl e \<Rightarrow> Value False
      | Inr memberStatusResponse \<Rightarrow>
          if length memberStatusResponse = 0 then Value False
          else allWithoutErrors memberStatusResponse)"

text \<open>
  \<open>waitForClusterOrMemberStatusHealthy\<close>: the loop
  \<open>for attempt := 0; attempt < maxRetries; attempt++\<close>, with the sleep of five seconds
  after every attempt that does not return.
\<close>

function healthyLoop ::
    "world \<Rightarrow> string \<Rightarrow> string \<Rightarrow> string list \<Rightarrow> string \<Rightarrow> nat \<Rightarrow> nat \<Rightarrow> error option io" where
  "healthyLoop w client containerID args msg maxRetries attempt =
     (if attempt < maxRetries then
        andThen (execEtcdctl w client containerID args) (\<lambda>(out, err).
          case (case err of
                  None \<Rightarrow> validateClusterStatus w out
                | Some e \<Rightarrow> Value False) of
            Panic p \<Rightarrow> panic p
          | Value True \<Rightarrow> ret None
          | Value False \<Rightarrow>
              andThen (call w (Sleep 5)) (\<lambda>_.
                healthyLoop w client containerID args msg maxRetries (Suc attempt)))
      else
        ret (Some (ErrorNew (msg @ '' did not become healthy after '' @ FormatInt (int maxRetries)
                               @ '' attempts''))))"
  by pat_completeness auto
termination
  by (relation "measure (\<lambda>(w, client, containerID, args, msg, maxRetries, attempt).
                   maxRetries - attempt)") auto

declare healthyLoop.simps [simp del]

definition waitForClusterOrMemberStatusHealthy ::
    "world \<Rightarrow> string \<Rightarrow> string \<Rightarrow> bool \<Rightarrow> error option io" where
  "waitForClusterOrMemberStatusHealthy w client containerID cluster =
     (let msg = (if cluster then ''cluster'' else ''current member'');
          args = [''endpoint'', ''status'', ''-w'', ''json''] @ (if cluster then [''--cluster''] else [])
      in healthyLoop w client containerID args msg 20 0)"

text \<open>
  \<open>promoteLearner\<close>: the same shape of loop, fifty attempts; \<open>lastErr\<close> is the error of
  the latest attempt. The two branches on the text of the error differ in the line they
  log and in nothing else.
\<close>

function promoteLoop ::
    "world \<Rightarrow> string \<Rightarrow> string \<Rightarrow> string \<Rightarrow> nat \<Rightarrow> nat \<Rightarrow> error option \<Rightarrow> error option io" where
  "promoteLoop w client containerID MemberID maxRetries attempt lastErr =
     (if attempt < maxRetries then
        andThen (execEtcdctl w client containerID [''member'', ''promote'', TrimSpace MemberID])
          (\<lambda>(out, err).
            case err of
              None \<Rightarrow> ret None
            | Some e \<Rightarrow>
                andThen (call w (Sleep 5)) (\<lambda>_.
                  promoteLoop w client containerID MemberID maxRetries (Suc attempt) (Some e)))
      else
        ret (Some (case lastErr of
                     Some e \<Rightarrow> Wrapf (''failed to promote member after '' @ FormatInt (int maxRetries)
                                        @ '' attempts: '') e []
                   | None \<Rightarrow> ErrorNew (''failed to promote member after '' @ FormatInt (int maxRetries)
                                          @ '' attempts: %!w(<nil>)''))))"
  by pat_completeness auto
termination
  by (relation "measure (\<lambda>(w, client, containerID, MemberID, maxRetries, attempt, lastErr).
                   maxRetries - attempt)") auto

declare promoteLoop.simps [simp del]

definition promoteLearner :: "world \<Rightarrow> string \<Rightarrow> string \<Rightarrow> string \<Rightarrow> error option io" where
  "promoteLearner w client containerID MemberID =
     promoteLoop w client containerID MemberID 50 0 None"

text \<open>
  \<open>extractIPFromPeerURL\<close>: \<open>url.Parse\<close> followed by \<open>Hostname()\<close>, the empty string
  when the URL does not parse.
\<close>

definition extractIPFromPeerURL :: "world \<Rightarrow> string \<Rightarrow> string" where
  "extractIPFromPeerURL w rawURL = (case urlHostname w rawURL of None \<Rightarrow> [] | Some h \<Rightarrow> h)"

definition getMembers ::
    "world \<Rightarrow> string \<Rightarrow> string \<Rightarrow> (MemberListResponse option \<times> error option) io" where
  "getMembers w client containerID =
     andThen (execEtcdctl w client containerID [''member'', ''list'', ''-w'', ''json'']) (\<lambda>(out, err).
       case err of
         Some e \<Rightarrow> ret (None, Some (Wrapf ''failed to list members: '' e []))
       | None \<Rightarrow>
           (case jsonMemberList w out of
              Inl e \<Rightarrow> ret (None, Some (Wrapf ''failed to parse member list: '' e []))
            | Inr resp \<Rightarrow> ret (Some resp, None)))"

text \<open>
  The inner loop of \<open>querryMember\<close> over \<open>member.PeerURLs\<close>: some peer URL of the
  member has the learner's address as its host.
\<close>

definition atLearnerHost :: "world \<Rightarrow> AddMemberTask \<Rightarrow> Member \<Rightarrow> bool" where
  "atLearnerHost w t member =
     list_ex (\<lambda>peerURL. extractIPFromPeerURL w peerURL \<noteq> []
                       \<and> extractIPFromPeerURL w peerURL = Host.Host (Learner t))
       (PeerURLs member)"

text \<open>
  \<open>querryMember\<close>: the first member, in the order of the response, that the inner loop
  accepts.
\<close>

definition querryMember ::
    "world \<Rightarrow> AddMemberTask \<Rightarrow> string \<Rightarrow> string \<Rightarrow> (Member option \<times> error option) io" where
  "querryMember w t client containerID =
     andThen (getMembers w client containerID) (\<lambda>(membersResp, err).
       case err of
         Some e \<Rightarrow> ret (None, Some e)
       | None \<Rightarrow>
           andThen (FetchMemberName w (Learner t)) (\<lambda>(learnerMemberName, err).
             case err of
               Some e \<Rightarrow> ret (None, Some (Wrapf ''failed to get learner member name: '' e []))
             | None \<Rightarrow>
                 (case membersResp of
                    None \<Rightarrow> panic ''invalid memory address or nil pointer dereference''
                  | Some resp \<Rightarrow>
                      ret (find (atLearnerHost w t) (Members resp), None))))"

definition fetchLearnerMembers :: "world \<Rightarrow> string \<Rightarrow> string \<Rightarrow> Member list io" where
  "fetchLearnerMembers w client containerID =
     andThen (getMembers w client containerID) (\<lambda>(membersResp, err).
       case err of
         Some e \<Rightarrow> ret []
       | None \<Rightarrow>
           (case membersResp of
              None \<Rightarrow> panic ''invalid memory address or nil pointer dereference''
            | Some resp \<Rightarrow> ret (filter IsLearner (Members resp))))"

definition isKnownHost :: "world \<Rightarrow> AddMemberTask \<Rightarrow> string \<Rightarrow> bool" where
  "isKnownHost w t peerURL =
     list_ex (\<lambda>h. Host.Host h = extractIPFromPeerURL w peerURL) (AllHosts t)"

definition removeMember :: "world \<Rightarrow> string \<Rightarrow> string \<Rightarrow> string \<Rightarrow> error option io" where
  "removeMember w client containerID memberID =
     andThen (execEtcdctl w client containerID [''member'', ''remove'', memberID]) (\<lambda>(out, err).
       case err of
         Some e \<Rightarrow>
           if Contains out ''Member not found'' then ret None
           else ret (Some (Wrapf (''failed to remove member '' @ memberID @ '': '') e []))
       | None \<Rightarrow> ret None)"

text \<open>
  \<open>handleOtherLearnersIfExists\<close>. \<open>otherLearnerMembers[0].PeerURLs[0]\<close> panics for a
  learner listed without a peer URL.
\<close>

definition handleOtherLearnersIfExists ::
    "world \<Rightarrow> AddMemberTask \<Rightarrow> string \<Rightarrow> string \<Rightarrow> error option io" where
  "handleOtherLearnersIfExists w t masterClient containerID =
     andThen (fetchLearnerMembers w masterClient containerID) (\<lambda>otherLearnerMembers.
       if length otherLearnerMembers = 0 then ret None
       else if length otherLearnerMembers > 1 then
         ret (Some (ErrorNew (''found '' @ FormatInt (int (length otherLearnerMembers))
                                @ '' learners, expected 0 or 1'')))
       else
         (case PeerURLs (otherLearnerMembers ! 0) of
            [] \<Rightarrow> panic ''index out of range [0] with length 0''
          | peerURL # _ \<Rightarrow>
              (let learnerIP = extractIPFromPeerURL w peerURL
               in if isKnownHost w t peerURL then
                    ret (Some (ErrorNew (''Another learner vm ('' @ learnerIP
                       @ '') has been added but not started yet. Please add it again first.'')))
                  else
                    (let hexID = FormatUint (unat (Member.ID (otherLearnerMembers ! 0))) 16
                     in andThen (removeMember w masterClient containerID hexID) (\<lambda>err.
                          case err of
                            Some e \<Rightarrow> ret (Some (Wrapf (''failed to remove unknown learner '' @ hexID
                                                        @ '': '') e []))
                          | None \<Rightarrow> ret None)))))"

text \<open>
  \<open>addMemberToCluster\<close>. \<open>Member\<close> is a pointer in \<open>clientv3.MemberAddResponse\<close>.
\<close>

definition addMemberToCluster ::
    "world \<Rightarrow> AddMemberTask \<Rightarrow> string \<Rightarrow> string \<Rightarrow> bool \<Rightarrow> (64 word \<times> error option) io" where
  "addMemberToCluster w t masterClient containerID isLearner =
     (let peerURLs = ''https://'' @ Host.Host (Learner t) @ '':2380''
      in andThen (FetchMemberName w (Learner t)) (\<lambda>(learnerMemberName, err).
           case err of
             Some e \<Rightarrow> ret (0, Some (Wrapf ''failed to get learner member name: '' e []))
           | None \<Rightarrow>
               (let args = [''member'', ''add'', learnerMemberName, ''--peer-urls='' @ peerURLs,
                            ''-w'', ''json''] @ (if isLearner then [''--learner''] else [])
                in andThen (execEtcdctl w masterClient containerID args) (\<lambda>(out, err).
                     case err of
                       Some e \<Rightarrow>
                         if Contains out ''Error: etcdserver: Peer URLs already exists'' then ret (0, None)
                         else ret (0, Some (Wrapf ''failed to add member: '' e []))
                     | None \<Rightarrow>
                         (case jsonMemberAdd w out of
                            Inl e \<Rightarrow> ret (0, Some (Wrapf (''unmarshal adding learner ('' @ learnerMemberName
                                                          @ '') response failed: '') e
                                                        ('', output: '' @ out)))
                          | Inr addResponse \<Rightarrow>
                              (case MemberAddResponse.Member addResponse of
                                 None \<Rightarrow> panic ''invalid memory address or nil pointer dereference''
                               | Some m \<Rightarrow> ret (Member.ID m, None)))))))"

text \<open>
  \<open>addOrPromoteLearner\<close>: \<open>True\<close> when the learner is (now) a voting member, \<open>False\<close>
  when it has been added or was found added and not started.
\<close>

definition addOrPromoteLearner :: "world \<Rightarrow> AddMemberTask \<Rightarrow> string \<Rightarrow> (bool \<times> error option) io" where
  "addOrPromoteLearner w t masterClient =
     andThen (getEtcdContainerID w masterClient) (\<lambda>(containerID, err).
       case err of
         Some e \<Rightarrow> ret (False, Some (Wrapf ''failed to get etcd container ID: '' e []))
       | None \<Rightarrow>
     andThen (waitForClusterOrMemberStatusHealthy w masterClient containerID True) (\<lambda>err.
       case err of
         Some e \<Rightarrow> ret (False, Some (Wrapf ''cluster health check failed: '' e []))
       | None \<Rightarrow>
     andThen (querryMember w t masterClient containerID) (\<lambda>(member, err).
       case err of
         Some e \<Rightarrow> ret (False, Some (Wrapf ''failed to check member existence: '' e []))
       | None \<Rightarrow>
     (case member of
        Some m \<Rightarrow>
          if IsLearner m then
            if Member.Name m = [] then ret (False, None)
            else
              andThen (promoteLearner w masterClient containerID (FormatUint (unat (Member.ID m)) 16))
                (\<lambda>err.
                  case err of
                    Some e \<Rightarrow> ret (False, Some (Wrapf ''failed to promote learner: '' e []))
                  | None \<Rightarrow> ret (True, None))
          else ret (True, None)
      | None \<Rightarrow>
          andThen (handleOtherLearnersIfExists w t masterClient containerID) (\<lambda>err.
            case err of
              Some e \<Rightarrow> ret (False, Some e)
            | None \<Rightarrow>
                andThen (addMemberToCluster w t masterClient containerID True) (\<lambda>(memberID, err).
                  case err of
                    Some e \<Rightarrow> ret (False, Some (Wrapf (''failed to add member '' @ Host.Name (Learner t)
                                      @ '' ('' @ Host.Host (Learner t) @ ''): '') e []))
                  | None \<Rightarrow> ret (False, None)))))))"

text \<open>\<open>cleanupLocalDataOnLearner\<close>; \<open>cliui.Select\<close> answers with the chosen option.\<close>

definition cleanupLocalDataOnLearner :: "world \<Rightarrow> string \<Rightarrow> Host \<Rightarrow> string \<Rightarrow> error option io" where
  "cleanupLocalDataOnLearner w client learner dataDir0 =
     (let dataDir1 = TrimSuffix dataDir0 ''/'';
          dataDir = (if dataDir1 = [] then ''/var/lib/etcd/member'' else dataDir1)
      in andThen (call w (ClientRun client (''sudo test -d '' @ dataDir))) (\<lambda>(out, err).
           case err of
             Some e \<Rightarrow> ret None
           | None \<Rightarrow>
               andThen (call w (Select (''The data directory ('' @ dataDir
                                         @ '') must be deleted before member '' @ Host.Name learner
                                         @ '' can join. Continue?'') [''yes'', ''no'']))
                 (\<lambda>(decision, err).
                   case err of
                     Some e \<Rightarrow> ret (Some (Wrapf ''no selection made: '' e []))
                   | None \<Rightarrow>
                       if decision \<noteq> ''yes'' then
                         ret (Some (ErrorNew ''user did not confirm data cleanup''))
                       else
                         andThen (call w (ClientRun client (''sudo -i rm -rf '' @ dataDir)))
                           (\<lambda>(out, err).
                             case err of
                               Some e \<Rightarrow> ret (Some (Wrapf ''failed to remove directory: '' e []))
                             | None \<Rightarrow> ret None))))"

text \<open>The loop of \<open>buildInitialClusterString\<close> that collects \<open>name=peer-url\<close>.\<close>

fun initialClusterParts :: "string \<Rightarrow> string \<Rightarrow> Member list \<Rightarrow> string list" where
  "initialClusterParts learnerHost learnerMemberName [] = []"
| "initialClusterParts learnerHost learnerMemberName (member # rest) =
     (case PeerURLs member of
        [] \<Rightarrow> initialClusterParts learnerHost learnerMemberName rest
      | peerURL # _ \<Rightarrow>
          (let name = (if Member.Name member = [] \<and> Contains peerURL learnerHost
                       then learnerMemberName else Member.Name member)
           in (if name \<noteq> [] then [name @ ''='' @ peerURL] else [])
                @ initialClusterParts learnerHost learnerMemberName rest))"

definition buildInitialClusterString ::
    "world \<Rightarrow> AddMemberTask \<Rightarrow> string \<Rightarrow> (string \<times> error option) io" where
  "buildInitialClusterString w t masterClient =
     andThen (getEtcdContainerID w masterClient) (\<lambda>(containerID, err).
       case err of
         Some e \<Rightarrow> ret ([], Some (Wrapf ''failed to get etcd container ID: '' e []))
       | None \<Rightarrow>
     andThen (getMembers w masterClient containerID) (\<lambda>(resp, err).
       case err of
         Some e \<Rightarrow> ret ([], Some e)
       | None \<Rightarrow>
     andThen (FetchMemberName w (Learner t)) (\<lambda>(learnerMemberName, err).
       case err of
         Some e \<Rightarrow> ret ([], Some (Wrapf ''failed to get learner member name: '' e []))
       | None \<Rightarrow>
     (case resp of
        None \<Rightarrow> panic ''invalid memory address or nil pointer dereference''
      | Some r \<Rightarrow>
          (let parts = initialClusterParts (Host.Host (Learner t)) learnerMemberName (Members r)
           in if length parts = 0 then ret ([], Some (ErrorNew ''no members found in cluster''))
              else ret (Join parts '','', None))))))"

definition updateManifest ::
    "world \<Rightarrow> AddMemberTask \<Rightarrow> string \<Rightarrow> string \<Rightarrow> string \<Rightarrow> (string \<times> error option) io" where
  "updateManifest w t learnerClient initialCluster initialClusterState =
     (if BackedupManifest (Learner t) = [] then
        ret ([], Some (ErrorNew ''backup manifest path not provided in hosts.json''))
      else
        (let localEtcdPath = filepathJoin w (TempDir w) ''etcd-learner.yaml''
         in andThen (call w (Download learnerClient (BackedupManifest (Learner t)) localEtcdPath))
              (\<lambda>(out, err).
       case err of
         Some e \<Rightarrow> ret ([], Some (Wrapf ''failed to download manifest: '' e []))
       | None \<Rightarrow>
     andThen (call w (ReadFile localEtcdPath)) (\<lambda>(manifestYaml, err).
       case err of
         Some e \<Rightarrow> ret ([], Some (Wrapf ''failed to read manifest: '' e []))
       | None \<Rightarrow>
     (case yamlUnmarshal w manifestYaml of
        Inl e \<Rightarrow> ret ([], Some (Wrapf ''failed to unmarshal manifest: '' e []))
      | Inr pod \<Rightarrow>
     (case updateEtcdManifestForExistingCluster pod initialCluster initialClusterState of
        (pod, err) \<Rightarrow>
     (case err of
        Some e \<Rightarrow> ret ([], Some (Wrapf ''failed to update manifest: '' e []))
      | None \<Rightarrow>
     (case yamlMarshal w pod of
        Inl e \<Rightarrow> ret ([], Some (Wrapf ''failed to marshal manifest: '' e []))
      | Inr updatedYaml \<Rightarrow>
          (let tmpPath = filepathJoin w (TempDir w) ''etcd-updated.yaml''
           in andThen (call w (WriteFile tmpPath updatedYaml)) (\<lambda>(out, err).
                case err of
                  Some e \<Rightarrow> ret ([], Some (Wrapf ''failed to write temp manifest: '' e []))
                | None \<Rightarrow> ret (tmpPath, None)))))))))))"

text \<open>
  \<open>startLearner\<close>, after the connection to the learner is open; the caller defers
  \<open>learnerClient.Close()\<close> around it.
\<close>

definition startLearnerBody ::
    "world \<Rightarrow> AddMemberTask \<Rightarrow> string \<Rightarrow> string \<Rightarrow> error option io" where
  "startLearnerBody w t masterClient learnerClient =
     andThen (call w (ClientRun learnerClient
                ''sudo crictl ps --label io.kubernetes.container.name=etcd -q | head -n 1''))
       (\<lambda>(out, err).
       if err = None \<and> TrimSpace out \<noteq> [] then
         ret (Some (ErrorNew (''etcd is already running on '' @ Host.Host (Learner t)
                @ '' (container ID: '' @ TrimSpace out
                @ ''), please stop it before adding as learner'')))
       else
     andThen (cleanupLocalDataOnLearner w learnerClient (Learner t) ''/var/lib/etcd/member'') (\<lambda>err.
       case err of
         Some e \<Rightarrow> ret (Some (Wrapf ''failed to cleanup data directory: '' e []))
       | None \<Rightarrow>
     andThen (buildInitialClusterString w t masterClient) (\<lambda>(initialCluster, err).
       case err of
         Some e \<Rightarrow> ret (Some (Wrapf ''failed to build initial-cluster string: '' e []))
       | None \<Rightarrow>
     andThen (updateManifest w t learnerClient initialCluster ''existing'') (\<lambda>(localEtcdPath, err).
       case err of
         Some e \<Rightarrow> ret (Some (Wrapf ''failed to update etcd manifest '' e
                                ('', on learner '' @ Host.Name (Learner t) @ '' (''
                                   @ Host.Host (Learner t) @ '')'')))
       | None \<Rightarrow>
     andThen (call w (Upload learnerClient localEtcdPath ''/etc/kubernetes/manifests/etcd.yaml''))
       (\<lambda>(out, err).
       case err of
         Some e \<Rightarrow> ret (Some (Wrapf ''failed to upload manifest: '' e
                                ('', on learner '' @ Host.Name (Learner t) @ '' (''
                                   @ Host.Host (Learner t) @ '')'')))
       | None \<Rightarrow>
     andThen (getEtcdContainerID w learnerClient) (\<lambda>(containerID, err).
       case err of
         Some e \<Rightarrow> ret (Some (Wrapf ''etcd container did not start: '' e []))
       | None \<Rightarrow>
     andThen (waitForClusterOrMemberStatusHealthy w learnerClient containerID False) (\<lambda>err.
       case err of
         Some e \<Rightarrow> ret (Some (Wrapf ''learner health status check failed: '' e []))
       | None \<Rightarrow> ret None)))))))"

definition startLearner :: "world \<Rightarrow> AddMemberTask \<Rightarrow> string \<Rightarrow> error option io" where
  "startLearner w t masterClient =
     andThen (NewClient w (configOf (Learner t))) (\<lambda>(learnerClient, err).
       case err of
         Some e \<Rightarrow> ret (Some (Wrapf ''failed to connect to Learner node: '' e []))
       | None \<Rightarrow>
           deferring (call w (Close learnerClient))
             (startLearnerBody w t masterClient learnerClient))"

text \<open>\<open>AddMemberTask.Run\<close>.\<close>

definition AddMemberTask_Run :: "world \<Rightarrow> AddMemberTask \<Rightarrow> string \<Rightarrow> (string \<times> error option) io" where
  "AddMemberTask_Run w t client =
     andThen (addOrPromoteLearner w t client) (\<lambda>(promoted, err).
       case err of
         Some e \<Rightarrow> ret ([], Some (Wrapf ''failed to add or promote learner: '' e []))
       | None \<Rightarrow>
           if promoted then ret (''learner already promoted'', None)
           else
             andThen (startLearner w t client) (\<lambda>err.
               case err of
                 Some e \<Rightarrow> ret ([], Some (Wrapf ''failed to start learner: '' e []))
               | None \<Rightarrow>
                   andThen (addOrPromoteLearner w t client) (\<lambda>(promoted, err).
                     case err of
                       Some e \<Rightarrow> ret ([], Some (Wrapf ''failed to promote learner after start: '' e []))
                     | None \<Rightarrow>
                         if \<not> promoted then
                           ret ([], Some (ErrorNew ''learner was not promoted after starting''))
                         else ret (''learner added and promoted successfully'', None))))"

section \<open>Best-member selection\<close>

text \<open>
  \<open>strconv.Atoi\<close>: an optional sign, then decimal digits only; a value outside the
  64-bit range of \<open>int\<close> is an error.
\<close>

definition digitValue :: "char \<Rightarrow> nat option" where
  "digitValue c =
     (if CHR ''0'' \<le> c \<and> c \<le> CHR ''9'' then Some (of_char c - of_char CHR ''0'') else None)"

fun parseDigits :: "string \<Rightarrow> nat \<Rightarrow> nat option" where
  "parseDigits [] acc = Some acc"
| "parseDigits (c # cs) acc =
     (case digitValue c of None \<Rightarrow> None | Some d \<Rightarrow> parseDigits cs (10 * acc + d))"

definition Atoi :: "string \<Rightarrow> error + int" where
  "Atoi s =
     (let neg = (s \<noteq> [] \<and> hd s = CHR ''-'');
          digits = (if s \<noteq> [] \<and> (hd s = CHR ''-'' \<or> hd s = CHR ''+'') then tl s else s)
      in if digits = [] then
           Inl (ErrorNew (''strconv.Atoi: parsing '' @ [CHR 0x22] @ s @ [CHR 0x22] @ '': invalid syntax''))
         else
           (case parseDigits digits 0 of
              None \<Rightarrow>
                Inl (ErrorNew (''strconv.Atoi: parsing '' @ [CHR 0x22] @ s @ [CHR 0x22]
                                 @ '': invalid syntax''))
            | Some n \<Rightarrow>
                (let v = (if neg then - int n else int n)
                 in if v < - (2 ^ 63) \<or> 2 ^ 63 - 1 < v then
                      Inl (ErrorNew (''strconv.Atoi: parsing '' @ [CHR 0x22] @ s @ [CHR 0x22]
                                       @ '': value out of range''))
                    else Inr v)))"

definition getTargetPath :: "string \<Rightarrow> string" where
  "getTargetPath user =
     (if user = ''root'' then ''/root/etcd-diagnosis''
      else ''/home/'' @ user @ ''/etcd-diagnosis'')"

text \<open>
  What the body of the loop of \<open>selectCommandFunc\<close> finds out about one host: the host is
  skipped (\<open>continue\<close>), the program ends (\<open>log.Fatalf\<close>), or the commit index is read.
  The lines that the command logs and prints on the way are left out of the trace.
\<close>

datatype probe = Skipped | Fatal string | CommitIndex int

definition probeHost :: "world \<Rightarrow> Host \<Rightarrow> probe io" where
  "probeHost w h =
     andThen (NewClient w (configOf h)) (\<lambda>(client, err).
       case err of
         Some e \<Rightarrow> ret Skipped
       | None \<Rightarrow>
           (let targetPath = getTargetPath (Username h)
            in andThen (call w (ClientRun client (targetPath @ '' version''))) (\<lambda>(out, err).
                 andThen (case err of
                            Some e \<Rightarrow> call w (Upload client ''./etcd-diagnosis'' targetPath)
                          | None \<Rightarrow> ret ([], None))
                   (\<lambda>(out, uErr).
                     case uErr of
                       Some e \<Rightarrow>
                         ret (Fatal (''Error uploading etcd-diagnosis to '' @ targetPath @ '' on (''
                                       @ Host.Name h @ '': '' @ Host.Host h @ ''): '' @ Error e))
                     | None \<Rightarrow>
                         andThen (call w (ClientRun client
                                    (''sudo '' @ targetPath @ '' commit-index /var/lib/etcd'')))
                           (\<lambda>(resp, err).
                             case err of
                               Some e \<Rightarrow> ret Skipped
                             | None \<Rightarrow>
                                 (case Atoi (TrimSpace resp) of
                                    Inl e \<Rightarrow>
                                      ret (Fatal (''Error converting commit index to int (''
                                                    @ Host.Name h @ '': '' @ Host.Host h @ ''): '' @ Error e))
                                  | Inr commitIndex \<Rightarrow> ret (CommitIndex commitIndex)))))))"

text \<open>
  The loop over the hosts with its two variables \<open>bestHosts\<close> and \<open>maxCommitIndex\<close>
  (a Go \<open>int\<close>, starting at zero). The result is the fatal message, or what the command
  prints at the end: the best hosts and the maximum.
\<close>

fun selectLoop :: "world \<Rightarrow> Host list \<Rightarrow> Host list \<Rightarrow> int \<Rightarrow> (string + Host list \<times> int) io" where
  "selectLoop w [] bestHosts maxCommitIndex = ret (Inr (bestHosts, maxCommitIndex))"
| "selectLoop w (h # rest) bestHosts maxCommitIndex =
     andThen (probeHost w h) (\<lambda>p.
       case p of
         Skipped \<Rightarrow> selectLoop w rest bestHosts maxCommitIndex
       | Fatal msg \<Rightarrow> ret (Inl msg)
       | CommitIndex commitIndex \<Rightarrow>
           if commitIndex > maxCommitIndex then selectLoop w rest [h] commitIndex
           else if commitIndex = maxCommitIndex then selectLoop w rest (bestHosts @ [h]) maxCommitIndex
           else selectLoop w rest bestHosts maxCommitIndex)"

definition selectCommandFunc :: "world \<Rightarrow> string \<Rightarrow> (string + Host list \<times> int) io" where
  "selectCommandFunc w configFile =
     andThen (ParseHostFromFile w configFile) (\<lambda>(hostCfg, err).
       case err of
         Some e \<Rightarrow> ret (Inl (''Error parsing hosts config file: '' @ Error e))
       | None \<Rightarrow> selectLoop w hostCfg [] 0)"

section \<open>Vocabulary of the properties\<close>

text \<open>The requests that the properties below speak about, and shapes of traces.\<close>

definition statusArgs :: "bool \<Rightarrow> string list" where
  "statusArgs cluster =
     [''endpoint'', ''status'', ''-w'', ''json''] @ (if cluster then [''--cluster''] else [])"

definition memberListRequest :: "string \<Rightarrow> string \<Rightarrow> request" where
  "memberListRequest client containerID =
     TaskRun client (cmdTask containerID [''member'', ''list'', ''-w'', ''json''])"

definition promoteRequest :: "string \<Rightarrow> string \<Rightarrow> string \<Rightarrow> request" where
  "promoteRequest client containerID MemberID =
     TaskRun client (cmdTask containerID [''member'', ''promote'', TrimSpace MemberID])"



text \<open>The trace of \<open>n\<close> attempts that failed: each request followed by the sleep.\<close>

definition retries :: "request \<Rightarrow> nat \<Rightarrow> request list" where
  "retries r n = concat (replicate n [r, Sleep 5])"

text \<open>What \<open>promoteLearner\<close> returns when the attempts are used up.\<close>

definition promoteFailure :: "nat \<Rightarrow> error option \<Rightarrow> error" where
  "promoteFailure maxRetries lastErr =
     (case lastErr of
        Some e \<Rightarrow> Wrapf (''failed to promote member after '' @ FormatInt (int maxRetries)
                           @ '' attempts: '') e []
      | None \<Rightarrow> ErrorNew (''failed to promote member after '' @ FormatInt (int maxRetries)
                             @ '' attempts: %!w(<nil>)''))"

text \<open>An answer that the health check does not accept and that does not make it panic.\<close>

definition unhealthy :: "world \<Rightarrow> response \<Rightarrow> bool" where
  "unhealthy w r = (case r of (out, err) \<Rightarrow> err \<noteq> None \<or> validateClusterStatus w out = Value False)"

text \<open>
  The requests by which \<open>FetchMemberName\<close> finds the learner's name: opening a
  connection, running \<open>hostname\<close>, closing the connection.
\<close>

definition nameLookup :: "request \<Rightarrow> bool" where
  "nameLookup q =
     (case q of
        ReadFile p \<Rightarrow> True
      | HostKeyCallback \<Rightarrow> True
      | Dial addr user auth \<Rightarrow> True
      | ClientRun client cmd \<Rightarrow> cmd = ''hostname''
      | Close client \<Rightarrow> True
      | _ \<Rightarrow> False)"

text \<open>
  The requests of the queries that precede the search for the learner, and the lines
  they write on the log.
\<close>

definition isLog :: "request \<Rightarrow> bool" where
  "isLog q = (case q of Log line \<Rightarrow> True | _ \<Rightarrow> False)"

definition queryRequest :: "string \<Rightarrow> string \<Rightarrow> request \<Rightarrow> bool" where
  "queryRequest client containerID q =
     (q = TaskRun client (waitCommandTask waitTask)
    \<or> isLog q
    \<or> q = TaskRun client (cmdTask containerID (statusArgs True))
    \<or> q = Sleep 5
    \<or> q = memberListRequest client containerID
    \<or> nameLookup q)"

text \<open>The etcdctl arguments that change the membership, and the uploads.\<close>

definition membershipCommand :: "string list \<Rightarrow> bool" where
  "membershipCommand args =
     (case args of
        a # b # rest \<Rightarrow> a = ''member'' \<and> (b = ''add'' \<or> b = ''remove'' \<or> b = ''promote'')
      | _ \<Rightarrow> False)"

definition isUpload :: "request \<Rightarrow> bool" where
  "isUpload q = (case q of Upload client localPath remotePath \<Rightarrow> True | _ \<Rightarrow> False)"

text \<open>
  The calls of \<open>client.Run\<close> behind a trace, when every command task of the trace
  polls a host whose \<open>i\<close>-th answer to the task is \<open>answers i\<close>.
\<close>

definition commandRuns :: "(nat \<Rightarrow> string \<times> error option \<times> nat) \<Rightarrow> request list \<Rightarrow> nat" where
  "commandRuns answers tr =
     sum_list (map (\<lambda>q. case q of TaskRun client task \<Rightarrow> CommandTask_calls task answers | _ \<Rightarrow> 0) tr)"

text \<open>The line that \<open>WaitForEtcdRunningTask.Run\<close> logs.\<close>

definition runningLine :: "string \<Rightarrow> request" where
  "runningLine containerID = Log (''etcd container '' @ containerID @ '' is running'')"

text \<open>The hosts whose probe gave a commit index that no other probed host exceeds.\<close>

definition maximalHosts :: "(Host \<Rightarrow> probe) \<Rightarrow> Host list \<Rightarrow> Host set" where
  "maximalHosts P hosts =
     {h \<in> set hosts. \<exists>i. P h = CommitIndex i
                        \<and> (\<forall>h'\<in>set hosts. \<forall>j. P h' = CommitIndex j \<longrightarrow> j \<le> i)}"

section \<open>Example inputs\<close>

text \<open>
  Concrete hosts, manifests and environments on which the theorems are evaluated. The
  decoders of the example environments know a few documents by name; \<open>exampleHostname\<close>
  reads the host of a URL of the form \<open>https://host:port\<close>.
\<close>

definition examplePod :: "string list \<Rightarrow> Pod" where
  "examplePod args =
     \<lparr>Containers = [\<lparr>Container.Name = ''pause'', Container.Command = [''/pause'']\<rparr>,
                    \<lparr>Container.Name = ''etcd'', Container.Command = args\<rparr>],
      Other = ''kind: Pod''\<rparr>"

text \<open>
  A manifest whose first container is named \<open>etcd\<close> followed by a no-break space
  (U+00A0) and whose second container is named \<open>etcd\<close>.
\<close>

definition paddedPod :: "string list \<Rightarrow> Pod" where
  "paddedPod args =
     \<lparr>Containers = [\<lparr>Container.Name = ''etcd'' @ [CHR 0xC2, CHR 0xA0], Container.Command = args\<rparr>,
                    \<lparr>Container.Name = ''etcd'', Container.Command = [''sleep'']\<rparr>],
      Other = ''kind: Pod''\<rparr>"

definition exitOneTask :: CommandTask where
  "exitOneTask =
     \<lparr>CommandTask.Description = ''expects exit status 1'',
      CommandTask.Command = ''echo boom; exit 1'',
      CommandTask.Check = Some \<lparr>Check.ExpectedExitCode = 1, Check.ExpectedOutput = ''boom'',
                                Check.NotExpectedOutput = ''fatal'', Check.TimeoutSec = 1,
                                Check.RetryIntervalSec = 1\<rparr>\<rparr>"

definition exampleHostname :: "string \<Rightarrow> string option" where
  "exampleHostname u =
     (if HasPrefix u ''https://'' then Some (takeWhile (\<lambda>c. c \<noteq> CHR '':'') (drop 8 u)) else None)"

definition exampleWorld ::
    "(request list \<Rightarrow> request \<Rightarrow> response) \<Rightarrow> (string \<Rightarrow> error + MemberListResponse)
       \<Rightarrow> (string \<Rightarrow> error + MemberAddResponse) \<Rightarrow> (string \<Rightarrow> error + epStatus list)
       \<Rightarrow> (string \<Rightarrow> error + Host list) \<Rightarrow> world" where
  "exampleWorld a members adds statuses hosts =
     \<lparr>answer = a, jsonMemberList = members, jsonMemberAdd = adds,
      jsonEpStatus = statuses, jsonHosts = hosts,
      yamlUnmarshal = (\<lambda>s. Inl (ErrorNew ''yaml: did not find expected node content'')),
      yamlMarshal = (\<lambda>p. Inl (ErrorNew ''yaml: unsupported'')),
      urlHostname = exampleHostname,
      ParsePrivateKey = (\<lambda>key passphrase. Inr key),
      TempDir = ''/tmp'',
      filepathJoin = (\<lambda>a b. a @ ''/'' @ b),
      filepathBase = (\<lambda>p. rev (takeWhile (\<lambda>c. c \<noteq> CHR ''/'') (rev p)))\<rparr>"

definition notJSON :: error where
  "notJSON = ErrorNew ''unexpected end of JSON input''"

definition vm :: "string \<Rightarrow> string \<Rightarrow> Host" where
  "vm n addr =
     \<lparr>Host.Name = ''etcd-'' @ n, MemberName = n, Host.Host = addr, Username = ''root'',
      Host.Password = ''changeme'', PrivateKey = [], Passphrase = [],
      BackedupManifest = ''/root/etcd.yaml''\<rparr>"

definition bothCredentials :: Host where
  "bothCredentials = (vm ''vm1'' ''10.100.72.7'')\<lparr>PrivateKey := ''/root/.ssh/id_rsa''\<rparr>"

definition hostsFileWorld :: world where
  "hostsFileWorld =
     exampleWorld (\<lambda>tr r. case r of ReadFile p \<Rightarrow> (''hosts'', None) | _ \<Rightarrow> ([], None))
       (\<lambda>s. Inl notJSON) (\<lambda>s. Inl notJSON) (\<lambda>s. Inl notJSON)
       (\<lambda>s. if s = ''hosts'' then Inr [bothCredentials] else Inl notJSON)"

text \<open>A workstation on which the known-hosts file cannot be opened.\<close>

definition noKnownHostsWorld :: world where
  "noKnownHostsWorld =
     exampleWorld
       (\<lambda>tr r. case r of
                 HostKeyCallback \<Rightarrow>
                   ([], Some (ErrorNew ''open /root/.ssh/known_hosts: permission denied''))
               | _ \<Rightarrow> ([], None))
       (\<lambda>s. Inl notJSON) (\<lambda>s. Inl notJSON) (\<lambda>s. Inl notJSON) (\<lambda>s. Inl notJSON)"

definition voter :: "64 word \<Rightarrow> string \<Rightarrow> string \<Rightarrow> Member" where
  "voter i n addr =
     \<lparr>Member.ID = i, Member.Name = n, PeerURLs = [''https://'' @ addr @ '':2380''],
      IsLearner = False\<rparr>"

definition learner :: "64 word \<Rightarrow> string \<Rightarrow> string \<Rightarrow> Member" where
  "learner i n url = \<lparr>Member.ID = i, Member.Name = n, PeerURLs = [url], IsLearner = True\<rparr>"

definition healthyStatus :: "epStatus list" where
  "healthyStatus = [\<lparr>Ep = ''https://127.0.0.1:2379'', Resp = Some \<lparr>Errors = []\<rparr>\<rparr>]"

text \<open>
  A master whose etcd container \<open>3f9c2e\<close> runs, reports a healthy cluster, lists the given
  members and accepts every other command.
\<close>

definition clusterAnswers :: "request list \<Rightarrow> request \<Rightarrow> response" where
  "clusterAnswers tr r =
     (case r of
        TaskRun client task \<Rightarrow>
          if task = waitCommandTask waitTask \<or> task = waitCommandTask waitForEtcdRunningTask
          then (''3f9c2e'', None)
          else if task = cmdTask ''3f9c2e'' (statusArgs True) then (''healthy'', None)
          else if task = cmdTask ''3f9c2e'' [''member'', ''list'', ''-w'', ''json'']
                  \<or> task = singleMemberTask ''3f9c2e''
          then (''members'', None)
          else (''ok'', None)
      | _ \<Rightarrow> ([], None))"

definition clusterWorld :: "Member list \<Rightarrow> world" where
  "clusterWorld members =
     exampleWorld clusterAnswers
       (\<lambda>s. if s = ''members'' then Inr \<lparr>Header = Some \<lparr>MemberId = 2\<rparr>, Members = members\<rparr>
             else Inl notJSON)
       (\<lambda>s. if s = ''ok'' then Inr \<lparr>MemberAddResponse.Member = Some (learner 77 [] ''https://10.100.72.8:2380'')\<rparr>
             else Inl notJSON)
       (\<lambda>s. if s = ''healthy'' then Inr healthyStatus else Inl notJSON)
       (\<lambda>s. Inl notJSON)"

definition addVm2 :: AddMemberTask where
  "addVm2 =
     \<lparr>AddMemberTask.Description = ''Add member workflow'',
      Master = vm ''vm1'' ''10.100.72.7'',
      Learner = vm ''vm2'' ''10.100.72.8'',
      AllHosts = [vm ''vm1'' ''10.100.72.7'', vm ''vm2'' ''10.100.72.8'', vm ''vm3'' ''10.100.72.9'']\<rparr>"

definition multiMemberWarning :: string where
  "multiMemberWarning =
     ''WARNING: the etcd instance is part of a multi-member cluster; ''
       @ ''aborting single-member cluster creation''"

text \<open>
  Four hosts for the \<open>select\<close> command: the first two at commit index 120 (the second
  without the diagnosis binary, which is then uploaded), the third at 115, the fourth
  unreachable.
\<close>

definition selectHosts :: "Host list" where
  "selectHosts =
     [vm ''vm1'' ''10.100.72.7'', vm ''vm2'' ''10.100.72.8'', vm ''vm3'' ''10.100.72.9'',
      vm ''vm4'' ''10.100.72.10'']"

definition selectAnswers :: "request list \<Rightarrow> request \<Rightarrow> response" where
  "selectAnswers tr r =
     (case r of
        ReadFile p \<Rightarrow> (''hosts'', None)
      | Dial addr user auth \<Rightarrow>
          if addr = ''10.100.72.10:22''
          then ([], Some (ErrorNew ''dial tcp 10.100.72.10:22: i/o timeout''))
          else ([], None)
      | ClientRun client cmd \<Rightarrow>
          if cmd = ''/root/etcd-diagnosis version'' then
            (if client = ''10.100.72.8:22'' then ([], Some (ExitError 127)) else (''0.1.0'', None))
          else if cmd = ''sudo /root/etcd-diagnosis commit-index /var/lib/etcd'' then
            (if client = ''10.100.72.9:22'' then (''115'' @ [CHR 0x0A], None)
             else (''120'' @ [CHR 0x0A], None))
          else ([], None)
      | _ \<Rightarrow> ([], None))"

definition selectWorld :: world where
  "selectWorld =
     exampleWorld selectAnswers (\<lambda>s. Inl notJSON) (\<lambda>s. Inl notJSON) (\<lambda>s. Inl notJSON)
       (\<lambda>s. if s = ''hosts'' then Inr selectHosts else Inl notJSON)"

definition selectProbe :: "Host \<Rightarrow> probe" where
  "selectProbe h =
     (if Host.Host h = ''10.100.72.10'' then Skipped
      else if Host.Host h = ''10.100.72.9'' then CommitIndex 115
      else CommitIndex 120)"

text \<open>
  Two hosts whose diagnosis binary prints the commit index \<open>-1\<close>.
\<close>

definition negativeHosts :: "Host list" where
  "negativeHosts = [vm ''vm1'' ''10.100.72.7'', vm ''vm2'' ''10.100.72.8'']"

definition negativeAnswers :: "request list \<Rightarrow> request \<Rightarrow> response" where
  "negativeAnswers tr r =
     (case r of
        ReadFile p \<Rightarrow> (''hosts'', None)
      | ClientRun client cmd \<Rightarrow>
          if cmd = ''sudo /root/etcd-diagnosis commit-index /var/lib/etcd''
          then (''-1'' @ [CHR 0x0A], None)
          else (''0.1.0'', None)
      | _ \<Rightarrow> ([], None))"

definition negativeWorld :: world where
  "negativeWorld =
     exampleWorld negativeAnswers (\<lambda>s. Inl notJSON) (\<lambda>s. Inl notJSON) (\<lambda>s. Inl notJSON)
       (\<lambda>s. if s = ''hosts'' then Inr negativeHosts else Inl notJSON)"

definition negativeProbe :: "Host \<Rightarrow> probe" where
  "negativeProbe h = CommitIndex (- 1)"

text \<open>
  Environments for the retry loops: a learner that never catches up; a learner that is
  refused twice, for two different reasons, and then promoted; a master whose status
  command always prints the same document.
\<close>

definition notInSync :: error where
  "notInSync =
     ErrorNew ''etcdserver: can only promote a learner member which is in sync with leader''"

definition laggingWorld :: world where
  "laggingWorld =
     exampleWorld (\<lambda>tr r. ([], Some notInSync))
       (\<lambda>s. Inl notJSON) (\<lambda>s. Inl notJSON) (\<lambda>s. Inl notJSON) (\<lambda>s. Inl notJSON)"

definition catchingUpWorld :: world where
  "catchingUpWorld =
     exampleWorld
       (\<lambda>tr r. if length (filter (\<lambda>q. q = r) tr) = 0 then ([], Some notInSync)
               else if length (filter (\<lambda>q. q = r) tr) = 1
               then ([], Some (ErrorNew ''context deadline exceeded''))
               else (''Member promoted'', None))
       (\<lambda>s. Inl notJSON) (\<lambda>s. Inl notJSON) (\<lambda>s. Inl notJSON) (\<lambda>s. Inl notJSON)"

text \<open>
  A master on which every run of a command takes a fifth of a second and exits with
  status 1, the learner not being in sync: a command task there is what
  \<open>CommandTask.Run\<close> makes of these answers.
\<close>

definition refused :: "nat \<Rightarrow> string \<times> error option \<times> nat" where
  "refused i =
     (''Error: etcdserver: can only promote a learner member which is in sync with leader'',
      Some (ExitError 1), 200000000)"

definition pollingWorld :: world where
  "pollingWorld =
     exampleWorld
       (\<lambda>tr r. case r of TaskRun client task \<Rightarrow> CommandTask_Run task refused | _ \<Rightarrow> ([], None))
       (\<lambda>s. Inl notJSON) (\<lambda>s. Inl notJSON) (\<lambda>s. Inl notJSON) (\<lambda>s. Inl notJSON)"

definition statusWorld :: "string \<Rightarrow> world" where
  "statusWorld out =
     exampleWorld (\<lambda>tr r. (out, None)) (\<lambda>s. Inl notJSON) (\<lambda>s. Inl notJSON)
       (\<lambda>s. if s = ''[]'' then Inr [] else if s = ''healthy'' then Inr healthyStatus
             else Inl notJSON)
       (\<lambda>s. Inl notJSON)"

section \<open>Properties of the command task\<close>

text \<open>What the body of the loop requires before it returns the output.\<close>

lemma runAttempt_Return_iff:
  "runAttempt t (out, err) = Return s \<longleftrightarrow>
     s = out \<and> err = None \<and> out \<noteq> [] \<and>
     (case CommandTask.Check t of
        None \<Rightarrow> True
      | Some c \<Rightarrow> ExpectedExitCode c = 0
                 \<and> (ExpectedOutput c = [] \<or> Contains out (ExpectedOutput c))
                 \<and> (NotExpectedOutput c = [] \<or> \<not> Contains out (NotExpectedOutput c)))"
  by (cases err) (auto simp: runAttempt_def exitCodeOf_def split: option.splits)

lemma runAttempt_nonzero_never:
  "CommandTask.Check t = Some c \<Longrightarrow> ExpectedExitCode c \<noteq> 0 \<Longrightarrow> runAttempt t r \<noteq> Return s"
  by (cases r) (simp add: runAttempt_Return_iff)

text \<open>
  With a check that expects a status other than zero, no sequence of answers makes
  \<open>Run\<close> succeed.
\<close>

lemma runLoop_nonzero_fails:
  "CommandTask.Check t = Some c \<Longrightarrow> ExpectedExitCode c \<noteq> 0 \<Longrightarrow>
   snd (fst (runLoop t timeout interval answers i elapsed lasterr)) \<noteq> None"
proof (induction t timeout interval answers i elapsed lasterr rule: runLoop.induct)
  case (1 t timeout interval answers i elapsed lasterr)
  show ?case
  proof (cases "elapsed < timeout")
    case False
    then show ?thesis
      by (subst runLoop.simps) (simp split: option.splits)
  next
    case True
    obtain out err d where a: "answers i = (out, err, d)" by (cases "answers i") auto
    from 1(2,3) have nr: "\<And>s. runAttempt t (out, err) \<noteq> Return s"
      by (rule runAttempt_nonzero_never)
    then obtain e slept where ra: "runAttempt t (out, err) = Again e slept"
      by (cases "runAttempt t (out, err)") auto
    from "1.IH"[OF True a[symmetric] _ ra 1(2,3)]
    show ?thesis
      using True a ra by (subst runLoop.simps) simp
  qed
qed

text \<open>
  Claim C1. An attempt succeeds exactly when the exit code is the expected one, the
  expected substring is present, the forbidden one absent and the output not empty; in
  particular a command that exits with the expected non-zero code succeeds.

  The code does not do this. For the task \<open>exitOneTask\<close>, which expects exit status 1,
  output containing \<open>boom\<close> and not containing \<open>fatal\<close>, a command that prints \<open>boom\<close> and
  exits with status 1 passes the three checks and then fails the last test
  \<open>err == nil\<close>: the attempt neither returns nor records an error nor sleeps, and
  \<open>Run\<close>, here with every remote call taking half a second, ends after its time-out
  with the error that names no reason.
\<close>

theorem expected_exit_code_one_times_out:
  "runAttempt exitOneTask (''boom'', Some (ExitError 1)) = Again None False
   \<and> CommandTask_Run exitOneTask (\<lambda>i. (''boom'', Some (ExitError 1), 499999999))
       = ([], Some (ErrorNew ''command 'echo boom; exit 1' failed after timed out''))"
  by (simp add: exitOneTask_def runAttempt_def exitCodeOf_def CommandTask_Run_def
        CommandTask_loop_def int64_def Second_def runLoop.simps)

section \<open>Properties of the manifest editor\<close>

lemma compareSlice_mset: "compareSlice a b \<longleftrightarrow> mset a = mset b"
proof
  assume "compareSlice a b"
  then have "sort a = sort b" by (simp add: compareSlice_def split: if_splits)
  then have "mset (sort a) = mset (sort b)" by simp
  then show "mset a = mset b" by simp
next
  assume h: "mset a = mset b"
  have "sort a = sort b"
    by (rule properties_for_sort) (simp_all add: h)
  moreover have "length a = length b" using h by (rule mset_eq_length)
  ultimately show "compareSlice a b" by (simp add: compareSlice_def)
qed

lemma forceNewLoop_Some:
  "forceNewLoop n add cs = Some (cs', ch) \<Longrightarrow>
   \<exists>c. find (\<lambda>c. TrimSpace (Container.Name c) = n) cs = Some c
     \<and> find (\<lambda>c. TrimSpace (Container.Name c) = n) cs'
         = Some (c\<lparr>Container.Command := forceNewCmd (Container.Command c) add\<rparr>)
     \<and> ch = (\<not> compareSlice (Container.Command c) (forceNewCmd (Container.Command c) add))"
proof (induction cs arbitrary: cs' ch)
  case Nil
  then show ?case by simp
next
  case (Cons x xs)
  show ?case
  proof (cases "TrimSpace (Container.Name x) = n")
    case True
    with Cons.prems show ?thesis by (auto simp: Let_def)
  next
    case False
    with Cons.prems obtain r where r: "forceNewLoop n add xs = Some (r, ch)" and cs': "cs' = x # r"
      by (auto split: option.splits)
    from Cons.IH[OF r] False cs' show ?thesis by auto
  qed
qed

lemma forceNewLoop_None:
  "forceNewLoop n add cs = None \<longleftrightarrow> find (\<lambda>c. TrimSpace (Container.Name c) = n) cs = None"
  by (induction cs) (auto simp: Let_def split: option.splits)

lemma initialClusterLoop_Some:
  "initialClusterLoop ic ics cs = Some cs' \<Longrightarrow>
   \<exists>c. find (\<lambda>c. TrimSpace (Container.Name c) = ''etcd'') cs = Some c
     \<and> find (\<lambda>c. TrimSpace (Container.Name c) = ''etcd'') cs'
         = Some (c\<lparr>Container.Command := initialClusterCmd (Container.Command c) ic ics\<rparr>)"
proof (induction cs arbitrary: cs')
  case Nil
  then show ?case by simp
next
  case (Cons x xs)
  show ?case
  proof (cases "TrimSpace (Container.Name x) = ''etcd''")
    case True
    with Cons.prems show ?thesis by auto
  next
    case False
    with Cons.prems obtain r where r: "initialClusterLoop ic ics xs = Some r" and cs': "cs' = x # r"
      by (auto split: option.splits)
    from Cons.IH[OF r] False cs' show ?thesis by auto
  qed
qed

lemma initialClusterLoop_None:
  "initialClusterLoop ic ics cs = None
     \<longleftrightarrow> find (\<lambda>c. TrimSpace (Container.Name c) = ''etcd'') cs = None"
  by (induction cs) (auto split: option.splits)

text \<open>The toggle finds the container that \<open>argsOf\<close> names and gives it \<open>forceNewCmd\<close>.\<close>

lemma toggle_result:
  assumes "argsOf n pod = Some a"
  shows "\<exists>pod'. updateForceNewClusterCommand pod n add
            = (pod', \<not> compareSlice a (forceNewCmd a add), None)
          \<and> argsOf n pod' = Some (forceNewCmd a add)"
proof -
  from assms obtain c where
    c: "find (\<lambda>c. TrimSpace (Container.Name c) = n) (Containers pod) = Some c"
    and a: "a = Container.Command c"
    by (auto simp: argsOf_def)
  from c have "forceNewLoop n add (Containers pod) \<noteq> None"
    by (simp add: forceNewLoop_None)
  then obtain cs' ch where l: "forceNewLoop n add (Containers pod) = Some (cs', ch)"
    by auto
  from forceNewLoop_Some[OF l] c a
  have f: "find (\<lambda>c. TrimSpace (Container.Name c) = n) cs'
             = Some (c\<lparr>Container.Command := forceNewCmd a add\<rparr>)"
    and ch: "ch = (\<not> compareSlice a (forceNewCmd a add))"
    by auto
  show ?thesis
    using l f ch by (simp add: updateForceNewClusterCommand_def argsOf_def)
qed

lemma rewrite_result:
  assumes "argsOf ''etcd'' pod = Some a"
  shows "\<exists>pod'. updateEtcdManifestForExistingCluster pod ic ics = (pod', None)
          \<and> argsOf ''etcd'' pod' = Some (initialClusterCmd a ic ics)"
proof -
  from assms obtain c where
    c: "find (\<lambda>c. TrimSpace (Container.Name c) = ''etcd'') (Containers pod) = Some c"
    and a: "a = Container.Command c"
    by (auto simp: argsOf_def)
  from c have "initialClusterLoop ic ics (Containers pod) \<noteq> None"
    by (simp add: initialClusterLoop_None)
  then obtain cs' where l: "initialClusterLoop ic ics (Containers pod) = Some cs'"
    by auto
  from initialClusterLoop_Some[OF l] c a
  have f: "find (\<lambda>c. TrimSpace (Container.Name c) = ''etcd'') cs'
             = Some (c\<lparr>Container.Command := initialClusterCmd a ic ics\<rparr>)"
    by auto
  show ?thesis
    using l f by (simp add: updateEtcdManifestForExistingCluster_def argsOf_def)
qed

lemma HasPrefix_append: "HasPrefix s p \<longleftrightarrow> (\<exists>r. s = p @ r)"
  by (induction s p rule: HasPrefix.induct) auto

lemma HasPrefix_self_append [simp]: "HasPrefix (p @ r) p"
  by (simp add: HasPrefix_append)

lemma ic_not_fnc: "HasPrefix c ''--initial-cluster'' \<Longrightarrow> \<not> HasPrefix c ''--force-new-cluster''"
  by (auto simp: HasPrefix_append)

lemma iceq_ic: "HasPrefix c ''--initial-cluster='' \<Longrightarrow> HasPrefix c ''--initial-cluster''"
  by (auto simp: HasPrefix_append)

lemma icst_ic: "HasPrefix c ''--initial-cluster-state='' \<Longrightarrow> HasPrefix c ''--initial-cluster''"
  by (auto simp: HasPrefix_append)

lemma countPrefix_append [simp]: "countPrefix p (xs @ ys) = countPrefix p xs + countPrefix p ys"
  by (simp add: countPrefix_def)

lemma countExact_append [simp]: "countExact p (xs @ ys) = countExact p xs + countExact p ys"
  by (simp add: countExact_def)

lemma countPrefix_filter_none:
  "(\<And>c. HasPrefix c p \<Longrightarrow> \<not> Q c) \<Longrightarrow> countPrefix p (filter Q xs) = 0"
  by (induction xs) (auto simp: countPrefix_def)

lemma countPrefix_filter_all:
  "(\<And>c. HasPrefix c p \<Longrightarrow> Q c) \<Longrightarrow> countPrefix p (filter Q xs) = countPrefix p xs"
  by (induction xs) (auto simp: countPrefix_def)

lemma countExact_filter_none: "\<not> Q a \<Longrightarrow> countExact a (filter Q xs) = 0"
  by (induction xs) (auto simp: countExact_def)

lemma countExact_filter_all: "Q a \<Longrightarrow> countExact a (filter Q xs) = countExact a xs"
  by (induction xs) (auto simp: countExact_def)

lemma forceNewCmd_counts:
  "countExact ''--force-new-cluster'' (forceNewCmd a add) = (if add then 1 else 0)"
  "countPrefix ''--force-new-cluster'' (forceNewCmd a add) = (if add then 1 else 0)"
  "countPrefix ''--initial-cluster='' (forceNewCmd a add) = countPrefix ''--initial-cluster='' a"
  "countPrefix ''--initial-cluster-state='' (forceNewCmd a add)
     = countPrefix ''--initial-cluster-state='' a"
proof -
  show "countExact ''--force-new-cluster'' (forceNewCmd a add) = (if add then 1 else 0)"
    by (simp add: forceNewCmd_def countExact_filter_none) (simp add: countExact_def)
  show "countPrefix ''--force-new-cluster'' (forceNewCmd a add) = (if add then 1 else 0)"
    by (simp add: forceNewCmd_def countPrefix_filter_none) (simp add: countPrefix_def)
  have 1: "\<And>c. HasPrefix c ''--initial-cluster='' \<Longrightarrow> \<not> HasPrefix c ''--force-new-cluster''"
    using ic_not_fnc iceq_ic by blast
  have 2: "\<And>c. HasPrefix c ''--initial-cluster-state='' \<Longrightarrow> \<not> HasPrefix c ''--force-new-cluster''"
    using ic_not_fnc icst_ic by blast
  show "countPrefix ''--initial-cluster='' (forceNewCmd a add) = countPrefix ''--initial-cluster='' a"
    using countPrefix_filter_all[of "''--initial-cluster=''", OF 1]
    by (simp add: forceNewCmd_def) (simp add: countPrefix_def)
  show "countPrefix ''--initial-cluster-state='' (forceNewCmd a add)
     = countPrefix ''--initial-cluster-state='' a"
    using countPrefix_filter_all[of "''--initial-cluster-state=''", OF 2]
    by (simp add: forceNewCmd_def) (simp add: countPrefix_def)
qed

lemma initialClusterCmd_counts:
  "countPrefix ''--initial-cluster='' (initialClusterCmd a ic ics) = (if ic = [] then 0 else 1)"
  "countPrefix ''--initial-cluster-state='' (initialClusterCmd a ic ics) = (if ics = [] then 0 else 1)"
  "countExact ''--force-new-cluster'' (initialClusterCmd a ic ics) = countExact ''--force-new-cluster'' a"
proof -
  have 1: "\<And>c. HasPrefix c ''--initial-cluster='' \<Longrightarrow>
      \<not> (\<not> HasPrefix c ''--initial-cluster'' \<and> \<not> HasPrefix c ''--initial-cluster-state'')"
    using iceq_ic by blast
  have 2: "\<And>c. HasPrefix c ''--initial-cluster-state='' \<Longrightarrow>
      \<not> (\<not> HasPrefix c ''--initial-cluster'' \<and> \<not> HasPrefix c ''--initial-cluster-state'')"
    using icst_ic by blast
  show "countPrefix ''--initial-cluster='' (initialClusterCmd a ic ics) = (if ic = [] then 0 else 1)"
    using countPrefix_filter_none[of "''--initial-cluster=''", OF 1]
    by (simp add: initialClusterCmd_def) (simp add: countPrefix_def)
  show "countPrefix ''--initial-cluster-state='' (initialClusterCmd a ic ics) = (if ics = [] then 0 else 1)"
    using countPrefix_filter_none[of "''--initial-cluster-state=''", OF 2]
    by (simp add: initialClusterCmd_def) (simp add: countPrefix_def)
  show "countExact ''--force-new-cluster'' (initialClusterCmd a ic ics) = countExact ''--force-new-cluster'' a"
    by (simp add: initialClusterCmd_def countExact_filter_all) (simp add: countExact_def)
qed

lemma single_member: "length xs = Suc 0 \<Longrightarrow> x \<in> set xs \<Longrightarrow> xs = [x]"
  by (cases xs) auto

lemma forceNewCmd_reorder:
  assumes "if add then countExact ''--force-new-cluster'' a = 1
                     \<and> countPrefix ''--force-new-cluster'' a = 1
           else countPrefix ''--force-new-cluster'' a = 0"
  shows "mset (forceNewCmd a add) = mset a"
proof (cases add)
  case False
  with assms have "filter (\<lambda>c. HasPrefix c ''--force-new-cluster'') a = []"
    by (simp add: countPrefix_def)
  then have "filter (\<lambda>c. \<not> HasPrefix c ''--force-new-cluster'') a = a"
    by (simp add: filter_empty_conv)
  with False show ?thesis by (simp add: forceNewCmd_def)
next
  case True
  with assms have e: "countExact ''--force-new-cluster'' a = 1"
    and p: "length (filter (\<lambda>c. HasPrefix c ''--force-new-cluster'') a) = Suc 0"
    by (simp_all add: countPrefix_def)
  from e have "filter (\<lambda>c. c = ''--force-new-cluster'') a \<noteq> []"
    by (auto simp: countExact_def)
  then have "''--force-new-cluster'' \<in> set a"
    by (auto simp: filter_empty_conv)
  then have "''--force-new-cluster'' \<in> set (filter (\<lambda>c. HasPrefix c ''--force-new-cluster'') a)"
    by simp
  with p have f: "filter (\<lambda>c. HasPrefix c ''--force-new-cluster'') a = [''--force-new-cluster'']"
    by (rule single_member)
  have "mset a = mset (filter (\<lambda>c. HasPrefix c ''--force-new-cluster'') a)
               + mset (filter (\<lambda>c. \<not> HasPrefix c ''--force-new-cluster'') a)"
    by (simp only: mset_filter multiset_partition [symmetric])
  with f True show ?thesis by (simp add: forceNewCmd_def)
qed

lemma argsOf_examplePod: "argsOf ''etcd'' (examplePod args) = Some args"
  by (simp add: argsOf_def examplePod_def TrimSpace_def spaceRunes_def)

text \<open>
  The name of a container is trimmed of Unicode white space before it is compared: in
  \<open>paddedPod\<close> the editor addresses the first container, whose name ends in a no-break
  space, and leaves the second, named \<open>etcd\<close>, alone.
\<close>

lemma TrimSpace_padded:
  "TrimSpace (''etcd'' @ [CHR 0xC2, CHR 0xA0]) = ''etcd''
   \<and> TrimSpace ([CHR 0xE2, CHR 0x80, CHR 0x83, CHR 0x09] @ ''etcd'' @ [CHR 0x0A, CHR 0xE3, CHR 0x80, CHR 0x80])
       = ''etcd''
   \<and> TrimSpace ([CHR 0xA0] @ ''etcd'') = [CHR 0xA0] @ ''etcd''"
  by (simp add: TrimSpace_def spaceRunes_def)

lemma padded_name_located:
  "argsOf ''etcd'' (paddedPod args) = Some args
   \<and> updateForceNewClusterCommand (paddedPod [''etcd'', ''--force-new-cluster'']) ''etcd'' True
       = (paddedPod [''etcd'', ''--force-new-cluster''], False, None)
   \<and> updateForceNewClusterCommand (paddedPod [''etcd'']) ''etcd'' True
       = (paddedPod [''etcd'', ''--force-new-cluster''], True, None)
   \<and> updateEtcdManifestForExistingCluster (paddedPod [''etcd'']) ''vm1=https://10.100.72.7:2380''
         ''existing''
       = (paddedPod [''etcd'', ''--initial-cluster=vm1=https://10.100.72.7:2380'',
                     ''--initial-cluster-state=existing''], None)"
  by (simp add: argsOf_def paddedPod_def updateForceNewClusterCommand_def
        updateEtcdManifestForExistingCluster_def initialClusterCmd_def forceNewCmd_def
        compareSlice_def TrimSpace_def spaceRunes_def Let_def)

text \<open>
  Claim C3, as stated: after any single edit the arguments contain \<open>--force-new-cluster\<close>
  once or not at all, at most one argument starting with \<open>--initial-cluster=\<close> and at
  most one starting with \<open>--initial-cluster-state=\<close>.

  It fails, because each edit rewrites its own flags only. Removing the force flag from a
  manifest with two \<open>--initial-cluster=\<close> arguments leaves both, and rewriting the
  initial cluster of a manifest with two \<open>--force-new-cluster\<close> arguments leaves both.
\<close>

theorem editor_invariant_counterexample:
  "updateForceNewClusterCommand
      (examplePod [''etcd'', ''--initial-cluster=a=https://10.0.0.1:2380'',
                   ''--initial-cluster=b=https://10.0.0.2:2380'']) ''etcd'' False
    = (examplePod [''etcd'', ''--initial-cluster=a=https://10.0.0.1:2380'',
                   ''--initial-cluster=b=https://10.0.0.2:2380''], False, None)
   \<and> argsOf ''etcd'' (examplePod [''etcd'', ''--initial-cluster=a=https://10.0.0.1:2380'',
                   ''--initial-cluster=b=https://10.0.0.2:2380''])
    = Some [''etcd'', ''--initial-cluster=a=https://10.0.0.1:2380'',
                   ''--initial-cluster=b=https://10.0.0.2:2380'']
   \<and> countPrefix ''--initial-cluster='' [''etcd'', ''--initial-cluster=a=https://10.0.0.1:2380'',
                   ''--initial-cluster=b=https://10.0.0.2:2380''] = 2
   \<and> updateEtcdManifestForExistingCluster
      (examplePod [''etcd'', ''--force-new-cluster'', ''--force-new-cluster''])
      ''a=https://10.0.0.1:2380'' ''existing''
    = (examplePod [''etcd'', ''--force-new-cluster'', ''--force-new-cluster'',
         ''--initial-cluster=a=https://10.0.0.1:2380'', ''--initial-cluster-state=existing''], None)
   \<and> countExact ''--force-new-cluster'' [''etcd'', ''--force-new-cluster'', ''--force-new-cluster'',
         ''--initial-cluster=a=https://10.0.0.1:2380'', ''--initial-cluster-state=existing''] = 2"
  by (simp add: argsOf_def compareSlice_def updateForceNewClusterCommand_def examplePod_def
        updateEtcdManifestForExistingCluster_def initialClusterCmd_def
        TrimSpace_def spaceRunes_def forceNewCmd_def countExact_def countPrefix_def Let_def)

text \<open>
  Claim C3, amended. For every manifest with an etcd container: after
  \<open>toggle_force_new_cluster\<close> the arguments contain \<open>--force-new-cluster\<close> exactly once
  when adding and no argument with that prefix when removing, and as many arguments
  starting with \<open>--initial-cluster=\<close> and with \<open>--initial-cluster-state=\<close> as before; after
  \<open>rewrite_initial_cluster\<close> they contain at most one argument starting with each of the
  two (one when the value is not empty) and \<open>--force-new-cluster\<close> as often as before.
  So each bound holds after an edit if the edit rewrites that flag or the bound held
  before.
\<close>

theorem editor_invariant_per_edit:
  assumes "argsOf ''etcd'' pod = Some a"
  shows "(\<exists>pod' changed b.
            updateForceNewClusterCommand pod ''etcd'' add = (pod', changed, None)
          \<and> argsOf ''etcd'' pod' = Some b
          \<and> countExact ''--force-new-cluster'' b = (if add then 1 else 0)
          \<and> countPrefix ''--force-new-cluster'' b = (if add then 1 else 0)
          \<and> countPrefix ''--initial-cluster='' b = countPrefix ''--initial-cluster='' a
          \<and> countPrefix ''--initial-cluster-state='' b = countPrefix ''--initial-cluster-state='' a)
       \<and> (\<exists>pod' b.
            updateEtcdManifestForExistingCluster pod initialCluster initialClusterState = (pod', None)
          \<and> argsOf ''etcd'' pod' = Some b
          \<and> countPrefix ''--initial-cluster='' b = (if initialCluster = [] then 0 else 1)
          \<and> countPrefix ''--initial-cluster-state='' b = (if initialClusterState = [] then 0 else 1)
          \<and> countExact ''--force-new-cluster'' b = countExact ''--force-new-cluster'' a)"
proof (rule conjI)
  from toggle_result[OF assms, of add] obtain pod' where
    "updateForceNewClusterCommand pod ''etcd'' add
          = (pod', \<not> compareSlice a (forceNewCmd a add), None)"
    "argsOf ''etcd'' pod' = Some (forceNewCmd a add)"
    by blast
  then show "\<exists>pod' changed b.
            updateForceNewClusterCommand pod ''etcd'' add = (pod', changed, None)
          \<and> argsOf ''etcd'' pod' = Some b
          \<and> countExact ''--force-new-cluster'' b = (if add then 1 else 0)
          \<and> countPrefix ''--force-new-cluster'' b = (if add then 1 else 0)
          \<and> countPrefix ''--initial-cluster='' b = countPrefix ''--initial-cluster='' a
          \<and> countPrefix ''--initial-cluster-state='' b = countPrefix ''--initial-cluster-state='' a"
    using forceNewCmd_counts[of a add] by blast
next
  from rewrite_result[OF assms, of initialCluster initialClusterState] obtain pod' where
    "updateEtcdManifestForExistingCluster pod initialCluster initialClusterState = (pod', None)"
    "argsOf ''etcd'' pod' = Some (initialClusterCmd a initialCluster initialClusterState)"
    by blast
  then show "\<exists>pod' b.
            updateEtcdManifestForExistingCluster pod initialCluster initialClusterState = (pod', None)
          \<and> argsOf ''etcd'' pod' = Some b
          \<and> countPrefix ''--initial-cluster='' b = (if initialCluster = [] then 0 else 1)
          \<and> countPrefix ''--initial-cluster-state='' b = (if initialClusterState = [] then 0 else 1)
          \<and> countExact ''--force-new-cluster'' b = countExact ''--force-new-cluster'' a"
    using initialClusterCmd_counts[of a initialCluster initialClusterState] by blast
qed

text \<open>
  The amended claim on a manifest that has \<open>--initial-cluster=x\<close> and
  \<open>--force-new-cluster=true\<close>: adding the flag, and rewriting the initial cluster.
\<close>

theorem editor_invariant_per_edit_witness:
  "argsOf ''etcd'' (examplePod [''etcd'', ''--initial-cluster=x'', ''--force-new-cluster=true''])
     = Some [''etcd'', ''--initial-cluster=x'', ''--force-new-cluster=true'']
   \<and> updateForceNewClusterCommand
        (examplePod [''etcd'', ''--initial-cluster=x'', ''--force-new-cluster=true'']) ''etcd'' True
     = (examplePod [''etcd'', ''--initial-cluster=x'', ''--force-new-cluster''], True, None)
   \<and> updateEtcdManifestForExistingCluster
        (examplePod [''etcd'', ''--initial-cluster=x'', ''--force-new-cluster=true''])
        ''vm1=https://10.0.0.1:2380'' ''existing''
     = (examplePod [''etcd'', ''--force-new-cluster=true'',
          ''--initial-cluster=vm1=https://10.0.0.1:2380'', ''--initial-cluster-state=existing''], None)"
proof -
  have h: "argsOf ''etcd'' (examplePod [''etcd'', ''--initial-cluster=x'', ''--force-new-cluster=true''])
     = Some [''etcd'', ''--initial-cluster=x'', ''--force-new-cluster=true'']"
    by (rule argsOf_examplePod)
  from editor_invariant_per_edit[OF h, of True "''vm1=https://10.0.0.1:2380''" "''existing''"]
  show ?thesis
    by (simp add: argsOf_def compareSlice_def updateForceNewClusterCommand_def examplePod_def
        updateEtcdManifestForExistingCluster_def initialClusterCmd_def
        TrimSpace_def spaceRunes_def forceNewCmd_def countExact_def countPrefix_def Let_def)
qed

text \<open>
  Claim C4. For every manifest with an etcd container and either value of \<open>add\<close>, the
  toggle succeeds and \<open>changed\<close> is true exactly when the multiset of the etcd
  container's arguments after the edit differs from the one before. In particular
  \<open>changed\<close> is false when the edit can only reorder: when removing, no argument starts
  with \<open>--force-new-cluster\<close>; when adding, the only such argument is one
  \<open>--force-new-cluster\<close>, wherever it stands.
\<close>

theorem toggle_changed_iff_multiset:
  assumes "argsOf ''etcd'' pod = Some a"
  shows "\<exists>pod' changed b.
           updateForceNewClusterCommand pod ''etcd'' add = (pod', changed, None)
         \<and> argsOf ''etcd'' pod' = Some b
         \<and> (changed \<longleftrightarrow> mset a \<noteq> mset b)
         \<and> ((if add then countExact ''--force-new-cluster'' a = 1
                        \<and> countPrefix ''--force-new-cluster'' a = 1
              else countPrefix ''--force-new-cluster'' a = 0) \<longrightarrow> \<not> changed)"
proof -
  from toggle_result[OF assms, of add] obtain pod' where
    r: "updateForceNewClusterCommand pod ''etcd'' add
          = (pod', \<not> compareSlice a (forceNewCmd a add), None)"
    and b: "argsOf ''etcd'' pod' = Some (forceNewCmd a add)"
    by blast
  have "(\<not> compareSlice a (forceNewCmd a add)) \<longleftrightarrow> mset a \<noteq> mset (forceNewCmd a add)"
    by (simp add: compareSlice_mset)
  moreover have "(if add then countExact ''--force-new-cluster'' a = 1
                        \<and> countPrefix ''--force-new-cluster'' a = 1
              else countPrefix ''--force-new-cluster'' a = 0)
      \<longrightarrow> \<not> (\<not> compareSlice a (forceNewCmd a add))"
    using forceNewCmd_reorder[of add a] by (simp add: compareSlice_mset)
  ultimately show ?thesis using r b by blast
qed

text \<open>
  Claim C4 on a manifest whose force flag stands in the middle: adding the flag moves it
  to the end, and \<open>changed\<close> is false.
\<close>

theorem toggle_changed_iff_multiset_witness:
  "argsOf ''etcd'' (examplePod [''etcd'', ''--force-new-cluster'', ''--name=vm1''])
     = Some [''etcd'', ''--force-new-cluster'', ''--name=vm1'']
   \<and> updateForceNewClusterCommand
        (examplePod [''etcd'', ''--force-new-cluster'', ''--name=vm1'']) ''etcd'' True
     = (examplePod [''etcd'', ''--name=vm1'', ''--force-new-cluster''], False, None)"
proof -
  have h: "argsOf ''etcd'' (examplePod [''etcd'', ''--force-new-cluster'', ''--name=vm1''])
     = Some [''etcd'', ''--force-new-cluster'', ''--name=vm1'']"
    by (rule argsOf_examplePod)
  from toggle_changed_iff_multiset[OF h, of True]
  show ?thesis
    by (simp add: argsOf_def compareSlice_def updateForceNewClusterCommand_def examplePod_def
        TrimSpace_def spaceRunes_def forceNewCmd_def countExact_def countPrefix_def Let_def)
qed

section \<open>Running programs against the environment\<close>

lemma andThen_ret [simp]: "andThen (ret x) f = f x"
  by (simp add: andThen_def ret_def)

lemma andThen_panic [simp]: "andThen (panic m) f = panic m"
  by (simp add: andThen_def panic_def)

lemma andThen_call [simp]: "andThen (call w r) f tr = f (answer w tr r) (tr @ [r])"
  by (simp add: andThen_def call_def)

lemma ret_apply [simp]: "ret x tr = (Value x, tr)"
  by (simp add: ret_def)

lemma panic_apply [simp]: "panic m tr = (Panic m, tr)"
  by (simp add: panic_def)

lemma call_apply [simp]: "call w r tr = (Value (answer w tr r), tr @ [r])"
  by (simp add: call_def)

lemma andThen_assoc [simp]: "andThen (andThen m f) g = andThen m (\<lambda>x. andThen (f x) g)"
  by (auto simp: andThen_def fun_eq_iff split: prod.splits result.splits)

lemma andThen_Value: "m tr = (Value x, tr') \<Longrightarrow> andThen m f tr = f x tr'"
  by (simp add: andThen_def)

lemma andThen_Panic: "m tr = (Panic p, tr') \<Longrightarrow> andThen m f tr = (Panic p, tr')"
  by (simp add: andThen_def)

lemma retries_Suc: "retries r (Suc n) = [r, Sleep 5] @ retries r n"
  by (simp add: retries_def)

lemma retries_0 [simp]: "retries r 0 = []"
  by (simp add: retries_def)

lemma count_retries: "r \<noteq> Sleep 5 \<Longrightarrow> length (filter (\<lambda>q. q = r) (retries r n)) = n"
  by (induction n) (auto simp: retries_Suc)

lemma set_retries: "set (retries r n) \<subseteq> {r, Sleep 5}"
  by (induction n) (auto simp: retries_Suc)

lemma FormatInt_20 [simp]: "FormatInt 20 = ''20''"
  by (simp add: FormatInt_def digitsOf.simps digitChar_def)

lemma FormatInt_22 [simp]: "FormatInt 22 = ''22''"
  by (simp add: FormatInt_def digitsOf.simps digitChar_def)

lemma FormatInt_50 [simp]: "FormatInt 50 = ''50''"
  by (simp add: FormatInt_def digitsOf.simps digitChar_def)

lemma TrimSpace_containerID [simp]: "TrimSpace ''3f9c2e'' = ''3f9c2e''"
  by (simp add: TrimSpace_def spaceRunes_def)

section \<open>Properties of the hosts file and the SSH client\<close>

text \<open>
  Claim C7, as stated: an entry of the hosts file with both a password and a private key
  is a configuration error, reported before any remote work.

  It fails. The file \<open>hosts.json\<close> of \<open>hostsFileWorld\<close> holds the entry
  \<open>bothCredentials\<close>, which has the password \<open>changeme\<close> and the private key
  \<open>/root/.ssh/id_rsa\<close>. Parsing returns the entry without an error, the validation of the
  \<open>repair\<close> command accepts it, and \<open>NewClient\<close> dials the host with the password, the
  key file unread.
\<close>

theorem both_credentials_counterexample:
  "ParseHostFromFile hostsFileWorld ''hosts.json'' []
     = (Value ([bothCredentials], None), [ReadFile ''hosts.json''])
   \<and> Host.Password bothCredentials = ''changeme''
   \<and> PrivateKey bothCredentials = ''/root/.ssh/id_rsa''
   \<and> validateParams [bothCredentials] ''create'' = None
   \<and> NewClient hostsFileWorld (configOf bothCredentials) [ReadFile ''hosts.json'']
     = (Value (''10.100.72.7:22'', None),
        [ReadFile ''hosts.json'', HostKeyCallback,
         Dial ''10.100.72.7:22'' ''root'' [PasswordAuth ''changeme'']])"
  by (simp add: ParseHostFromFile_def hostsFileWorld_def exampleWorld_def bothCredentials_def
        vm_def validateParams_def NewClient_def configOf_def configureAuth_def ssh_Password_def
        configureHostKeyCallback_def JoinHostPort_def Let_def)

text \<open>
  Claim C7, amended. An entry with both a password and a private key is accepted:
  \<open>ParseHostFromFile\<close> returns what the decoder gives, unchecked. For an entry whose
  password is not empty, whatever its private key, \<open>configureAuth\<close> returns the password
  alone, without an error and without reading the key file; \<open>NewClient\<close> then sets up
  the host-key callback and, when that succeeds, dials the host with the password; when
  it fails, \<open>NewClient\<close> returns that failure. \<open>configureAuth\<close> returns an error only for
  an entry whose password is empty; for an entry with neither password nor private key
  \<open>NewClient\<close> fails, before the host-key callback and before dialling, with
  \<open>failed to configure auth: no private key/password found to configure SSH auth\<close>.
\<close>

theorem password_used_when_both_given:
  "(answer w tr (ReadFile path) = (data, None) \<and> jsonHosts w data = Inr hosts \<longrightarrow>
      ParseHostFromFile w path tr = (Value (hosts, None), tr @ [ReadFile path]))
   \<and> (Host.Password h \<noteq> [] \<longrightarrow>
        configureAuth w (Host.Password h) (PrivateKey h) (Passphrase h) tr
          = (Value ([PasswordAuth (Host.Password h)], None), tr))
   \<and> (Host.Password h \<noteq> [] \<and> answer w tr HostKeyCallback = (cb, None) \<longrightarrow>
        NewClient w (configOf h) tr
          = (Value (case snd (answer w (tr @ [HostKeyCallback])
                                (Dial (JoinHostPort (Host.Host h) ''22'') (Username h)
                                   [PasswordAuth (Host.Password h)])) of
                      None \<Rightarrow> (JoinHostPort (Host.Host h) ''22'', None)
                    | Some e \<Rightarrow> ([], Some e)),
             tr @ [HostKeyCallback,
                   Dial (JoinHostPort (Host.Host h) ''22'') (Username h)
                     [PasswordAuth (Host.Password h)]]))
   \<and> (Host.Password h \<noteq> [] \<and> answer w tr HostKeyCallback = (cb, Some e) \<longrightarrow>
        NewClient w (configOf h) tr
          = (Value ([], Some (ErrorNew (''failed to configure hostKeyCallBack: '' @ Error e))),
             tr @ [HostKeyCallback]))
   \<and> (\<forall>auth e' tr'.
          configureAuth w (Host.Password h) (PrivateKey h) (Passphrase h) tr
            = (Value (auth, Some e'), tr') \<longrightarrow> Host.Password h = [])
   \<and> (Host.Password h = [] \<and> PrivateKey h = [] \<longrightarrow>
        NewClient w (configOf h) tr
          = (Value ([], Some (ErrorNew
               ''failed to configure auth: no private key/password found to configure SSH auth'')),
             tr))"
  by (auto simp: ParseHostFromFile_def NewClient_def configOf_def configureAuth_def
        ssh_Password_def configureHostKeyCallback_def Let_def split: prod.splits option.splits)

text \<open>
  The amended claim on the entry \<open>bothCredentials\<close>, with and without a known-hosts
  file that can be opened, and on the same entry with both credentials removed.
\<close>

theorem password_used_when_both_given_witness:
  "ParseHostFromFile hostsFileWorld ''hosts.json'' []
     = (Value ([bothCredentials], None), [ReadFile ''hosts.json''])
   \<and> configureAuth hostsFileWorld ''changeme'' ''/root/.ssh/id_rsa'' [] []
     = (Value ([PasswordAuth ''changeme''], None), [])
   \<and> NewClient hostsFileWorld (configOf bothCredentials) []
     = (Value (''10.100.72.7:22'', None),
        [HostKeyCallback, Dial ''10.100.72.7:22'' ''root'' [PasswordAuth ''changeme'']])
   \<and> NewClient noKnownHostsWorld (configOf bothCredentials) []
     = (Value ([], Some (ErrorNew (''failed to configure hostKeyCallBack: ''
                                    @ ''open /root/.ssh/known_hosts: permission denied''))),
        [HostKeyCallback])
   \<and> Host.Password (bothCredentials\<lparr>Host.Password := [], PrivateKey := []\<rparr>) = []
   \<and> NewClient hostsFileWorld
        (configOf (bothCredentials\<lparr>Host.Password := [], PrivateKey := []\<rparr>)) []
     = (Value ([], Some (ErrorNew
          ''failed to configure auth: no private key/password found to configure SSH auth'')), [])"
  using password_used_when_both_given
          [of hostsFileWorld "[]" "''hosts.json''" "''hosts''" "[bothCredentials]" bothCredentials "[]"]
        password_used_when_both_given
          [of noKnownHostsWorld "[]" "''hosts.json''" "''hosts''" "[bothCredentials]" bothCredentials "[]"
              "ErrorNew ''open /root/.ssh/known_hosts: permission denied''"]
        password_used_when_both_given
          [of hostsFileWorld "[]" "''hosts.json''" "''hosts''" "[bothCredentials]"
              "bothCredentials\<lparr>Host.Password := [], PrivateKey := []\<rparr>" "[]"]
  by (simp add: hostsFileWorld_def noKnownHostsWorld_def exampleWorld_def bothCredentials_def
        vm_def JoinHostPort_def)

section \<open>Properties of the create-single-member task\<close>

text \<open>
  Claim C2, as stated: when the etcd container runs and the member list has more than
  one member, the task logs a warning, returns the first member's ID and changes nothing.

  The returned ID is not the first member's. In \<open>clusterWorld\<close> with the two voting
  members 1 and 2, where member 2 answers the query (the header of the response names
  it), the task returns \<open>2\<close>; the first member of the list has the ID \<open>1\<close>.
\<close>

theorem first_member_id_counterexample:
  "CreateSingleMemberClusterTask_Run
      (clusterWorld [voter 1 ''vm1'' ''10.100.72.7'', voter 2 ''vm2'' ''10.100.72.8''])
      \<lparr>CreateSingleMemberClusterTask.Description = ''CreateSingleMemberCluster'',
       BackupManifest = ''/root/etcd.yaml''\<rparr> ''10.100.72.8:22'' []
     = (Value (''2'', None),
        [TaskRun ''10.100.72.8:22'' (waitCommandTask waitForEtcdRunningTask),
         Log ''etcd container 3f9c2e is running'',
         TaskRun ''10.100.72.8:22'' (singleMemberTask ''3f9c2e''),
         Log multiMemberWarning])
   \<and> FormatUint (unat (Member.ID (voter 1 ''vm1'' ''10.100.72.7''))) 10 = ''1''"
  by (simp add: CreateSingleMemberClusterTask_Run_def WaitForEtcdRunningTask_Run_def
        clusterWorld_def clusterAnswers_def exampleWorld_def createFromRunning_def
        isSingleMemberCluster_def voter_def multiMemberWarning_def FormatUint_def
        digitsOf.simps digitChar_def singleMemberTask_def waitCommandTask_def
        waitForEtcdRunningTask_def waitTask_def cmdTask_def statusArgs_def)

text \<open>
  Claim C2, amended. When the command task that looks for the container answers with a
  container ID (not empty once trimmed) and the command task that lists the members
  answers with a list that decodes to more than one member and a response header, the
  task logs the warning and returns, without an error, the member ID of the response
  header in decimal: the ID of the member that answered. Its requests are, in this
  order, the command task for the container, the log line that the container is running,
  the command task for the member list and the warning: no download, no upload, no wait
  for a restart.
\<close>

theorem multi_member_returns_header_id:
  assumes running: "answer w tr (TaskRun client (waitCommandTask waitForEtcdRunningTask)) = (psOut, None)"
      and "TrimSpace psOut \<noteq> []"
      and listed: "answer w (tr @ [TaskRun client (waitCommandTask waitForEtcdRunningTask),
                                  runningLine (TrimSpace psOut)])
                     (TaskRun client (singleMemberTask (TrimSpace psOut))) = (out, None)"
      and decoded: "jsonMemberList w out = Inr resp"
      and many: "length (Members resp) > 1"
      and header: "Header resp = Some h"
  shows "CreateSingleMemberClusterTask_Run w t client tr
           = (Value (FormatUint (unat (MemberId h)) 10, None),
              tr @ [TaskRun client (waitCommandTask waitForEtcdRunningTask),
                    runningLine (TrimSpace psOut),
                    TaskRun client (singleMemberTask (TrimSpace psOut)),
                    Log multiMemberWarning])"
  using assms
  by (simp add: CreateSingleMemberClusterTask_Run_def WaitForEtcdRunningTask_Run_def
        createFromRunning_def isSingleMemberCluster_def multiMemberWarning_def runningLine_def
        Let_def)

text \<open>The amended claim in the environment of the counterexample.\<close>

theorem multi_member_returns_header_id_witness:
  "CreateSingleMemberClusterTask_Run
      (clusterWorld [voter 1 ''vm1'' ''10.100.72.7'', voter 2 ''vm2'' ''10.100.72.8''])
      \<lparr>CreateSingleMemberClusterTask.Description = ''CreateSingleMemberCluster'',
       BackupManifest = ''/root/etcd.yaml''\<rparr> ''10.100.72.8:22'' []
     = (Value (''2'', None),
        [TaskRun ''10.100.72.8:22'' (waitCommandTask waitForEtcdRunningTask),
         Log ''etcd container 3f9c2e is running'',
         TaskRun ''10.100.72.8:22'' (singleMemberTask ''3f9c2e''),
         Log multiMemberWarning])"
proof -
  let ?w = "clusterWorld [voter 1 ''vm1'' ''10.100.72.7'', voter 2 ''vm2'' ''10.100.72.8'']"
  let ?resp = "\<lparr>Header = Some \<lparr>MemberId = 2\<rparr>,
                Members = [voter 1 ''vm1'' ''10.100.72.7'', voter 2 ''vm2'' ''10.100.72.8'']\<rparr>"
  have 1: "answer ?w [] (TaskRun ''10.100.72.8:22'' (waitCommandTask waitForEtcdRunningTask))
             = (''3f9c2e'', None)"
    by (simp add: clusterWorld_def clusterAnswers_def exampleWorld_def)
  have 2: "TrimSpace ''3f9c2e'' \<noteq> []" by simp
  have 3: "answer ?w ([] @ [TaskRun ''10.100.72.8:22'' (waitCommandTask waitForEtcdRunningTask),
                            runningLine (TrimSpace ''3f9c2e'')])
             (TaskRun ''10.100.72.8:22'' (singleMemberTask (TrimSpace ''3f9c2e''))) = (''members'', None)"
    by (simp add: clusterWorld_def clusterAnswers_def exampleWorld_def singleMemberTask_def
          waitCommandTask_def cmdTask_def)
  have 4: "jsonMemberList ?w ''members'' = Inr ?resp"
    by (simp add: clusterWorld_def exampleWorld_def)
  have 5: "length (Members ?resp) > 1" by simp
  have 6: "Header ?resp = Some \<lparr>MemberId = 2\<rparr>" by simp
  from multi_member_returns_header_id[OF 1 2 3 4 5 6]
  show ?thesis
    by (simp add: FormatUint_def digitsOf.simps digitChar_def runningLine_def)
qed

text \<open>A member list decoded without a header makes the task panic, after the two queries.\<close>

lemma multi_member_without_header:
  assumes "answer w tr (TaskRun client (waitCommandTask waitForEtcdRunningTask)) = (psOut, None)"
      and "TrimSpace psOut \<noteq> []"
      and "answer w (tr @ [TaskRun client (waitCommandTask waitForEtcdRunningTask),
                           runningLine (TrimSpace psOut)])
             (TaskRun client (singleMemberTask (TrimSpace psOut))) = (out, None)"
      and "jsonMemberList w out = Inr resp"
      and "length (Members resp) \<noteq> 1"
      and "Header resp = None"
  shows "CreateSingleMemberClusterTask_Run w t client tr
           = (Panic ''invalid memory address or nil pointer dereference'',
              tr @ [TaskRun client (waitCommandTask waitForEtcdRunningTask),
                    runningLine (TrimSpace psOut),
                    TaskRun client (singleMemberTask (TrimSpace psOut))])"
  using assms
  by (simp add: CreateSingleMemberClusterTask_Run_def WaitForEtcdRunningTask_Run_def
        createFromRunning_def isSingleMemberCluster_def runningLine_def Let_def)

section \<open>Properties of the best-member selection\<close>

text \<open>
  The loop, started with any \<open>bestHosts\<close> and \<open>maxCommitIndex\<close>, when every host has a
  probe result \<open>P h\<close> that does not depend on what was probed before and none is fatal.
\<close>

lemma selectLoop_invariant:
  assumes "\<forall>h\<in>set hosts. \<forall>tr. \<exists>tr'. probeHost w h tr = (Value (P h), tr')"
      and "\<forall>h\<in>set hosts. \<forall>msg. P h \<noteq> Fatal msg"
  shows "\<exists>bestHosts m tr'.
           selectLoop w hosts best0 max0 tr = (Value (Inr (bestHosts, m)), tr')
         \<and> max0 \<le> m
         \<and> (\<forall>h\<in>set hosts. \<forall>i. P h = CommitIndex i \<longrightarrow> i \<le> m)
         \<and> (m = max0 \<or> (\<exists>h\<in>set hosts. P h = CommitIndex m))
         \<and> set bestHosts = (if m = max0 then set best0 else {})
                             \<union> {h \<in> set hosts. P h = CommitIndex m}"
  using assms
proof (induction hosts arbitrary: best0 max0 tr)
  case Nil
  then show ?case by simp
next
  case (Cons h rest)
  from Cons.prems(1) obtain tr1 where p: "probeHost w h tr = (Value (P h), tr1)"
    by (meson list.set_intros(1))
  have r1: "\<forall>h\<in>set rest. \<forall>tr. \<exists>tr'. probeHost w h tr = (Value (P h), tr')"
    using Cons.prems(1) by simp
  have r2: "\<forall>h\<in>set rest. \<forall>msg. P h \<noteq> Fatal msg"
    using Cons.prems(2) by simp
  note IH = Cons.IH[OF r1 r2]
  show ?case
  proof (cases "P h")
    case Skipped
    from IH[of best0 max0 tr1] obtain b m tr' where
      "selectLoop w rest best0 max0 tr1 = (Value (Inr (b, m)), tr')" "max0 \<le> m"
      "\<forall>h\<in>set rest. \<forall>i. P h = CommitIndex i \<longrightarrow> i \<le> m"
      "m = max0 \<or> (\<exists>h\<in>set rest. P h = CommitIndex m)"
      "set b = (if m = max0 then set best0 else {}) \<union> {h \<in> set rest. P h = CommitIndex m}"
      by blast
    then show ?thesis using p Skipped
      by (auto simp: andThen_Value[of "probeHost w h", OF p])
  next
    case (Fatal msg)
    with Cons.prems(2) show ?thesis by simp
  next
    case (CommitIndex c)
    consider "max0 < c" | "c = max0" | "c < max0" by linarith
    then show ?thesis
    proof cases
      case 1
      from IH[of "[h]" c tr1] obtain b m tr' where
        "selectLoop w rest [h] c tr1 = (Value (Inr (b, m)), tr')" "c \<le> m"
        "\<forall>h\<in>set rest. \<forall>i. P h = CommitIndex i \<longrightarrow> i \<le> m"
        "m = c \<or> (\<exists>h\<in>set rest. P h = CommitIndex m)"
        "set b = (if m = c then set [h] else {}) \<union> {h \<in> set rest. P h = CommitIndex m}"
        by blast
      then show ?thesis using p CommitIndex 1
        by (auto simp: andThen_Value[of "probeHost w h", OF p])
    next
      case 2
      from IH[of "best0 @ [h]" max0 tr1] obtain b m tr' where
        "selectLoop w rest (best0 @ [h]) max0 tr1 = (Value (Inr (b, m)), tr')" "max0 \<le> m"
        "\<forall>h\<in>set rest. \<forall>i. P h = CommitIndex i \<longrightarrow> i \<le> m"
        "m = max0 \<or> (\<exists>h\<in>set rest. P h = CommitIndex m)"
        "set b = (if m = max0 then set (best0 @ [h]) else {})
                   \<union> {h \<in> set rest. P h = CommitIndex m}"
        by blast
      then show ?thesis using p CommitIndex 2
        by (auto simp: andThen_Value[of "probeHost w h", OF p])
    next
      case 3
      from IH[of best0 max0 tr1] obtain b m tr' where
        "selectLoop w rest best0 max0 tr1 = (Value (Inr (b, m)), tr')" "max0 \<le> m"
        "\<forall>h\<in>set rest. \<forall>i. P h = CommitIndex i \<longrightarrow> i \<le> m"
        "m = max0 \<or> (\<exists>h\<in>set rest. P h = CommitIndex m)"
        "set b = (if m = max0 then set best0 else {}) \<union> {h \<in> set rest. P h = CommitIndex m}"
        by blast
      then show ?thesis using p CommitIndex 3
        by (auto simp: andThen_Value[of "probeHost w h", OF p])
    qed
  qed
qed

lemma selectLoop_maximal:
  assumes stable: "\<forall>h\<in>set hosts. \<forall>tr. \<exists>tr'. probeHost w h tr = (Value (P h), tr')"
      and nofatal: "\<forall>h\<in>set hosts. \<forall>msg. P h \<noteq> Fatal msg"
      and nonneg: "(\<exists>h\<in>set hosts. \<exists>i. P h = CommitIndex i) \<longrightarrow>
                   (\<exists>h\<in>set hosts. \<exists>i. P h = CommitIndex i \<and> 0 \<le> i)"
  shows "\<exists>bestHosts m tr'.
           selectLoop w hosts [] 0 tr = (Value (Inr (bestHosts, m)), tr')
         \<and> set bestHosts = maximalHosts P hosts
         \<and> (\<forall>h\<in>set bestHosts. P h = CommitIndex m)"
proof -
  from selectLoop_invariant[OF stable nofatal, of "[]" 0 tr] obtain b m tr' where
    r: "selectLoop w hosts [] 0 tr = (Value (Inr (b, m)), tr')" and "0 \<le> m"
    and ub: "\<forall>h\<in>set hosts. \<forall>i. P h = CommitIndex i \<longrightarrow> i \<le> m"
    and at: "m = 0 \<or> (\<exists>h\<in>set hosts. P h = CommitIndex m)"
    and sb: "set b = (if m = 0 then set [] else {}) \<union> {h \<in> set hosts. P h = CommitIndex m}"
    by blast
  from sb have sb': "set b = {h \<in> set hosts. P h = CommitIndex m}" by simp
  have "set b = maximalHosts P hosts"
  proof
    show "set b \<subseteq> maximalHosts P hosts"
      using sb' ub by (auto simp: maximalHosts_def)
    show "maximalHosts P hosts \<subseteq> set b"
    proof
      fix h assume "h \<in> maximalHosts P hosts"
      then obtain i where h: "h \<in> set hosts" "P h = CommitIndex i"
        and mx: "\<forall>h'\<in>set hosts. \<forall>j. P h' = CommitIndex j \<longrightarrow> j \<le> i"
        by (auto simp: maximalHosts_def)
      have "i \<le> m" using ub h by blast
      moreover have "m \<le> i"
        using at
      proof
        assume "m = 0"
        from nonneg h obtain h' j where "h' \<in> set hosts" "P h' = CommitIndex j" "0 \<le> j"
          by blast
        with mx have "0 \<le> i" by fastforce
        with \<open>m = 0\<close> show ?thesis by simp
      next
        assume "\<exists>h\<in>set hosts. P h = CommitIndex m"
        then show ?thesis using mx by blast
      qed
      ultimately have "i = m" by simp
      then show "h \<in> set b" using sb' h by simp
    qed
  qed
  moreover have "\<forall>h\<in>set b. P h = CommitIndex m" using sb' by simp
  ultimately show ?thesis using r by blast
qed

text \<open>
  Claim C9, as stated: for hosts whose probes succeed, the command reports exactly the
  probed hosts whose commit index is the maximum observed.

  It fails when every commit index read is negative. \<open>maxCommitIndex\<close> starts at zero
  and \<open>strconv.Atoi\<close> reads \<open>-1\<close>: on the two hosts of \<open>negativeWorld\<close>, both probed
  at \<open>-1\<close> and so both at the maximum observed, the command reports no host and the
  maximum 0.
\<close>

theorem negative_commit_index_counterexample:
  "fst (selectCommandFunc negativeWorld ''hosts.json'' []) = Value (Inr ([], 0))
   \<and> fst (probeHost negativeWorld (vm ''vm1'' ''10.100.72.7'') [ReadFile ''hosts.json''])
       = Value (CommitIndex (- 1))
   \<and> negativeProbe (vm ''vm1'' ''10.100.72.7'') = CommitIndex (- 1)
   \<and> negativeProbe (vm ''vm2'' ''10.100.72.8'') = CommitIndex (- 1)
   \<and> maximalHosts negativeProbe negativeHosts
       = {vm ''vm1'' ''10.100.72.7'', vm ''vm2'' ''10.100.72.8''}"
proof -
  have minus: "Atoi ''-1'' = Inr (- 1)"
    by (simp add: Atoi_def digitValue_def)
  have trim: "TrimSpace (''-1'' @ [CHR 0x0A]) = ''-1''"
    by (simp add: TrimSpace_def spaceRunes_def)
  have run: "fst (selectCommandFunc negativeWorld ''hosts.json'' []) = Value (Inr ([], 0))"
    by (simp add: selectCommandFunc_def ParseHostFromFile_def negativeHosts_def probeHost_def
          negativeWorld_def exampleWorld_def negativeAnswers_def vm_def NewClient_def configOf_def
          configureAuth_def ssh_Password_def configureHostKeyCallback_def JoinHostPort_def
          getTargetPath_def Let_def trim[simplified] minus andThen_def ret_def call_def)
  have probe: "fst (probeHost negativeWorld (vm ''vm1'' ''10.100.72.7'') [ReadFile ''hosts.json''])
                 = Value (CommitIndex (- 1))"
    by (simp add: probeHost_def negativeWorld_def exampleWorld_def negativeAnswers_def vm_def
          NewClient_def configOf_def configureAuth_def ssh_Password_def
          configureHostKeyCallback_def JoinHostPort_def getTargetPath_def Let_def
          trim[simplified] minus andThen_def ret_def call_def)
  have mx: "maximalHosts negativeProbe negativeHosts
              = {vm ''vm1'' ''10.100.72.7'', vm ''vm2'' ''10.100.72.8''}"
    by (auto simp: maximalHosts_def negativeProbe_def negativeHosts_def)
  from run probe mx show ?thesis by (simp add: negativeProbe_def)
qed

text \<open>
  Claim C9, amended. Let the hosts file parse to \<open>hosts\<close>, let every host have a probe
  result \<open>P h\<close> that does not depend on the order of probing (the host is skipped or its
  commit index is read; no probe ends the program), and, if a commit index is read at
  all, let one of those read be non-negative. Then the command ends normally and the
  hosts it reports are exactly the probed hosts whose commit index no probed host
  exceeds, \<open>maximalHosts P hosts\<close>; they all have the reported index; and the loop
  reports the same set of hosts for every list with the same hosts in another order.
\<close>

theorem select_reports_all_maximal:
  assumes parsed: "ParseHostFromFile w configFile tr0 = (Value (hosts, None), tr)"
      and stable: "\<forall>h\<in>set hosts. \<forall>tr. \<exists>tr'. probeHost w h tr = (Value (P h), tr')"
      and nofatal: "\<forall>h\<in>set hosts. \<forall>msg. P h \<noteq> Fatal msg"
      and nonneg: "(\<exists>h\<in>set hosts. \<exists>i. P h = CommitIndex i) \<longrightarrow>
                   (\<exists>h\<in>set hosts. \<exists>i. P h = CommitIndex i \<and> 0 \<le> i)"
  shows "\<exists>bestHosts m tr'.
           selectCommandFunc w configFile tr0 = (Value (Inr (bestHosts, m)), tr')
         \<and> set bestHosts = maximalHosts P hosts
         \<and> (\<forall>h\<in>set bestHosts. P h = CommitIndex m)
         \<and> (\<forall>hosts'. set hosts' = set hosts \<longrightarrow>
               (\<exists>bestHosts' m' tr''.
                  selectLoop w hosts' [] 0 tr = (Value (Inr (bestHosts', m')), tr'')
                \<and> set bestHosts' = set bestHosts))"
proof -
  from selectLoop_maximal[OF stable nofatal nonneg, of tr] obtain b m tr' where
    r: "selectLoop w hosts [] 0 tr = (Value (Inr (b, m)), tr')"
    and sb: "set b = maximalHosts P hosts" and pm: "\<forall>h\<in>set b. P h = CommitIndex m"
    by blast
  have run: "selectCommandFunc w configFile tr0 = (Value (Inr (b, m)), tr')"
    using r by (simp add: selectCommandFunc_def
                  andThen_Value[of "ParseHostFromFile w configFile", OF parsed])
  have perm: "\<forall>hosts'. set hosts' = set hosts \<longrightarrow>
               (\<exists>bestHosts' m' tr''.
                  selectLoop w hosts' [] 0 tr = (Value (Inr (bestHosts', m')), tr'')
                \<and> set bestHosts' = set b)"
  proof (intro allI impI)
    fix hosts' assume e: "set hosts' = set hosts"
    have s': "\<forall>h\<in>set hosts'. \<forall>tr. \<exists>tr'. probeHost w h tr = (Value (P h), tr')"
      using stable e by simp
    have f': "\<forall>h\<in>set hosts'. \<forall>msg. P h \<noteq> Fatal msg" using nofatal e by simp
    have n': "(\<exists>h\<in>set hosts'. \<exists>i. P h = CommitIndex i) \<longrightarrow>
                (\<exists>h\<in>set hosts'. \<exists>i. P h = CommitIndex i \<and> 0 \<le> i)"
      using nonneg e by simp
    from selectLoop_maximal[OF s' f' n', of tr] obtain b' m' tr'' where
      "selectLoop w hosts' [] 0 tr = (Value (Inr (b', m')), tr'')"
      "set b' = maximalHosts P hosts'" by blast
    moreover have "maximalHosts P hosts' = maximalHosts P hosts"
      using e by (simp add: maximalHosts_def)
    ultimately show "\<exists>bestHosts' m' tr''.
                  selectLoop w hosts' [] 0 tr = (Value (Inr (bestHosts', m')), tr'')
                \<and> set bestHosts' = set b"
      using sb by auto
  qed
  from run sb pm perm show ?thesis by blast
qed

lemma Atoi_120: "Atoi ''120'' = Inr 120"
  by (simp add: Atoi_def digitValue_def)

lemma Atoi_115: "Atoi ''115'' = Inr 115"
  by (simp add: Atoi_def digitValue_def)

text \<open>
  The amended claim on the four hosts of \<open>selectWorld\<close>: the two hosts at 120 are
  reported, the host at 115 and the unreachable host are not.
\<close>

theorem select_reports_all_maximal_witness:
  "fst (selectCommandFunc selectWorld ''hosts.json'' [])
     = Value (Inr ([vm ''vm1'' ''10.100.72.7'', vm ''vm2'' ''10.100.72.8''], 120))
   \<and> maximalHosts selectProbe selectHosts
     = {vm ''vm1'' ''10.100.72.7'', vm ''vm2'' ''10.100.72.8''}"
proof -
  have parsed: "ParseHostFromFile selectWorld ''hosts.json'' []
                  = (Value (selectHosts, None), [ReadFile ''hosts.json''])"
    by (simp add: ParseHostFromFile_def selectWorld_def exampleWorld_def selectAnswers_def)
  have stable: "\<forall>h\<in>set selectHosts. \<forall>tr. \<exists>tr'.
                  probeHost selectWorld h tr = (Value (selectProbe h), tr')"
    by (simp add: selectHosts_def probeHost_def selectWorld_def exampleWorld_def
          selectAnswers_def selectProbe_def vm_def NewClient_def configOf_def configureAuth_def
          ssh_Password_def configureHostKeyCallback_def JoinHostPort_def getTargetPath_def
          Let_def TrimSpace_def spaceRunes_def Atoi_120 Atoi_115)
  have nofatal: "\<forall>h\<in>set selectHosts. \<forall>msg. selectProbe h \<noteq> Fatal msg"
    by (simp add: selectProbe_def)
  have nonneg: "(\<exists>h\<in>set selectHosts. \<exists>i. selectProbe h = CommitIndex i) \<longrightarrow>
                  (\<exists>h\<in>set selectHosts. \<exists>i. selectProbe h = CommitIndex i \<and> 0 \<le> i)"
    by (simp add: selectProbe_def selectHosts_def vm_def)
  have mx: "maximalHosts selectProbe selectHosts
              = {vm ''vm1'' ''10.100.72.7'', vm ''vm2'' ''10.100.72.8''}"
    by (auto simp: maximalHosts_def selectProbe_def selectHosts_def vm_def)
  from select_reports_all_maximal[OF parsed stable nofatal nonneg]
  have "fst (selectCommandFunc selectWorld ''hosts.json'' [])
          = Value (Inr ([vm ''vm1'' ''10.100.72.7'', vm ''vm2'' ''10.100.72.8''], 120))"
    by (simp add: selectCommandFunc_def ParseHostFromFile_def selectHosts_def probeHost_def
          selectWorld_def exampleWorld_def selectAnswers_def vm_def NewClient_def configOf_def
          configureAuth_def ssh_Password_def configureHostKeyCallback_def JoinHostPort_def
          getTargetPath_def Let_def TrimSpace_def spaceRunes_def Atoi_120 Atoi_115
          andThen_def ret_def call_def)
  with mx show ?thesis by simp
qed

section \<open>Properties of the health check and of the promotion\<close>

lemma allWithoutErrors_True:
  "allWithoutErrors entries = Value True \<longleftrightarrow>
     (\<forall>s\<in>set entries. \<exists>r. Resp s = Some r \<and> Errors r = [])"
  by (induction entries) (auto split: option.splits)

lemma validate_True_iff:
  "validateClusterStatus w output = Value True \<longleftrightarrow>
     (\<exists>entries. jsonEpStatus w output = Inr entries \<and> entries \<noteq> []
        \<and> (\<forall>s\<in>set entries. \<exists>r. Resp s = Some r \<and> Errors r = []))"
  by (cases "jsonEpStatus w output")
     (auto simp: validateClusterStatus_def allWithoutErrors_True)

text \<open>The loop when none of the remaining attempts is accepted: it uses them all up.\<close>

lemma healthyLoop_all_unhealthy:
  "attempt + n = maxRetries \<Longrightarrow>
   (\<forall>i<n. unhealthy w (answer w (tr @ retries (TaskRun client (cmdTask cid args)) i)
                          (TaskRun client (cmdTask cid args)))) \<Longrightarrow>
   healthyLoop w client cid args msg maxRetries attempt tr =
     (Value (Some (ErrorNew (msg @ '' did not become healthy after '' @ FormatInt (int maxRetries)
                               @ '' attempts''))),
      tr @ retries (TaskRun client (cmdTask cid args)) n)"
proof (induction n arbitrary: attempt tr)
  case 0
  then show ?case by (subst healthyLoop.simps) simp
next
  case (Suc n)
  let ?Q = "TaskRun client (cmdTask cid args)"
  from Suc.prems(2) have "unhealthy w (answer w (tr @ retries ?Q 0) ?Q)" by blast
  then have u: "unhealthy w (answer w tr ?Q)" by simp
  have lt: "attempt < maxRetries" using Suc.prems(1) by simp
  have rest: "\<forall>i<n. unhealthy w (answer w ((tr @ [?Q, Sleep 5]) @ retries ?Q i) ?Q)"
  proof (intro allI impI)
    fix i assume "i < n"
    then have "unhealthy w (answer w (tr @ retries ?Q (Suc i)) ?Q)"
      using Suc.prems(2) by simp
    then show "unhealthy w (answer w ((tr @ [?Q, Sleep 5]) @ retries ?Q i) ?Q)"
      by (simp add: retries_Suc)
  qed
  have step: "healthyLoop w client cid args msg maxRetries attempt tr
      = healthyLoop w client cid args msg maxRetries (Suc attempt) (tr @ [?Q, Sleep 5])"
    using lt u
    by (subst healthyLoop.simps)
       (auto simp: execEtcdctl_def unhealthy_def split: prod.splits option.splits)
  have "Suc attempt + n = maxRetries" using Suc.prems(1) by simp
  from Suc.IH[OF this rest] show ?case
    by (simp add: step retries_Suc)
qed

text \<open>
  Claim C10. \<open>validateClusterStatus\<close> answers "not healthy" for output that does not
  decode and for output that decodes to an empty array; it answers "healthy" exactly
  when the output decodes to at least one entry and every entry has a status whose
  \<open>Errors\<close> list is empty. And the wait keeps retrying on such output: if each of the
  twenty attempts gets output that does not decode or decodes to the empty array, the
  wait makes all twenty attempts, sleeping five seconds after each, and fails.
\<close>

theorem health_requires_an_endpoint:
  "(\<forall>e. jsonEpStatus w output = Inl e \<longrightarrow> validateClusterStatus w output = Value False)
   \<and> (jsonEpStatus w output = Inr [] \<longrightarrow> validateClusterStatus w output = Value False)
   \<and> (validateClusterStatus w output = Value True \<longleftrightarrow>
        (\<exists>entries. jsonEpStatus w output = Inr entries \<and> entries \<noteq> []
           \<and> (\<forall>s\<in>set entries. \<exists>r. Resp s = Some r \<and> Errors r = [])))
   \<and> ((\<forall>i<20. \<exists>out. answer w (tr @ retries (TaskRun client (cmdTask cid (statusArgs cluster))) i)
                         (TaskRun client (cmdTask cid (statusArgs cluster))) = (out, None)
                    \<and> ((\<exists>e. jsonEpStatus w out = Inl e) \<or> jsonEpStatus w out = Inr [])) \<longrightarrow>
        waitForClusterOrMemberStatusHealthy w client cid cluster tr =
          (Value (Some (ErrorNew ((if cluster then ''cluster'' else ''current member'')
                                    @ '' did not become healthy after 20 attempts''))),
           tr @ retries (TaskRun client (cmdTask cid (statusArgs cluster))) 20))"
proof (intro conjI)
  show "\<forall>e. jsonEpStatus w output = Inl e \<longrightarrow> validateClusterStatus w output = Value False"
    by (simp add: validateClusterStatus_def)
  show "jsonEpStatus w output = Inr [] \<longrightarrow> validateClusterStatus w output = Value False"
    by (simp add: validateClusterStatus_def)
  show "validateClusterStatus w output = Value True \<longleftrightarrow>
        (\<exists>entries. jsonEpStatus w output = Inr entries \<and> entries \<noteq> []
           \<and> (\<forall>s\<in>set entries. \<exists>r. Resp s = Some r \<and> Errors r = []))"
    by (rule validate_True_iff)
  show "(\<forall>i<20. \<exists>out. answer w (tr @ retries (TaskRun client (cmdTask cid (statusArgs cluster))) i)
                         (TaskRun client (cmdTask cid (statusArgs cluster))) = (out, None)
                    \<and> ((\<exists>e. jsonEpStatus w out = Inl e) \<or> jsonEpStatus w out = Inr [])) \<longrightarrow>
        waitForClusterOrMemberStatusHealthy w client cid cluster tr =
          (Value (Some (ErrorNew ((if cluster then ''cluster'' else ''current member'')
                                    @ '' did not become healthy after 20 attempts''))),
           tr @ retries (TaskRun client (cmdTask cid (statusArgs cluster))) 20)"
  proof
    let ?Q = "TaskRun client (cmdTask cid (statusArgs cluster))"
    assume h: "\<forall>i<20. \<exists>out. answer w (tr @ retries ?Q i) ?Q = (out, None)
                    \<and> ((\<exists>e. jsonEpStatus w out = Inl e) \<or> jsonEpStatus w out = Inr [])"
    have u: "\<forall>i<20. unhealthy w (answer w (tr @ retries ?Q i) ?Q)"
    proof (intro allI impI)
      fix i :: nat assume "i < 20"
      with h obtain out where "answer w (tr @ retries ?Q i) ?Q = (out, None)"
        "(\<exists>e. jsonEpStatus w out = Inl e) \<or> jsonEpStatus w out = Inr []" by blast
      then show "unhealthy w (answer w (tr @ retries ?Q i) ?Q)"
        by (auto simp: unhealthy_def validateClusterStatus_def)
    qed
    have "0 + 20 = (20::nat)" by simp
    from healthyLoop_all_unhealthy[OF this u]
    show "waitForClusterOrMemberStatusHealthy w client cid cluster tr =
          (Value (Some (ErrorNew ((if cluster then ''cluster'' else ''current member'')
                                    @ '' did not become healthy after 20 attempts''))),
           tr @ retries ?Q 20)"
      by (simp add: waitForClusterOrMemberStatusHealthy_def statusArgs_def)
  qed
qed

text \<open>
  Claim C10 on a master whose status command always prints the empty array, and on the
  three kinds of output.
\<close>

theorem health_requires_an_endpoint_witness:
  "validateClusterStatus (statusWorld ''[]'') ''<html>'' = Value False
   \<and> validateClusterStatus (statusWorld ''[]'') ''[]'' = Value False
   \<and> validateClusterStatus (statusWorld ''[]'') ''healthy'' = Value True
   \<and> waitForClusterOrMemberStatusHealthy (statusWorld ''[]'') ''10.100.72.7:22'' ''3f9c2e'' True []
     = (Value (Some (ErrorNew ''cluster did not become healthy after 20 attempts'')),
        retries (TaskRun ''10.100.72.7:22'' (cmdTask ''3f9c2e'' (statusArgs True))) 20)"
  using health_requires_an_endpoint
          [of "statusWorld ''[]''" "''<html>''" "[]" "''10.100.72.7:22''" "''3f9c2e''" True]
        health_requires_an_endpoint
          [of "statusWorld ''[]''" "''[]''" "[]" "''10.100.72.7:22''" "''3f9c2e''" True]
        health_requires_an_endpoint
          [of "statusWorld ''[]''" "''healthy''" "[]" "''10.100.72.7:22''" "''3f9c2e''" True]
  by (simp add: statusWorld_def exampleWorld_def notJSON_def healthyStatus_def)

text \<open>The promotion when all remaining attempts fail, and when one succeeds.\<close>

lemma promoteLoop_all_fail:
  "attempt + n = maxRetries \<Longrightarrow>
   (\<forall>i<n. snd (answer w (tr @ retries (promoteRequest client cid mid) i)
                   (promoteRequest client cid mid)) \<noteq> None) \<Longrightarrow>
   promoteLoop w client cid mid maxRetries attempt lastErr tr =
     (Value (Some (promoteFailure maxRetries
        (if n = 0 then lastErr
         else snd (answer w (tr @ retries (promoteRequest client cid mid) (n - 1))
                     (promoteRequest client cid mid))))),
      tr @ retries (promoteRequest client cid mid) n)"
proof (induction n arbitrary: attempt lastErr tr)
  case 0
  then show ?case
    by (subst promoteLoop.simps) (simp add: promoteFailure_def split: option.splits)
next
  case (Suc n)
  let ?P = "promoteRequest client cid mid"
  from Suc.prems(2) have "snd (answer w (tr @ retries ?P 0) ?P) \<noteq> None" by blast
  then obtain out e where a: "answer w tr ?P = (out, Some e)"
    by (cases "answer w tr ?P") auto
  have lt: "attempt < maxRetries" using Suc.prems(1) by simp
  have rest: "\<forall>i<n. snd (answer w ((tr @ [?P, Sleep 5]) @ retries ?P i) ?P) \<noteq> None"
  proof (intro allI impI)
    fix i assume "i < n"
    then have "snd (answer w (tr @ retries ?P (Suc i)) ?P) \<noteq> None"
      using Suc.prems(2) by simp
    then show "snd (answer w ((tr @ [?P, Sleep 5]) @ retries ?P i) ?P) \<noteq> None"
      by (simp add: retries_Suc)
  qed
  have step: "promoteLoop w client cid mid maxRetries attempt lastErr tr
      = promoteLoop w client cid mid maxRetries (Suc attempt) (Some e) (tr @ [?P, Sleep 5])"
    using lt a
    by (subst promoteLoop.simps) (simp add: execEtcdctl_def promoteRequest_def)
  have "Suc attempt + n = maxRetries" using Suc.prems(1) by simp
  from Suc.IH[OF this rest, of "Some e"] show ?case
    using a by (cases n) (simp_all add: step retries_Suc)
qed

lemma promoteLoop_first_success:
  "attempt + k < maxRetries \<Longrightarrow>
   (\<forall>i<k. snd (answer w (tr @ retries (promoteRequest client cid mid) i)
                   (promoteRequest client cid mid)) \<noteq> None) \<Longrightarrow>
   snd (answer w (tr @ retries (promoteRequest client cid mid) k)
          (promoteRequest client cid mid)) = None \<Longrightarrow>
   promoteLoop w client cid mid maxRetries attempt lastErr tr =
     (Value None, tr @ retries (promoteRequest client cid mid) k @ [promoteRequest client cid mid])"
proof (induction k arbitrary: attempt lastErr tr)
  case 0
  let ?P = "promoteRequest client cid mid"
  from 0(3) obtain out where a: "answer w tr ?P = (out, None)"
    by (cases "answer w tr ?P") auto
  then show ?case using 0(1)
    by (subst promoteLoop.simps) (simp add: execEtcdctl_def promoteRequest_def)
next
  case (Suc k)
  let ?P = "promoteRequest client cid mid"
  from Suc.prems(2) have "snd (answer w (tr @ retries ?P 0) ?P) \<noteq> None" by blast
  then obtain out e where a: "answer w tr ?P = (out, Some e)"
    by (cases "answer w tr ?P") auto
  have lt: "attempt < maxRetries" using Suc.prems(1) by simp
  have rest: "\<forall>i<k. snd (answer w ((tr @ [?P, Sleep 5]) @ retries ?P i) ?P) \<noteq> None"
  proof (intro allI impI)
    fix i assume "i < k"
    then have "snd (answer w (tr @ retries ?P (Suc i)) ?P) \<noteq> None"
      using Suc.prems(2) by simp
    then show "snd (answer w ((tr @ [?P, Sleep 5]) @ retries ?P i) ?P) \<noteq> None"
      by (simp add: retries_Suc)
  qed
  have last: "snd (answer w ((tr @ [?P, Sleep 5]) @ retries ?P k) ?P) = None"
    using Suc.prems(3) by (simp add: retries_Suc)
  have step: "promoteLoop w client cid mid maxRetries attempt lastErr tr
      = promoteLoop w client cid mid maxRetries (Suc attempt) (Some e) (tr @ [?P, Sleep 5])"
    using lt a
    by (subst promoteLoop.simps) (simp add: execEtcdctl_def promoteRequest_def)
  have "Suc attempt + k < maxRetries" using Suc.prems(1) by simp
  from Suc.IH[OF this rest last, of "Some e"] show ?case
    by (simp add: step retries_Suc)
qed

text \<open>
  The calls of \<open>client.Run\<close> behind a trace of retries, and a command task of thirty
  seconds, polled every five, on the host that always refuses.
\<close>

lemma commandRuns_retries:
  "commandRuns answers (retries (TaskRun c t) n) = n * CommandTask_calls t answers"
  by (induction n) (simp_all add: retries_Suc commandRuns_def)

lemma refused_task:
  "CommandTask.Check t = Some ch \<Longrightarrow> Check.ExpectedExitCode ch = 0 \<Longrightarrow>
   Check.TimeoutSec ch = 30 \<Longrightarrow> Check.RetryIntervalSec ch = 5 \<Longrightarrow>
   snd (CommandTask_Run t refused) \<noteq> None \<and> CommandTask_calls t refused = 6"
  by (simp add: CommandTask_Run_def CommandTask_calls_def CommandTask_loop_def int64_def
        Second_def runLoop.simps runAttempt_def exitCodeOf_def refused_def)


text \<open>
  Claim C8, as stated: the \<open>member promote\<close> command is attempted at most 50 times.

  It fails for the runs of the command. An attempt of the loop is one command task of
  \<open>execEtcdctl\<close>, and \<open>CommandTask.Run\<close> polls the command for thirty seconds, every five
  seconds, before it gives up. On \<open>pollingWorld\<close>, where the command is refused each
  time, every one of the fifty command tasks runs the command six times: 300 runs.
\<close>

theorem promote_command_runs_counterexample:
  "snd (promoteLearner pollingWorld ''10.100.72.7:22'' ''3f9c2e'' ''8e9e05c52164694d'' [])
     = retries (promoteRequest ''10.100.72.7:22'' ''3f9c2e'' ''8e9e05c52164694d'') 50
   \<and> CommandTask_calls (cmdTask ''3f9c2e'' [''member'', ''promote'', ''8e9e05c52164694d''])
        refused = 6
   \<and> commandRuns refused
        (snd (promoteLearner pollingWorld ''10.100.72.7:22'' ''3f9c2e'' ''8e9e05c52164694d'' []))
       = 300"
proof -
  let ?t = "cmdTask ''3f9c2e'' [''member'', ''promote'', TrimSpace ''8e9e05c52164694d'']"
  let ?P = "promoteRequest ''10.100.72.7:22'' ''3f9c2e'' ''8e9e05c52164694d''"
  have ts: "TrimSpace ''8e9e05c52164694d'' = ''8e9e05c52164694d''"
    by (simp add: TrimSpace_def spaceRunes_def)
  have t: "snd (CommandTask_Run ?t refused) \<noteq> None \<and> CommandTask_calls ?t refused = 6"
    by (rule refused_task[where ch = "the (CommandTask.Check ?t)"]) (simp_all add: cmdTask_def)
  have fails: "\<forall>i<50. snd (answer pollingWorld ([] @ retries ?P i) ?P) \<noteq> None"
    using t by (simp add: pollingWorld_def exampleWorld_def promoteRequest_def)
  have "0 + 50 = (50::nat)" by simp
  from promoteLoop_all_fail[OF this fails, of None]
  have run: "snd (promoteLearner pollingWorld ''10.100.72.7:22'' ''3f9c2e'' ''8e9e05c52164694d'' [])
               = retries ?P 50"
    by (simp add: promoteLearner_def)
  have "commandRuns refused (retries ?P 50) = 50 * CommandTask_calls ?t refused"
    unfolding promoteRequest_def by (rule commandRuns_retries)
  with t run show ?thesis by (simp add: ts)
qed

text \<open>
  Claim C8, amended. Promotion runs at most fifty command tasks \<open>member promote\<close>, each
  of which may run the command several times: the loop ends at the first task that
  returns no error, after that task and without a sleep; every task that returns an
  error, whatever the error says, is followed by a sleep of five seconds and, while
  fewer than fifty tasks are run, by another task; and when all fifty fail the result is
  \<open>failed to promote member after 50 attempts\<close> wrapping the error of the fiftieth. The
  promotion always returns.
\<close>

theorem promote_at_most_fifty:
  "((\<forall>i<50. snd (answer w (tr @ retries (promoteRequest client containerID MemberID) i)
                    (promoteRequest client containerID MemberID)) \<noteq> None) \<longrightarrow>
      (\<exists>e. snd (answer w (tr @ retries (promoteRequest client containerID MemberID) 49)
                   (promoteRequest client containerID MemberID)) = Some e
          \<and> promoteLearner w client containerID MemberID tr =
              (Value (Some (Wrapf ''failed to promote member after 50 attempts: '' e [])),
               tr @ retries (promoteRequest client containerID MemberID) 50)))
   \<and> (\<forall>k<50. (\<forall>i<k. snd (answer w (tr @ retries (promoteRequest client containerID MemberID) i)
                            (promoteRequest client containerID MemberID)) \<noteq> None)
              \<and> snd (answer w (tr @ retries (promoteRequest client containerID MemberID) k)
                       (promoteRequest client containerID MemberID)) = None \<longrightarrow>
          promoteLearner w client containerID MemberID tr =
            (Value None, tr @ retries (promoteRequest client containerID MemberID) k
                            @ [promoteRequest client containerID MemberID]))
   \<and> (\<exists>r new. promoteLearner w client containerID MemberID tr = (Value r, tr @ new)
          \<and> length (filter (\<lambda>q. q = promoteRequest client containerID MemberID) new) \<le> 50
          \<and> set new \<subseteq> {promoteRequest client containerID MemberID, Sleep 5})"
proof -
  define P where "P = promoteRequest client containerID MemberID"
  have A: "(\<forall>i<50. snd (answer w (tr @ retries P i) P) \<noteq> None) \<Longrightarrow>
            (\<exists>e. snd (answer w (tr @ retries P 49) P) = Some e
                \<and> promoteLearner w client containerID MemberID tr =
                    (Value (Some (Wrapf ''failed to promote member after 50 attempts: '' e [])),
                     tr @ retries P 50))"
  proof -
    assume h: "\<forall>i<50. snd (answer w (tr @ retries P i) P) \<noteq> None"
    then have "snd (answer w (tr @ retries P 49) P) \<noteq> None" by simp
    then obtain e where e: "snd (answer w (tr @ retries P 49) P) = Some e" by auto
    have "0 + 50 = (50::nat)" by simp
    from promoteLoop_all_fail[OF this, of w tr client containerID MemberID None] h e
    show ?thesis
      by (simp add: promoteLearner_def P_def promoteFailure_def)
  qed
  have B: "\<And>k. k < 50 \<Longrightarrow> (\<forall>i<k. snd (answer w (tr @ retries P i) P) \<noteq> None) \<Longrightarrow>
              snd (answer w (tr @ retries P k) P) = None \<Longrightarrow>
              promoteLearner w client containerID MemberID tr = (Value None, tr @ retries P k @ [P])"
  proof -
    fix k :: nat
    assume k: "k < 50" and f: "\<forall>i<k. snd (answer w (tr @ retries P i) P) \<noteq> None"
      and s: "snd (answer w (tr @ retries P k) P) = None"
    have "0 + k < 50" using k by simp
    from promoteLoop_first_success[OF this, of w tr client containerID MemberID None] f s
    show "promoteLearner w client containerID MemberID tr = (Value None, tr @ retries P k @ [P])"
      by (simp add: promoteLearner_def P_def)
  qed
  have Pn: "P \<noteq> Sleep 5" by (simp add: P_def promoteRequest_def)
  have C: "\<exists>r new. promoteLearner w client containerID MemberID tr = (Value r, tr @ new)
              \<and> length (filter (\<lambda>q. q = P) new) \<le> 50
              \<and> set new \<subseteq> {P, Sleep 5}"
  proof (cases "\<forall>i<50. snd (answer w (tr @ retries P i) P) \<noteq> None")
    case True
    from A[OF True] obtain e where
      "promoteLearner w client containerID MemberID tr =
         (Value (Some (Wrapf ''failed to promote member after 50 attempts: '' e [])),
          tr @ retries P 50)" by blast
    moreover have "length (filter (\<lambda>q. q = P) (retries P 50)) \<le> 50"
      using count_retries[OF Pn, of 50] by simp
    moreover have "set (retries P 50) \<subseteq> {P, Sleep 5}" by (rule set_retries)
    ultimately show ?thesis by blast
  next
    case False
    define k where "k = (LEAST i. snd (answer w (tr @ retries P i) P) = None)"
    from False obtain j where j: "j < 50" "snd (answer w (tr @ retries P j) P) = None" by auto
    have ks: "snd (answer w (tr @ retries P k) P) = None"
      unfolding k_def using j(2) by (rule LeastI)
    have kle: "k \<le> j" unfolding k_def using j(2) by (rule Least_le)
    have kf: "\<forall>i<k. snd (answer w (tr @ retries P i) P) \<noteq> None"
      unfolding k_def using not_less_Least by blast
    have k50: "k < 50" using kle j(1) by simp
    from B[OF k50 kf ks]
    have r: "promoteLearner w client containerID MemberID tr = (Value None, tr @ retries P k @ [P])" .
    have "length (filter (\<lambda>q. q = P) (retries P k @ [P])) = Suc k"
      using count_retries[OF Pn, of k] by simp
    then have "length (filter (\<lambda>q. q = P) (retries P k @ [P])) \<le> 50" using k50 by simp
    moreover have "set (retries P k @ [P]) \<subseteq> {P, Sleep 5}" using set_retries[of P k] by auto
    ultimately show ?thesis using r by blast
  qed
  from A B C show ?thesis unfolding P_def by blast
qed

text \<open>
  The amended claim for a learner that is never in sync, and for one that is refused
  twice, the second time with another error, and promoted at the third attempt.
\<close>

theorem promote_at_most_fifty_witness:
  "promoteLearner laggingWorld ''10.100.72.7:22'' ''3f9c2e'' ''8e9e05c52164694d'' []
     = (Value (Some (Wrapf ''failed to promote member after 50 attempts: '' notInSync [])),
        retries (promoteRequest ''10.100.72.7:22'' ''3f9c2e'' ''8e9e05c52164694d'') 50)
   \<and> promoteLearner catchingUpWorld ''10.100.72.7:22'' ''3f9c2e'' ''8e9e05c52164694d'' []
     = (Value None,
        [promoteRequest ''10.100.72.7:22'' ''3f9c2e'' ''8e9e05c52164694d'', Sleep 5,
         promoteRequest ''10.100.72.7:22'' ''3f9c2e'' ''8e9e05c52164694d'', Sleep 5,
         promoteRequest ''10.100.72.7:22'' ''3f9c2e'' ''8e9e05c52164694d''])"
proof -
  let ?P = "promoteRequest ''10.100.72.7:22'' ''3f9c2e'' ''8e9e05c52164694d''"
  have Pn: "?P \<noteq> Sleep 5" by (simp add: promoteRequest_def)
  have lag: "\<forall>i<50. snd (answer laggingWorld ([] @ retries ?P i) ?P) \<noteq> None"
    by (simp add: laggingWorld_def exampleWorld_def)
  have lag49: "snd (answer laggingWorld ([] @ retries ?P 49) ?P) = Some notInSync"
    by (simp add: laggingWorld_def exampleWorld_def)
  have 1: "promoteLearner laggingWorld ''10.100.72.7:22'' ''3f9c2e'' ''8e9e05c52164694d'' []
     = (Value (Some (Wrapf ''failed to promote member after 50 attempts: '' notInSync [])),
        retries ?P 50)"
  proof -
    note A = conjunct1[OF promote_at_most_fifty
               [of laggingWorld "[]" "''10.100.72.7:22''" "''3f9c2e''" "''8e9e05c52164694d''"]]
    from mp[OF A lag] lag49 show ?thesis by auto
  qed
  have r1: "retries ?P (Suc 0) = [?P, Sleep 5]" by (simp add: retries_Suc)
  have r2: "retries ?P 2 = [?P, Sleep 5, ?P, Sleep 5]"
    by (simp add: retries_Suc numeral_2_eq_2)
  have f: "\<forall>i<2. snd (answer catchingUpWorld ([] @ retries ?P i) ?P) \<noteq> None"
    using Pn by (auto simp: less_2_cases_iff r1 catchingUpWorld_def exampleWorld_def)
  have s: "snd (answer catchingUpWorld ([] @ retries ?P 2) ?P) = None"
    using Pn by (simp add: r2 catchingUpWorld_def exampleWorld_def)
  have 2: "promoteLearner catchingUpWorld ''10.100.72.7:22'' ''3f9c2e'' ''8e9e05c52164694d'' []
     = (Value None, [?P, Sleep 5, ?P, Sleep 5, ?P])"
  proof -
    note B = conjunct1[OF conjunct2[OF promote_at_most_fifty
               [of catchingUpWorld "[]" "''10.100.72.7:22''" "''3f9c2e''" "''8e9e05c52164694d''"]]]
    have "(2::nat) < 50" by simp
    from B[rule_format, OF this] f s show ?thesis by (simp add: r2)
  qed
  from 1 2 show ?thesis by simp
qed

section \<open>Properties of the add-member task\<close>

text \<open>
  What each step appends to the trace: the container lookup one command and the line
  it logs, the health check
  its status command and its sleeps, the name lookup what \<open>NewClient\<close> and
  \<open>hostname\<close> need.
\<close>

lemma getEtcdContainerID_trace:
  "getEtcdContainerID w client tr = (r, tr') \<Longrightarrow>
   \<exists>new. tr' = tr @ TaskRun client (waitCommandTask waitTask) # new \<and> (\<forall>q\<in>set new. isLog q)"
  by (auto simp: getEtcdContainerID_def WaitForEtcdRunningTask_Run_def Let_def isLog_def
           split: prod.splits option.splits if_splits)

lemma healthyLoop_trace:
  "healthyLoop w client cid args msg maxRetries attempt tr = (r, tr') \<Longrightarrow>
   \<exists>new. tr' = tr @ new \<and> set new \<subseteq> {TaskRun client (cmdTask cid args), Sleep 5}"
proof (induction w client cid args msg maxRetries attempt arbitrary: tr r tr' rule: healthyLoop.induct)
  case (1 w client containerID args msg maxRetries attempt)
  let ?Q = "TaskRun client (cmdTask containerID args)"
  show ?case
  proof (cases "attempt < maxRetries")
    case False
    with "1.prems" show ?thesis
      by (subst (asm) healthyLoop.simps) auto
  next
    case True
    obtain out err where a: "answer w tr ?Q = (out, err)" by (cases "answer w tr ?Q") auto
    define v where "v = (case err of None \<Rightarrow> validateClusterStatus w out | Some e \<Rightarrow> Value False)"
    show ?thesis
    proof (cases v)
      case (Panic p)
      with "1.prems" True a show ?thesis
        by (subst (asm) healthyLoop.simps) (auto simp: execEtcdctl_def v_def)
    next
      case (Value b)
      show ?thesis
      proof (cases b)
        case True
        with "1.prems" \<open>attempt < maxRetries\<close> a Value show ?thesis
          by (subst (asm) healthyLoop.simps) (auto simp: execEtcdctl_def v_def)
      next
        case False
        with "1.prems" \<open>attempt < maxRetries\<close> a Value
        have rec: "healthyLoop w client containerID args msg maxRetries (Suc attempt)
                     (tr @ [?Q, Sleep 5]) = (r, tr')"
          by (subst (asm) healthyLoop.simps) (auto simp: execEtcdctl_def v_def)
        have "\<exists>new. tr' = (tr @ [?Q, Sleep 5]) @ new \<and> set new \<subseteq> {?Q, Sleep 5}"
        proof (rule "1.IH"[OF \<open>attempt < maxRetries\<close> _ _ rec])
          show "(case err of None \<Rightarrow> validateClusterStatus w out | Some e \<Rightarrow> Value False) = Value b"
            using Value by (simp add: v_def)
          show "b = False" using False by simp
        qed
        then obtain new where "tr' = (tr @ [?Q, Sleep 5]) @ new" "set new \<subseteq> {?Q, Sleep 5}" by blast
        then have "tr' = tr @ ([?Q, Sleep 5] @ new) \<and> set ([?Q, Sleep 5] @ new) \<subseteq> {?Q, Sleep 5}"
          by simp
        then show ?thesis by blast
      qed
    qed
  qed
qed

lemma NewClient_trace:
  "NewClient w config tr = (r, tr') \<Longrightarrow> \<exists>new. tr' = tr @ new \<and> (\<forall>q\<in>set new. nameLookup q)"
  by (auto simp: NewClient_def configureAuth_def ssh_PrivateKey_def getSigner_def ssh_Password_def
        configureHostKeyCallback_def nameLookup_def Let_def
        split: prod.splits option.splits if_splits sum.splits)


lemma FetchMemberName_trace:
  assumes "FetchMemberName w h tr = (r, tr')"
  shows "\<exists>new. tr' = tr @ new \<and> (\<forall>q\<in>set new. nameLookup q)"
proof (cases "MemberName h = []")
  case False
  with assms show ?thesis by (simp add: FetchMemberName_def)
next
  case True
  obtain c tr1 where n: "NewClient w (configOf h) tr = (c, tr1)"
    by (cases "NewClient w (configOf h) tr") auto
  from NewClient_trace[OF n] obtain new1 where
    t1: "tr1 = tr @ new1" and l1: "\<forall>q\<in>set new1. nameLookup q" by blast
  show ?thesis
  proof (cases c)
    case (Panic p)
    with assms True n have "tr' = tr1"
      by (simp add: FetchMemberName_def andThen_Panic[of "NewClient w (configOf h)", OF n[unfolded Panic]])
    with t1 l1 show ?thesis by blast
  next
    case (Value x)
    obtain client err where x: "x = (client, err)" by (cases x) auto
    note n' = n[unfolded Value x]
    show ?thesis
    proof (cases err)
      case (Some e)
      with assms True have "tr' = tr1"
        by (simp add: FetchMemberName_def andThen_Value[of "NewClient w (configOf h)", OF n'])
      with t1 l1 show ?thesis by blast
    next
      case None
      with assms True have "tr' = tr1 @ [ClientRun client ''hostname'', Close client]"
        by (auto simp: FetchMemberName_def andThen_Value[of "NewClient w (configOf h)", OF n']
              deferring_def split: prod.splits option.splits)
      then have "tr' = tr @ (new1 @ [ClientRun client ''hostname'', Close client])"
        using t1 by simp
      moreover have "\<forall>q\<in>set (new1 @ [ClientRun client ''hostname'', Close client]). nameLookup q"
        using l1 by (auto simp: nameLookup_def)
      ultimately show ?thesis by blast
    qed
  qed
qed

lemma Join_member_ne_status:
  "membershipCommand args \<Longrightarrow> Join args '' '' \<noteq> Join (statusArgs cluster) '' ''"
  by (cases args; cases "tl args"; cases "tl (tl args)")
     (auto simp: membershipCommand_def statusArgs_def)

lemma Join_member_ne_list:
  "membershipCommand args \<Longrightarrow> Join args '' '' \<noteq> ''member list -w json''"
  by (cases args; cases "tl args"; cases "tl (tl args)")
     (auto simp: membershipCommand_def)

lemma cmdTask_inj: "cmdTask cid args = cmdTask cid args' \<Longrightarrow> Join args '' '' = Join args' '' ''"
  by (simp add: cmdTask_def)

lemma queryRequest_harmless:
  assumes "queryRequest client containerID q"
  shows "\<not> isUpload q"
    and "membershipCommand args \<Longrightarrow> q \<noteq> TaskRun c (cmdTask containerID args)"
proof -
  show "\<not> isUpload q"
    using assms
    by (auto simp: queryRequest_def isUpload_def isLog_def nameLookup_def memberListRequest_def
             split: request.splits)
  assume m: "membershipCommand args"
  show "q \<noteq> TaskRun c (cmdTask containerID args)"
  proof
    assume e: "q = TaskRun c (cmdTask containerID args)"
    from assms consider "q = TaskRun client (waitCommandTask waitTask)"
      | "q = TaskRun client (cmdTask containerID (statusArgs True))"
      | "q = Sleep 5" | "q = memberListRequest client containerID" | "nameLookup q"
      | "isLog q"
      by (auto simp: queryRequest_def)
    then show False
    proof cases
      case 1
      with e have "waitCommandTask waitTask = cmdTask containerID args" by simp
      then have "CommandTask.Description (waitCommandTask waitTask)
                   = CommandTask.Description (cmdTask containerID args)" by simp
      then show False by (simp add: waitCommandTask_def cmdTask_def)
    next
      case 2
      with e have "cmdTask containerID args = cmdTask containerID (statusArgs True)" by simp
      from cmdTask_inj[OF this] Join_member_ne_status[OF m] show False by blast
    next
      case 3
      with e show False by simp
    next
      case 4
      with e have "cmdTask containerID args = cmdTask containerID [''member'', ''list'', ''-w'', ''json'']"
        by (simp add: memberListRequest_def)
      from cmdTask_inj[OF this] Join_member_ne_list[OF m] show False by simp
    next
      case 5
      with e show False by (simp add: nameLookup_def)
    next
      case 6
      with e show False by (simp add: isLog_def)
    qed
  qed
qed

lemma queries_trace:
  assumes container: "getEtcdContainerID w client tr = (Value (containerID, None), tr1)"
      and healthy: "waitForClusterOrMemberStatusHealthy w client containerID True tr1 = (Value None, tr2)"
      and name: "FetchMemberName w (Learner t) (tr2 @ [memberListRequest client containerID])
                   = (Value (learnerMemberName, None), tr4)"
  shows "\<exists>new. tr4 = tr @ new \<and> (\<forall>q\<in>set new. queryRequest client containerID q)"
proof -
  from getEtcdContainerID_trace[OF container] obtain new1 where
    1: "tr1 = tr @ TaskRun client (waitCommandTask waitTask) # new1"
    and s1: "\<forall>q\<in>set new1. isLog q" by blast
  from healthy have "healthyLoop w client containerID (statusArgs True) ''cluster'' 20 0 tr1
                       = (Value None, tr2)"
    by (simp add: waitForClusterOrMemberStatusHealthy_def statusArgs_def)
  from healthyLoop_trace[OF this] obtain new2 where
    2: "tr2 = tr1 @ new2"
    and s2: "set new2 \<subseteq> {TaskRun client (cmdTask containerID (statusArgs True)), Sleep 5}"
    by blast
  from FetchMemberName_trace[OF name] obtain new4 where
    4: "tr4 = (tr2 @ [memberListRequest client containerID]) @ new4"
    and s4: "\<forall>q\<in>set new4. nameLookup q" by blast
  let ?new = "TaskRun client (waitCommandTask waitTask) # new1 @ new2
                @ [memberListRequest client containerID] @ new4"
  have "tr4 = tr @ ?new" using 1 2 4 by simp
  moreover have "\<forall>q\<in>set ?new. queryRequest client containerID q"
    using s1 s2 s4 by (auto simp: queryRequest_def)
  ultimately show ?thesis by blast
qed


text \<open>The first steps of the task in \<open>clusterWorld\<close>, whatever the members listed.\<close>

lemma cw_container:
  "getEtcdContainerID (clusterWorld ms) c tr
     = (Value (''3f9c2e'', None),
        tr @ [TaskRun c (waitCommandTask waitTask), Log ''etcd container 3f9c2e is running''])"
  by (simp add: getEtcdContainerID_def WaitForEtcdRunningTask_Run_def clusterWorld_def
        clusterAnswers_def exampleWorld_def Let_def)

lemma cw_healthy:
  "waitForClusterOrMemberStatusHealthy (clusterWorld ms) c ''3f9c2e'' True tr
     = (Value None, tr @ [TaskRun c (cmdTask ''3f9c2e'' (statusArgs True))])"
  unfolding waitForClusterOrMemberStatusHealthy_def Let_def
  by (subst healthyLoop.simps)
     (simp add: execEtcdctl_def clusterWorld_def clusterAnswers_def exampleWorld_def
        statusArgs_def validateClusterStatus_def healthyStatus_def waitCommandTask_def
        cmdTask_def)

lemma cw_listed:
  "answer (clusterWorld ms) tr (memberListRequest c ''3f9c2e'') = (''members'', None)"
  by (simp add: clusterWorld_def clusterAnswers_def exampleWorld_def memberListRequest_def
        waitCommandTask_def cmdTask_def statusArgs_def)

lemma cw_decoded:
  "jsonMemberList (clusterWorld ms) ''members''
     = Inr \<lparr>Header = Some \<lparr>MemberId = 2\<rparr>, Members = ms\<rparr>"
  by (simp add: clusterWorld_def exampleWorld_def)

lemma cw_name: "FetchMemberName (clusterWorld ms) (Learner addVm2) tr = (Value (''vm2'', None), tr)"
  by (simp add: FetchMemberName_def addVm2_def vm_def)


text \<open>
  Claim C6, as stated: when the member list of the master contains a voting member with a
  peer URL on the learner's address, the task returns \<open>learner already promoted\<close> and
  issues no \<open>member add\<close>, \<open>member remove\<close> or \<open>member promote\<close>.

  It fails. \<open>querryMember\<close> returns the first member, in the order of the list, with
  a peer URL on the learner's address, and \<open>addOrPromoteLearner\<close> looks at that member
  only. The master below lists the learner \<open>vm2-old\<close> on \<open>10.100.72.8\<close> before the
  voting member \<open>vm2\<close> on the same address: the task answers
  \<open>learner already promoted\<close>, having issued \<open>member promote 3\<close>.
\<close>

theorem voter_not_first_counterexample:
  "AddMemberTask_Run
      (clusterWorld [learner 3 ''vm2-old'' ''https://10.100.72.8:12380'',
                     voter 2 ''vm2'' ''10.100.72.8''])
      addVm2 ''10.100.72.7:22'' []
     = (Value (''learner already promoted'', None),
        [TaskRun ''10.100.72.7:22'' (waitCommandTask waitTask),
         Log ''etcd container 3f9c2e is running'',
         TaskRun ''10.100.72.7:22'' (cmdTask ''3f9c2e'' (statusArgs True)),
         memberListRequest ''10.100.72.7:22'' ''3f9c2e'',
         TaskRun ''10.100.72.7:22'' (cmdTask ''3f9c2e'' [''member'', ''promote'', ''3''])])
   \<and> atLearnerHost
        (clusterWorld [learner 3 ''vm2-old'' ''https://10.100.72.8:12380'',
                       voter 2 ''vm2'' ''10.100.72.8''])
        addVm2 (voter 2 ''vm2'' ''10.100.72.8'')
   \<and> IsLearner (voter 2 ''vm2'' ''10.100.72.8'') = False
   \<and> membershipCommand [''member'', ''promote'', ''3'']"
proof -
  let ?ms = "[learner 3 ''vm2-old'' ''https://10.100.72.8:12380'', voter 2 ''vm2'' ''10.100.72.8'']"
  let ?w = "clusterWorld ?ms"
  let ?c = "''10.100.72.7:22''"
  let ?W = "TaskRun ?c (waitCommandTask waitTask)"
  let ?R = "Log ''etcd container 3f9c2e is running''"
  let ?S = "TaskRun ?c (cmdTask ''3f9c2e'' (statusArgs True))"
  let ?L = "memberListRequest ?c ''3f9c2e''"
  have members: "getMembers ?w ?c ''3f9c2e'' [?W, ?R, ?S]
                   = (Value (Some \<lparr>Header = Some \<lparr>MemberId = 2\<rparr>, Members = ?ms\<rparr>, None),
                      [?W, ?R, ?S, ?L])"
    using cw_listed[of ?ms "[?W, ?R, ?S]" ?c] cw_decoded[of ?ms]
    by (simp add: getMembers_def execEtcdctl_def memberListRequest_def)
  have first: "find (atLearnerHost ?w addVm2) ?ms
                  = Some (learner 3 ''vm2-old'' ''https://10.100.72.8:12380'')"
    by (simp add: atLearnerHost_def learner_def voter_def addVm2_def vm_def
          extractIPFromPeerURL_def clusterWorld_def exampleWorld_def exampleHostname_def)
  have q: "querryMember ?w addVm2 ?c ''3f9c2e'' [?W, ?R, ?S]
             = (Value (Some (learner 3 ''vm2-old'' ''https://10.100.72.8:12380''), None), [?W, ?R, ?S, ?L])"
    by (simp only: querryMember_def andThen_Value[of "getMembers ?w ?c ''3f9c2e''", OF members]
          andThen_Value[of "FetchMemberName ?w (Learner addVm2)", OF cw_name]
          prod.case option.case MemberListResponse.simps first ret_def)
  have hex: "FormatUint (unat (3 :: 64 word)) 16 = ''3''"
    by (simp add: FormatUint_def digitsOf.simps digitChar_def)
  have ts: "TrimSpace ''3'' = ''3''" by (simp add: TrimSpace_def spaceRunes_def)
  have ok: "snd (answer ?w ([?W, ?R, ?S, ?L] @ retries (promoteRequest ?c ''3f9c2e'' ''3'') 0)
                   (promoteRequest ?c ''3f9c2e'' ''3'')) = None"
    by (simp add: clusterWorld_def clusterAnswers_def exampleWorld_def promoteRequest_def
          waitCommandTask_def cmdTask_def statusArgs_def singleMemberTask_def ts)
  have "0 + 0 < (50::nat)" by simp
  from promoteLoop_first_success[OF this _ ok, of None]
  have p: "promoteLearner ?w ?c ''3f9c2e'' ''3'' [?W, ?R, ?S, ?L]
             = (Value None, [?W, ?R, ?S, ?L, promoteRequest ?c ''3f9c2e'' ''3''])"
    by (simp add: promoteLearner_def)
  have m: "IsLearner (learner 3 ''vm2-old'' ''https://10.100.72.8:12380'')"
          "Member.Name (learner 3 ''vm2-old'' ''https://10.100.72.8:12380'') \<noteq> []"
          "FormatUint (unat (Member.ID (learner 3 ''vm2-old'' ''https://10.100.72.8:12380''))) 16 = ''3''"
    using hex by (simp_all add: learner_def)
  have a: "addOrPromoteLearner ?w addVm2 ?c [] =
             (Value (True, None), [?W, ?R, ?S, ?L, promoteRequest ?c ''3f9c2e'' ''3''])"
    by (simp add: addOrPromoteLearner_def
          andThen_Value[of "getEtcdContainerID ?w ?c", OF cw_container[of ?ms ?c "[]"], simplified]
          andThen_Value[of "waitForClusterOrMemberStatusHealthy ?w ?c ''3f9c2e'' True",
                        OF cw_healthy[of ?ms ?c "[?W, ?R]"], simplified]
          andThen_Value[of "querryMember ?w addVm2 ?c ''3f9c2e''", OF q]
          m andThen_Value[of "promoteLearner ?w ?c ''3f9c2e'' ''3''", OF p])
  have run: "AddMemberTask_Run ?w addVm2 ?c [] =
               (Value (''learner already promoted'', None),
                [?W, ?R, ?S, ?L, promoteRequest ?c ''3f9c2e'' ''3''])"
    by (simp add: AddMemberTask_Run_def andThen_Value[of "addOrPromoteLearner ?w addVm2 ?c", OF a])
  have at: "atLearnerHost ?w addVm2 (voter 2 ''vm2'' ''10.100.72.8'')"
    by (simp add: atLearnerHost_def voter_def addVm2_def vm_def extractIPFromPeerURL_def
          clusterWorld_def exampleWorld_def exampleHostname_def)
  show ?thesis
    using run at by (simp add: promoteRequest_def ts voter_def membershipCommand_def)
qed

text \<open>
  Claim C6, amended. When the container lookup, the cluster health check, the member list
  and the lookup of the learner's member name succeed, and the first member of the list, in
  its order, with a peer URL on the learner's address is a voting member, the task returns
  \<open>learner already promoted\<close>. Everything it has asked by then is a query or a line
  on the log: the container lookup and the line it logs, the status command and its
  sleeps, the member list, the name lookup. No file is uploaded and no \<open>member add\<close>, \<open>member remove\<close> or
  \<open>member promote\<close> is run in the container, on any client.
\<close>

theorem voter_found_first_no_mutation:
  assumes container: "getEtcdContainerID w client tr = (Value (containerID, None), tr1)"
      and healthy: "waitForClusterOrMemberStatusHealthy w client containerID True tr1 = (Value None, tr2)"
      and listed: "answer w tr2 (memberListRequest client containerID) = (out, None)"
      and decoded: "jsonMemberList w out = Inr resp"
      and name: "FetchMemberName w (Learner t) (tr2 @ [memberListRequest client containerID])
                   = (Value (learnerMemberName, None), tr4)"
      and found: "find (atLearnerHost w t) (Members resp) = Some m"
      and voter: "\<not> IsLearner m"
  shows "AddMemberTask_Run w t client tr = (Value (''learner already promoted'', None), tr4)
       \<and> (\<exists>new. tr4 = tr @ new
             \<and> (\<forall>q\<in>set new. queryRequest client containerID q)
             \<and> (\<forall>q\<in>set new. \<not> isUpload q)
             \<and> (\<forall>c args. membershipCommand args \<longrightarrow>
                    TaskRun c (cmdTask containerID args) \<notin> set new))"
proof -
  have members: "getMembers w client containerID tr2
                   = (Value (Some resp, None), tr2 @ [memberListRequest client containerID])"
    using listed decoded
    by (simp add: getMembers_def execEtcdctl_def memberListRequest_def)
  have q: "querryMember w t client containerID tr2 = (Value (Some m, None), tr4)"
    using found
    by (simp add: querryMember_def andThen_Value[of "getMembers w client containerID", OF members]
          andThen_Value[of "FetchMemberName w (Learner t)", OF name])
  have a: "addOrPromoteLearner w t client tr = (Value (True, None), tr4)"
    using voter
    by (simp add: addOrPromoteLearner_def
          andThen_Value[of "getEtcdContainerID w client", OF container]
          andThen_Value[of "waitForClusterOrMemberStatusHealthy w client containerID True", OF healthy]
          andThen_Value[of "querryMember w t client containerID", OF q])
  have run: "AddMemberTask_Run w t client tr = (Value (''learner already promoted'', None), tr4)"
    by (simp add: AddMemberTask_Run_def andThen_Value[of "addOrPromoteLearner w t client", OF a])
  from queries_trace[OF container healthy name] obtain new where
    n: "tr4 = tr @ new" and qs: "\<forall>q\<in>set new. queryRequest client containerID q" by blast
  have "\<forall>q\<in>set new. \<not> isUpload q"
    using qs queryRequest_harmless(1) by blast
  moreover have "\<forall>c args. membershipCommand args \<longrightarrow>
                    TaskRun c (cmdTask containerID args) \<notin> set new"
    using qs queryRequest_harmless(2) by blast
  ultimately show ?thesis using run n qs by blast
qed

text \<open>
  The amended claim for a master that lists two voting members, the second on the
  learner's address.
\<close>

theorem voter_found_first_no_mutation_witness:
  "AddMemberTask_Run
      (clusterWorld [voter 1 ''vm1'' ''10.100.72.7'', voter 2 ''vm2'' ''10.100.72.8''])
      addVm2 ''10.100.72.7:22'' []
     = (Value (''learner already promoted'', None),
        [TaskRun ''10.100.72.7:22'' (waitCommandTask waitTask),
         Log ''etcd container 3f9c2e is running'',
         TaskRun ''10.100.72.7:22'' (cmdTask ''3f9c2e'' (statusArgs True)),
         memberListRequest ''10.100.72.7:22'' ''3f9c2e''])"
proof -
  let ?ms = "[voter 1 ''vm1'' ''10.100.72.7'', voter 2 ''vm2'' ''10.100.72.8'']"
  let ?w = "clusterWorld ?ms"
  let ?c = "''10.100.72.7:22''"
  have found: "find (atLearnerHost ?w addVm2) (Members \<lparr>Header = Some \<lparr>MemberId = 2\<rparr>, Members = ?ms\<rparr>)
                 = Some (voter 2 ''vm2'' ''10.100.72.8'')"
    by (simp add: atLearnerHost_def voter_def addVm2_def vm_def extractIPFromPeerURL_def
          clusterWorld_def exampleWorld_def exampleHostname_def)
  have v: "\<not> IsLearner (voter 2 ''vm2'' ''10.100.72.8'')" by (simp add: voter_def)
  from voter_found_first_no_mutation
         [OF cw_container cw_healthy cw_listed cw_decoded cw_name found v, of ?c "[]"]
  show ?thesis by simp
qed



end
